(* ===== verification/Prelude.thy ===== *)
theory Prelude
  imports Main "HOL-Library.Sublist"
begin

text \<open>
  Shared vocabulary of the development. The Python programs of the repository are
  dynamically typed, so the values that flow through the library application (JSON
  payloads decoded by the web framework, the fields of a \<open>Libro\<close> object) are
  modelled by one datatype \<open>pyval\<close> of Python values: \<open>None\<close>, booleans, integers,
  strings, lists and dicts (a dict as an association list with distinct keys, in
  insertion order, as \<open>json.loads\<close> builds it). Floats are not modelled: no handler of
  the library application computes with a number it receives.
  Python's truth test \<open>bool(v)\<close> is \<open>py_truthy\<close>, Python's \<open>==\<close> is \<open>py_eq\<close>
  (where \<open>True == 1\<close> holds and dicts compare without regard to key order), the
  membership test \<open>k in v\<close> and the subscript \<open>v[k]\<close> by a string are
  \<open>py_in_str\<close> and \<open>py_getitem\<close>, and raise \<open>TypeError\<close> or \<open>KeyError\<close>
  exactly where CPython does. Strings are Isabelle strings holding the UTF-8 bytes of
  the Python text; \<open>py_len\<close> counts code points as Python's \<open>len\<close> does.
  The theory also holds the list operation that models a mutation through a reference
  returned by a linear search (\<open>map_first\<close>) and the list lemmas the components share.
\<close>

named_theorems py_simps "evaluation rules of the Python value model"
named_theorems catalog_simps "rules shared by the proofs about the book catalogs"

section \<open>Python values\<close>

datatype pyval =
    PNone
  | PBool bool
  | PInt int
  | PStr string
  | PList "pyval list"
  | PDict "(string \<times> pyval) list"

datatype py_class = NoneType | BoolType | IntType | StrType | ListType | DictType

datatype py_exc = TypeError | KeyError string

text \<open>\<open>type(v)\<close>.\<close>

fun py_type :: "pyval \<Rightarrow> py_class" where
  "py_type PNone = NoneType"
| "py_type (PBool _) = BoolType"
| "py_type (PInt _) = IntType"
| "py_type (PStr _) = StrType"
| "py_type (PList _) = ListType"
| "py_type (PDict _) = DictType"

text \<open>\<open>bool(v)\<close>: \<open>None\<close>, \<open>False\<close>, \<open>0\<close> and empty containers are false.\<close>

fun py_truthy :: "pyval \<Rightarrow> bool" where
  "py_truthy PNone = False"
| "py_truthy (PBool b) = b"
| "py_truthy (PInt i) = (i \<noteq> 0)"
| "py_truthy (PStr s) = (s \<noteq> [])"
| "py_truthy (PList xs) = (xs \<noteq> [])"
| "py_truthy (PDict d) = (d \<noteq> [])"

text \<open>
  \<open>a == b\<close>. \<open>bool\<close> is a subclass of \<open>int\<close>, so \<open>True == 1\<close>; lists compare
  element-wise; two dicts are equal when they have the same length and every key of the
  first is a key of the second with an equal value (CPython's \<open>dict_equal\<close>).
\<close>

function (sequential) py_eq :: "pyval \<Rightarrow> pyval \<Rightarrow> bool" where
  "py_eq PNone PNone = True"
| "py_eq (PBool a) (PBool b) = (a = b)"
| "py_eq (PBool a) (PInt j) = (of_bool a = j)"
| "py_eq (PInt i) (PBool b) = (i = of_bool b)"
| "py_eq (PInt i) (PInt j) = (i = j)"
| "py_eq (PStr s) (PStr t) = (s = t)"
| "py_eq (PList xs) (PList ys) =
     (length xs = length ys \<and> list_all (\<lambda>(x, y). py_eq x y) (zip xs ys))"
| "py_eq (PDict a) (PDict b) =
     (length a = length b \<and>
      list_all (\<lambda>(k, v). case map_of b k of None \<Rightarrow> False | Some w \<Rightarrow> py_eq v w) a)"
| "py_eq _ _ = False"
  by pat_completeness auto

lemma size_pyval_dict_value:
  "(k, v) \<in> set a \<Longrightarrow> size v < Suc (size_list (size_prod (\<lambda>x. 0) size) a)"
  by (induction a) auto

lemma size_pyval_list_elem: "x \<in> set xs \<Longrightarrow> size x < Suc (size_list size xs)"
  by (induction xs) auto

termination py_eq
proof (relation "measure (\<lambda>(x, y). size x)")
  show "wf (measure (\<lambda>(x, y). size x))" by simp
next
  fix xs ys :: "pyval list" and p x y
  assume "p \<in> set (zip xs ys)" "(x, y) = p"
  then have "x \<in> set xs" by (metis set_zip_leftD)
  then show "((x, y), PList xs, PList ys) \<in> measure (\<lambda>(x, y). size x)"
    by (simp add: size_pyval_list_elem)
next
  fix a b :: "(string \<times> pyval) list" and p k v w
  assume "p \<in> set a" "(k, v) = p"
  then have "(k, v) \<in> set a" by simp
  then show "((v, w), PDict a, PDict b) \<in> measure (\<lambda>(x, y). size x)"
    by (simp add: size_pyval_dict_value)
qed

lemma py_eq_PStr_right [simp, py_simps]: "py_eq v (PStr s) = (v = PStr s)"
  by (cases v) auto

lemma py_eq_PStr_left [simp, py_simps]: "py_eq (PStr s) v = (v = PStr s)"
  by (cases v) auto

text \<open>\<open>k in v\<close> for a string \<open>k\<close>: key of a dict, element of a list, substring of a
  string; \<open>TypeError\<close> (argument is not iterable) for \<open>None\<close>, booleans and ints.\<close>

fun py_in_str :: "string \<Rightarrow> pyval \<Rightarrow> py_exc + bool" where
  "py_in_str k (PDict d) = Inr (k \<in> set (map fst d))"
| "py_in_str k (PList xs) = Inr (list_ex (\<lambda>x. py_eq x (PStr k)) xs)"
| "py_in_str k (PStr s) = Inr (sublist k s)"
| "py_in_str k _ = Inl TypeError"

text \<open>\<open>v[k]\<close> for a string \<open>k\<close>: \<open>KeyError\<close> for a missing key of a dict,
  \<open>TypeError\<close> for every other kind of value (list and string indices must be
  integers; \<open>None\<close>, booleans and ints are not subscriptable).\<close>

fun py_getitem :: "pyval \<Rightarrow> string \<Rightarrow> py_exc + pyval" where
  "py_getitem (PDict d) k = (case map_of d k of None \<Rightarrow> Inl (KeyError k) | Some v \<Rightarrow> Inr v)"
| "py_getitem _ k = Inl TypeError"

lemma py_in_str_dict_getitem [py_simps]:
  "py_in_str k v = Inr True \<Longrightarrow> py_type v = DictType \<Longrightarrow> \<exists>x. py_getitem v k = Inr x"
  by (cases v) (auto simp: weak_map_of_SomeI split: option.splits)

text \<open>\<open>d.get(k, default)\<close> on a dict.\<close>

definition py_dict_get :: "(string \<times> pyval) list \<Rightarrow> string \<Rightarrow> pyval \<Rightarrow> pyval" where
  "py_dict_get d k dflt = (case map_of d k of None \<Rightarrow> dflt | Some v \<Rightarrow> v)"

lemma py_getitem_dict_present [py_simps]:
  "k \<in> fst ` set d \<Longrightarrow> py_getitem (PDict d) k = Inr (py_dict_get d k PNone)"
  by (auto simp: py_dict_get_def split: option.splits dest: weak_map_of_SomeI)

lemma py_dict_get_present: "c \<in> fst ` set d \<Longrightarrow> py_dict_get d c x = the (map_of d c)"
  by (auto simp: py_dict_get_def map_of_eq_None_iff split: option.splits)

lemma py_dict_get_absent: "c \<notin> fst ` set d \<Longrightarrow> py_dict_get d c x = x"
  by (simp add: py_dict_get_def map_of_eq_None_iff [symmetric])

text \<open>\<open>len(s)\<close> of a Python string held as UTF-8: the bytes that do not continue a
  multi-byte sequence (continuation bytes are \<open>0x80\<close> to \<open>0xBF\<close>).\<close>

definition py_len :: "string \<Rightarrow> nat" where
  "py_len s = length (filter (\<lambda>c. \<not> ((128::nat) \<le> of_char c \<and> of_char c < (192::nat))) s)"

lemma py_len_pos_nonempty: "1 \<le> py_len s \<Longrightarrow> s \<noteq> []"
  by (auto simp: py_len_def)

text \<open>\<open>s.strip()\<close> and \<open>s.lower()\<close> on the ASCII characters (the whitespace of
  \<open>str.isspace\<close> below 128, and \<open>A\<close> to \<open>Z\<close>); other characters are kept.\<close>

definition py_is_space :: "char \<Rightarrow> bool" where
  "py_is_space c \<longleftrightarrow> (of_char c :: nat) \<in> {9, 10, 11, 12, 13, 28, 29, 30, 31, 32}"

definition py_strip :: "string \<Rightarrow> string" where
  "py_strip s = rev (dropWhile py_is_space (rev (dropWhile py_is_space s)))"

definition py_lower :: "string \<Rightarrow> string" where
  "py_lower s = map (\<lambda>c. if 65 \<le> (of_char c :: nat) \<and> (of_char c :: nat) \<le> 90
                         then char_of (of_char c + (32::nat)) else c) s"

text \<open>\<open>str(i)\<close> of an \<open>int\<close> (also what an f-string writes for it): its decimal
  digits, with a leading minus sign when negative.\<close>

fun py_digits :: "nat \<Rightarrow> string" where
  "py_digits n =
     (let d = [''0123456789'' ! (n mod 10)] in if n < 10 then d else py_digits (n div 10) @ d)"

definition py_str_int :: "int \<Rightarrow> string" where
  "py_str_int i = (if i < 0 then ''-'' @ py_digits (nat (- i)) else py_digits (nat i))"

text \<open>\<open>str(x)\<close> of a \<open>float\<close> that has one decimal digit, held as integer tenths:
  Python's shortest round-trip \<open>repr\<close> prints such a value (below \<open>10^15\<close>) as its
  integer part, a point and the tenths digit, e.g. \<open>25.0\<close> or \<open>2.3\<close>.\<close>

type_synonym decimas = int

definition py_str_decimas :: "decimas \<Rightarrow> string" where
  "py_str_decimas d =
     (if d < 0 then ''-'' else []) @ py_str_int (\<bar>d\<bar> div 10) @ ''.'' @ py_str_int (\<bar>d\<bar> mod 10)"

text \<open>UTF-8 encodings of the accented letters the sources' string literals use.\<close>

abbreviation utf8_a_acute :: string where "utf8_a_acute \<equiv> [CHR 0xC3, CHR 0xA1]"
abbreviation utf8_e_acute :: string where "utf8_e_acute \<equiv> [CHR 0xC3, CHR 0xA9]"
abbreviation utf8_i_acute :: string where "utf8_i_acute \<equiv> [CHR 0xC3, CHR 0xAD]"
abbreviation utf8_o_acute :: string where "utf8_o_acute \<equiv> [CHR 0xC3, CHR 0xB3]"
abbreviation utf8_n_tilde :: string where "utf8_n_tilde \<equiv> [CHR 0xC3, CHR 0xB1]"
abbreviation utf8_u_acute :: string where "utf8_u_acute \<equiv> [CHR 0xC3, CHR 0xBA]"

text \<open>The HTTP methods the two web applications route.\<close>

datatype http_method = GET | POST | PUT | PATCH | DELETE

text \<open>The address of an object in a store of objects of one class, in creation
  order.\<close>

type_synonym addr = nat

section \<open>Mutation through the result of a linear search\<close>

text \<open>
  A Python list of objects holds references. A handler that finds an object with a
  \<open>for\<close> loop and then assigns to its attributes changes the list element that the
  loop returned: the first one that satisfies the loop's test. \<open>map_first P f xs\<close> is
  that list after the mutation \<open>f\<close>.
\<close>

fun map_first :: "('a \<Rightarrow> bool) \<Rightarrow> ('a \<Rightarrow> 'a) \<Rightarrow> 'a list \<Rightarrow> 'a list" where
  "map_first P f [] = []"
| "map_first P f (x # xs) = (if P x then f x # xs else x # map_first P f xs)"

lemma length_map_first [simp, catalog_simps]: "length (map_first P f xs) = length xs"
  by (induction xs) auto

lemma map_first_find_None [catalog_simps]: "find P xs = None \<Longrightarrow> map_first P f xs = xs"
  by (induction xs) (auto split: if_splits)

lemma find_Some_split:
  "find P xs = Some x \<Longrightarrow> \<exists>ys zs. xs = ys @ x # zs \<and> \<not> list_ex P ys \<and> P x"
proof (induction xs)
  case Nil
  then show ?case by simp
next
  case (Cons y xs)
  show ?case
  proof (cases "P y")
    case True
    with Cons.prems show ?thesis by (intro exI [of _ "[]"] exI [of _ xs]) auto
  next
    case False
    with Cons obtain ys zs where "xs = ys @ x # zs" "\<not> list_ex P ys" "P x" by auto
    with False show ?thesis by (intro exI [of _ "y # ys"] exI [of _ zs]) auto
  qed
qed

lemma map_first_split [catalog_simps]:
  "\<not> list_ex P ys \<Longrightarrow> P x \<Longrightarrow> map_first P f (ys @ x # zs) = ys @ f x # zs"
  by (induction ys) auto

lemma remove1_split [catalog_simps]:
  "\<not> list_ex P ys \<Longrightarrow> P x \<Longrightarrow> remove1 x (ys @ x # zs) = ys @ zs"
  by (induction ys) auto

lemma find_split_first [catalog_simps]:
  "\<not> list_ex P ys \<Longrightarrow> P x \<Longrightarrow> find P (ys @ x # zs) = Some x"
  by (induction ys) auto

lemma map_map_first_frame [catalog_simps]:
  "(\<And>x. g (f x) = g x) \<Longrightarrow> map g (map_first P f xs) = map g xs"
  by (induction xs) auto

lemma map_first_Some_in_set:
  "find P xs = Some x \<Longrightarrow> f x \<in> set (map_first P f xs)"
  by (induction xs) (auto split: if_splits)

lemma list_all_map_first [catalog_simps]:
  "list_all Q xs \<Longrightarrow> (\<And>x. Q x \<Longrightarrow> Q (f x)) \<Longrightarrow> list_all Q (map_first P f xs)"
  by (induction xs) auto

lemma find_map_first [catalog_simps]:
  "(\<And>x. P (f x) = P x) \<Longrightarrow> find P (map_first P f xs) = map_option f (find P xs)"
  by (induction xs) auto

lemma map_first_map_first [catalog_simps]:
  "(\<And>x. P (f x) = P x) \<Longrightarrow> map_first P g (map_first P f xs) = map_first P (g \<circ> f) xs"
  by (induction xs) auto

lemma map_first_fixpoint [catalog_simps]:
  "find P xs = Some x \<Longrightarrow> f x = x \<Longrightarrow> map_first P f xs = xs"
  by (induction xs) (auto split: if_splits)

lemma map_first_keeps [catalog_simps]: "\<not> P l \<Longrightarrow> l \<in> set xs \<Longrightarrow> l \<in> set (map_first P f xs)"
  by (induction xs) auto

lemma nth_update_apply [catalog_simps]:
  "a < length xs \<Longrightarrow> xs[i := f (xs ! i)] ! a = (if i = a then f (xs ! a) else xs ! a)"
  by (cases "i < length xs") auto

end
