(* ===== verification/Libro.thy ===== *)
theory Libro
  imports Prelude
begin

text \<open>
  The class \<open>Libro\<close> of \<^verbatim>\<open>src/Tutorial_Backend_API_REST_Python/Libro.py\<close>: six private
  attributes behind properties with setters, and the two state changes \<open>loan\<close> and
  \<open>return_book\<close>. Python does not check the attributes' types, so each holds a
  \<open>pyval\<close>; a property getter is the record's selector, a setter a
  definition that updates one field. Both web applications import this
  class, and both convert a book to a JSON dict with the same function
  \<open>libro_to_dict\<close>, modelled here once.
\<close>

record libro =
  title :: pyval
  isbn :: pyval
  author :: pyval
  publication_year :: pyval
  total_num_pages :: pyval
  is_available :: pyval

text \<open>The module-level list \<open>libros\<close> of either application.\<close>

type_synonym catalog = "libro list"

text \<open>\<open>Libro(title, isbn, author, year, num_pages, available)\<close>.\<close>

definition Libro :: "pyval \<Rightarrow> pyval \<Rightarrow> pyval \<Rightarrow> pyval \<Rightarrow> pyval \<Rightarrow> pyval \<Rightarrow> libro" where
  "Libro t i a y n av =
     \<lparr>title = t, isbn = i, author = a, publication_year = y,
      total_num_pages = n, is_available = av\<rparr>"

text \<open>The property setters \<open>@title.setter\<close> to \<open>@is_available.setter\<close>: each
  assigns its private attribute and leaves the other five as they are.\<close>

definition set_title :: "libro \<Rightarrow> pyval \<Rightarrow> libro" where
  "set_title l t = l\<lparr>title := t\<rparr>"

definition set_isbn :: "libro \<Rightarrow> pyval \<Rightarrow> libro" where
  "set_isbn l i = l\<lparr>isbn := i\<rparr>"

definition set_author :: "libro \<Rightarrow> pyval \<Rightarrow> libro" where
  "set_author l a = l\<lparr>author := a\<rparr>"

definition set_publication_year :: "libro \<Rightarrow> pyval \<Rightarrow> libro" where
  "set_publication_year l y = l\<lparr>publication_year := y\<rparr>"

definition set_total_num_pages :: "libro \<Rightarrow> pyval \<Rightarrow> libro" where
  "set_total_num_pages l n = l\<lparr>total_num_pages := n\<rparr>"

definition set_is_available :: "libro \<Rightarrow> pyval \<Rightarrow> libro" where
  "set_is_available l av = l\<lparr>is_available := av\<rparr>"

declare set_title_def [simp] set_isbn_def [simp] set_author_def [simp]
  set_publication_year_def [simp] set_total_num_pages_def [simp] set_is_available_def [simp]

definition loan :: "libro \<Rightarrow> libro" where
  "loan l = l\<lparr>is_available := PBool False\<rparr>"

definition return_book :: "libro \<Rightarrow> libro" where
  "return_book l = l\<lparr>is_available := PBool True\<rparr>"

text \<open>\<open>libro_to_dict\<close> of both applications: the JSON representation, keys in the
  order of the dict literal.\<close>

definition libro_to_dict :: "libro \<Rightarrow> pyval" where
  "libro_to_dict l =
     PDict [(''isbn'', isbn l), (''titulo'', title l), (''autor'', author l),
            (''anio'', publication_year l), (''paginas'', total_num_pages l),
            (''disponible'', is_available l)]"

text \<open>\<open>Libro(title=data['titulo'], isbn=data['isbn'], author=data['autor'],
  year=data['anio'], num_pages=data['paginas'], available=data['disponible'])\<close>: the
  keyword arguments are evaluated left to right and the first subscript that raises
  aborts the call with its exception.\<close>

definition libro_of_dict :: "pyval \<Rightarrow> py_exc + libro" where
  "libro_of_dict d =
     (case py_getitem d ''titulo'' of Inl e \<Rightarrow> Inl e | Inr t \<Rightarrow>
      case py_getitem d ''isbn'' of Inl e \<Rightarrow> Inl e | Inr i \<Rightarrow>
      case py_getitem d ''autor'' of Inl e \<Rightarrow> Inl e | Inr a \<Rightarrow>
      case py_getitem d ''anio'' of Inl e \<Rightarrow> Inl e | Inr y \<Rightarrow>
      case py_getitem d ''paginas'' of Inl e \<Rightarrow> Inl e | Inr n \<Rightarrow>
      case py_getitem d ''disponible'' of Inl e \<Rightarrow> Inl e | Inr av \<Rightarrow>
        Inr (Libro t i a y n av))"

subsection \<open>Lemmas\<close>

lemma Libro_fields [simp, catalog_simps]:
  "title (Libro t i a y n av) = t" "isbn (Libro t i a y n av) = i"
  "author (Libro t i a y n av) = a" "publication_year (Libro t i a y n av) = y"
  "total_num_pages (Libro t i a y n av) = n" "is_available (Libro t i a y n av) = av"
  by (simp_all add: Libro_def)

text \<open>\<open>loan\<close> and \<open>return_book\<close> change the availability only.\<close>

lemma loan_frame [simp, catalog_simps]:
  "title (loan l) = title l" "isbn (loan l) = isbn l" "author (loan l) = author l"
  "publication_year (loan l) = publication_year l"
  "total_num_pages (loan l) = total_num_pages l"
  "is_available (loan l) = PBool False"
  by (simp_all add: loan_def)

lemma return_book_frame [simp, catalog_simps]:
  "title (return_book l) = title l" "isbn (return_book l) = isbn l"
  "author (return_book l) = author l"
  "publication_year (return_book l) = publication_year l"
  "total_num_pages (return_book l) = total_num_pages l"
  "is_available (return_book l) = PBool True"
  by (simp_all add: return_book_def)

lemma return_loan: "is_available l = PBool True \<Longrightarrow> return_book (loan l) = l"
  by (simp add: loan_def return_book_def)

text \<open>C9 (roundtrip): reading a book back from the JSON dict that \<open>libro_to_dict\<close>
  produces gives the same book, all six fields included: the serialisation loses
  nothing.\<close>

theorem libro_of_dict_to_dict: "libro_of_dict (libro_to_dict l) = Inr l"
  by (simp add: libro_of_dict_def libro_to_dict_def Libro_def)

end
