(* ===== verification/Catalog_FastAPI.thy ===== *)
theory Catalog_FastAPI
  imports Libro "HOL-Library.Multiset"
begin

text \<open>
  The FastAPI application \<^verbatim>\<open>src/6_Biblioteca_python/app_fastapi.py\<close>. Its state is
  the module-level list \<open>libros\<close> of \<open>Libro\<close> objects, here a \<open>catalog\<close>. Every
  endpoint is a function of its arguments and the catalog that returns the response
  value or the raised \<open>HTTPException\<close> (\<open>Inl\<close>) and, when it mutates, the new
  catalog. A book found by \<open>buscar_libro_por_isbn\<close> and then assigned to is the first
  list element with that ISBN (\<open>map_first\<close>); \<open>libros.remove(libro)\<close> is
  \<open>remove1\<close>. Request bodies arrive as the pydantic models \<open>LibroInput\<close> and
  \<open>LibroUpdateInput\<close>; their \<open>Field\<close> constraints are \<open>libro_input_valid\<close> and
  \<open>libro_update_valid\<close>, and FastAPI answers 422 without calling the endpoint when
  they fail. \<open>fa_handle\<close> is the route table: one request, the status code of each
  decorator, the response.
\<close>

record libro_input =
  li_titulo :: string
  li_isbn :: string
  li_autor :: string
  li_anio :: int
  li_paginas :: int
  li_disponible :: bool

record libro_update_input =
  lu_titulo :: "string option"
  lu_autor :: "string option"
  lu_anio :: "int option"
  lu_paginas :: "int option"
  lu_disponible :: "bool option"

text \<open>\<open>Field(..., min_length=1)\<close>, \<open>min_length=10\<close>, \<open>ge=1000, le=2100\<close>, \<open>gt=0\<close>.\<close>

definition libro_input_valid :: "libro_input \<Rightarrow> bool" where
  "libro_input_valid i \<longleftrightarrow>
     1 \<le> py_len (li_titulo i) \<and> 10 \<le> py_len (li_isbn i) \<and> 1 \<le> py_len (li_autor i) \<and>
     1000 \<le> li_anio i \<and> li_anio i \<le> 2100 \<and> 0 < li_paginas i"

text \<open>\<open>LibroUpdateInput\<close>: only \<open>anio\<close> and \<open>paginas\<close> carry constraints.\<close>

definition libro_update_valid :: "libro_update_input \<Rightarrow> bool" where
  "libro_update_valid u \<longleftrightarrow>
     (case lu_anio u of None \<Rightarrow> True | Some y \<Rightarrow> 1000 \<le> y \<and> y \<le> 2100) \<and>
     (case lu_paginas u of None \<Rightarrow> True | Some n \<Rightarrow> 0 < n)"

datatype http_exception = HTTPException nat string

section \<open>Helpers and endpoints\<close>

fun fa_buscar_libro_por_isbn :: "string \<Rightarrow> catalog \<Rightarrow> libro option" where
  "fa_buscar_libro_por_isbn k [] = None"
| "fa_buscar_libro_por_isbn k (l # ls) =
     (if py_eq (isbn l) (PStr k) then Some l else fa_buscar_libro_por_isbn k ls)"

abbreviation fa_match :: "string \<Rightarrow> libro \<Rightarrow> bool" where
  "fa_match k l \<equiv> py_eq (isbn l) (PStr k)"

definition fa_no_encontrado :: "string \<Rightarrow> http_exception" where
  "fa_no_encontrado k = HTTPException 404 (''Libro con ISBN '' @ k @ '' no encontrado'')"

definition fa_obtener_libros :: "catalog \<Rightarrow> pyval" where
  "fa_obtener_libros libros = PList (map libro_to_dict libros)"

definition fa_obtener_libro :: "string \<Rightarrow> catalog \<Rightarrow> http_exception + pyval" where
  "fa_obtener_libro k libros =
     (case fa_buscar_libro_por_isbn k libros of
        None \<Rightarrow> Inl (fa_no_encontrado k)
      | Some l \<Rightarrow> Inr (libro_to_dict l))"

text \<open>The \<open>Libro\<close> built from a \<open>LibroInput\<close> by \<open>crear_libro\<close>.\<close>

definition fa_nuevo_libro :: "libro_input \<Rightarrow> libro" where
  "fa_nuevo_libro i =
     Libro (PStr (li_titulo i)) (PStr (li_isbn i)) (PStr (li_autor i))
           (PInt (li_anio i)) (PInt (li_paginas i)) (PBool (li_disponible i))"

definition fa_crear_libro :: "libro_input \<Rightarrow> catalog \<Rightarrow> (http_exception + pyval) \<times> catalog" where
  "fa_crear_libro i libros =
     (if fa_buscar_libro_por_isbn (li_isbn i) libros \<noteq> None
      then (Inl (HTTPException 400 ''Ya existe un libro con ese ISBN''), libros)
      else (Inr (libro_to_dict (fa_nuevo_libro i)), libros @ [fa_nuevo_libro i]))"

text \<open>The five assignments of \<open>actualizar_libro_completo\<close>; the input's \<open>isbn\<close> is
  not used.\<close>

definition fa_completo :: "libro_input \<Rightarrow> libro \<Rightarrow> libro" where
  "fa_completo i l0 =
     (let l1 = set_title l0 (PStr (li_titulo i));
          l2 = set_author l1 (PStr (li_autor i));
          l3 = set_publication_year l2 (PInt (li_anio i));
          l4 = set_total_num_pages l3 (PInt (li_paginas i))
      in set_is_available l4 (PBool (li_disponible i)))"

definition fa_actualizar_libro_completo ::
  "string \<Rightarrow> libro_input \<Rightarrow> catalog \<Rightarrow> (http_exception + pyval) \<times> catalog" where
  "fa_actualizar_libro_completo k i libros =
     (case fa_buscar_libro_por_isbn k libros of
        None \<Rightarrow> (Inl (fa_no_encontrado k), libros)
      | Some l \<Rightarrow> (Inr (libro_to_dict (fa_completo i l)),
                   map_first (fa_match k) (fa_completo i) libros))"

text \<open>The five guarded assignments of \<open>actualizar_libro_parcial\<close>, in order.\<close>

definition fa_parcial :: "libro_update_input \<Rightarrow> libro \<Rightarrow> libro" where
  "fa_parcial u l0 =
     (let l1 = (case lu_titulo u of None \<Rightarrow> l0 | Some t \<Rightarrow> set_title l0 (PStr t));
          l2 = (case lu_autor u of None \<Rightarrow> l1 | Some a \<Rightarrow> set_author l1 (PStr a));
          l3 = (case lu_anio u of None \<Rightarrow> l2 | Some y \<Rightarrow> set_publication_year l2 (PInt y));
          l4 = (case lu_paginas u of None \<Rightarrow> l3 | Some n \<Rightarrow> set_total_num_pages l3 (PInt n))
      in (case lu_disponible u of None \<Rightarrow> l4 | Some b \<Rightarrow> set_is_available l4 (PBool b)))"

definition fa_actualizar_libro_parcial ::
  "string \<Rightarrow> libro_update_input \<Rightarrow> catalog \<Rightarrow> (http_exception + pyval) \<times> catalog" where
  "fa_actualizar_libro_parcial k u libros =
     (case fa_buscar_libro_por_isbn k libros of
        None \<Rightarrow> (Inl (fa_no_encontrado k), libros)
      | Some l \<Rightarrow> (Inr (libro_to_dict (fa_parcial u l)),
                   map_first (fa_match k) (fa_parcial u) libros))"

definition fa_eliminar_libro :: "string \<Rightarrow> catalog \<Rightarrow> (http_exception + pyval) \<times> catalog" where
  "fa_eliminar_libro k libros =
     (case fa_buscar_libro_por_isbn k libros of
        None \<Rightarrow> (Inl (fa_no_encontrado k), libros)
      | Some l \<Rightarrow> (Inr (PDict [(''mensaje'', PStr ''Libro eliminado exitosamente''),
                               (''isbn'', PStr k)]),
                   remove1 l libros))"

definition fa_prestar_libro :: "string \<Rightarrow> catalog \<Rightarrow> (http_exception + pyval) \<times> catalog" where
  "fa_prestar_libro k libros =
     (case fa_buscar_libro_por_isbn k libros of
        None \<Rightarrow> (Inl (fa_no_encontrado k), libros)
      | Some l \<Rightarrow>
          if \<not> py_truthy (is_available l)
          then (Inl (HTTPException 400 (''El libro ya est'' @ utf8_a_acute @ '' prestado'')), libros)
          else (Inr (libro_to_dict (loan l)), map_first (fa_match k) loan libros))"

definition fa_devolver_libro :: "string \<Rightarrow> catalog \<Rightarrow> (http_exception + pyval) \<times> catalog" where
  "fa_devolver_libro k libros =
     (case fa_buscar_libro_por_isbn k libros of
        None \<Rightarrow> (Inl (fa_no_encontrado k), libros)
      | Some l \<Rightarrow>
          if py_truthy (is_available l)
          then (Inl (HTTPException 400 (''El libro ya est'' @ utf8_a_acute @ '' disponible'')), libros)
          else (Inr (libro_to_dict (return_book l)), map_first (fa_match k) return_book libros))"

definition fa_obtener_libros_disponibles :: "catalog \<Rightarrow> pyval" where
  "fa_obtener_libros_disponibles libros =
     PList (map libro_to_dict (filter (\<lambda>l. py_truthy (is_available l)) libros))"

definition fa_obtener_libros_prestados :: "catalog \<Rightarrow> pyval" where
  "fa_obtener_libros_prestados libros =
     PList (map libro_to_dict (filter (\<lambda>l. \<not> py_truthy (is_available l)) libros))"

definition fa_libros_ejemplo :: "libro list" where
  "fa_libros_ejemplo =
     [Libro (PStr (''Cien A'' @ utf8_n_tilde @ ''os de Soledad'')) (PStr ''978-0-307-47472-3'')
            (PStr (''Gabriel Garc'' @ utf8_i_acute @ ''a M'' @ utf8_a_acute @ ''rquez''))
            (PInt 1967) (PInt 417) (PBool True),
      Libro (PStr ''Don Quijote de la Mancha'') (PStr ''978-0-06-093434-7'')
            (PStr ''Miguel de Cervantes'') (PInt 1605) (PInt 863) (PBool True),
      Libro (PStr ''El Principito'') (PStr ''978-0-15-601219-1'')
            (PStr (''Antoine de Saint-Exup'' @ utf8_e_acute @ ''ry'')) (PInt 1943) (PInt 96) (PBool False),
      Libro (PStr ''1984'') (PStr ''978-0-452-28423-4'')
            (PStr ''George Orwell'') (PInt 1949) (PInt 328) (PBool True)]"

definition fa_startup_event :: "catalog \<Rightarrow> catalog" where
  "fa_startup_event libros = libros @ fa_libros_ejemplo"

section \<open>The route table\<close>

datatype fa_request =
    GetLibros
  | GetLibro string
  | PostLibro libro_input
  | PutLibro string libro_input
  | PatchLibro string libro_update_input
  | DeleteLibro string
  | PostPrestar string
  | PostDevolver string
  | GetDisponibles
  | GetPrestados

text \<open>A response: status and JSON body, or FastAPI's own 422 for a body that fails
  the pydantic model. A raised \<open>HTTPException\<close> becomes \<open>{"detail": ...}\<close>.\<close>

datatype fa_response = Response nat pyval | ValidationError

fun fa_reply :: "nat \<Rightarrow> http_exception + pyval \<Rightarrow> fa_response" where
  "fa_reply ok (Inl (HTTPException c d)) = Response c (PDict [(''detail'', PStr d)])"
| "fa_reply ok (Inr v) = Response ok v"

fun fa_handle :: "fa_request \<Rightarrow> catalog \<Rightarrow> fa_response \<times> catalog" where
  "fa_handle GetLibros s = (Response 200 (fa_obtener_libros s), s)"
| "fa_handle (GetLibro k) s = (fa_reply 200 (fa_obtener_libro k s), s)"
| "fa_handle (PostLibro i) s =
     (if libro_input_valid i then apfst (fa_reply 201) (fa_crear_libro i s) else (ValidationError, s))"
| "fa_handle (PutLibro k i) s =
     (if libro_input_valid i then apfst (fa_reply 200) (fa_actualizar_libro_completo k i s)
      else (ValidationError, s))"
| "fa_handle (PatchLibro k u) s =
     (if libro_update_valid u then apfst (fa_reply 200) (fa_actualizar_libro_parcial k u s)
      else (ValidationError, s))"
| "fa_handle (DeleteLibro k) s = apfst (fa_reply 200) (fa_eliminar_libro k s)"
| "fa_handle (PostPrestar k) s = apfst (fa_reply 200) (fa_prestar_libro k s)"
| "fa_handle (PostDevolver k) s = apfst (fa_reply 200) (fa_devolver_libro k s)"
| "fa_handle GetDisponibles s = (Response 200 (fa_obtener_libros_disponibles s), s)"
| "fa_handle GetPrestados s = (Response 200 (fa_obtener_libros_prestados s), s)"

text \<open>A sequence of requests served one after the other (the catalog has no lock; the
  model assumes requests are served one at a time, as a single event loop does).\<close>

fun fa_run :: "fa_request list \<Rightarrow> catalog \<Rightarrow> fa_response list \<times> catalog" where
  "fa_run [] s = ([], s)"
| "fa_run (r # rs) s =
     (let (resp, s') = fa_handle r s; (resps, s'') = fa_run rs s' in (resp # resps, s''))"

section \<open>Request bodies and paths\<close>

text \<open>Pydantic's reading of a JSON body as \<open>LibroInput\<close>: an object with the five
  required fields and an optional \<open>disponible\<close> (default \<open>True\<close>), each of its
  field's JSON type. A missing field, a body that is not an object, or a value of
  another JSON type is answered 422. (Pydantic's lax mode also converts a few values of
  other types, such as numeric strings for \<open>int\<close>; the model rejects them.)\<close>

definition fa_parse_input :: "pyval \<Rightarrow> libro_input option" where
  "fa_parse_input body =
     (case body of
        PDict d \<Rightarrow>
          (case (map_of d ''titulo'', map_of d ''isbn'', map_of d ''autor'',
                 map_of d ''anio'', map_of d ''paginas'') of
             (Some (PStr t), Some (PStr i), Some (PStr a), Some (PInt y), Some (PInt n)) \<Rightarrow>
               (case map_of d ''disponible'' of
                  None \<Rightarrow> Some \<lparr>li_titulo = t, li_isbn = i, li_autor = a, li_anio = y,
                               li_paginas = n, li_disponible = True\<rparr>
                | Some (PBool b) \<Rightarrow> Some \<lparr>li_titulo = t, li_isbn = i, li_autor = a, li_anio = y,
                                         li_paginas = n, li_disponible = b\<rparr>
                | Some _ \<Rightarrow> None)
           | _ \<Rightarrow> None)
      | _ \<Rightarrow> None)"

text \<open>\<open>LibroUpdateInput\<close>: every field optional, absent or \<open>null\<close> read as
  \<open>None\<close>.\<close>

definition fa_opt_field :: "(pyval \<Rightarrow> 'a option) \<Rightarrow> (string \<times> pyval) list \<Rightarrow> string \<Rightarrow> 'a option option" where
  "fa_opt_field get d k =
     (case map_of d k of None \<Rightarrow> Some None | Some PNone \<Rightarrow> Some None
      | Some v \<Rightarrow> map_option Some (get v))"

fun fa_get_str :: "pyval \<Rightarrow> string option" where
  "fa_get_str (PStr s) = Some s"
| "fa_get_str _ = None"

fun fa_get_int :: "pyval \<Rightarrow> int option" where
  "fa_get_int (PInt i) = Some i"
| "fa_get_int _ = None"

fun fa_get_bool :: "pyval \<Rightarrow> bool option" where
  "fa_get_bool (PBool b) = Some b"
| "fa_get_bool _ = None"

definition fa_parse_update :: "pyval \<Rightarrow> libro_update_input option" where
  "fa_parse_update body =
     (case body of
        PDict d \<Rightarrow>
          (case (fa_opt_field fa_get_str d ''titulo'', fa_opt_field fa_get_str d ''autor'',
                 fa_opt_field fa_get_int d ''anio'', fa_opt_field fa_get_int d ''paginas'',
                 fa_opt_field fa_get_bool d ''disponible'') of
             (Some t, Some a, Some y, Some n, Some b) \<Rightarrow>
               Some \<lparr>lu_titulo = t, lu_autor = a, lu_anio = y, lu_paginas = n, lu_disponible = b\<rparr>
           | _ \<Rightarrow> None)
      | _ \<Rightarrow> None)"

text \<open>The path operations of the decorators, tried in declaration order (no two of
  them match the same method and path), with the body read by the endpoint's model.
  \<open>None\<close> is Starlette's own 404 or 405 for a request no route accepts. A body that
  fails its model is 422 before the endpoint runs, also when the ISBN is unknown.\<close>

definition fa_route :: "http_method \<Rightarrow> string list \<Rightarrow> pyval option \<Rightarrow> (fa_request option) option" where
  "fa_route m p body =
     (case p of
        [s] \<Rightarrow>
          if s \<noteq> ''libros'' then None
          else (case m of
                  GET \<Rightarrow> Some (Some GetLibros)
                | POST \<Rightarrow> map_option (map_option PostLibro) (Some (Option.bind body fa_parse_input))
                | _ \<Rightarrow> None)
      | [s, k] \<Rightarrow>
          if s \<noteq> ''libros'' \<or> k = [] then None
          else (case m of
                  GET \<Rightarrow> Some (Some (GetLibro k))
                | PUT \<Rightarrow> map_option (map_option (PutLibro k)) (Some (Option.bind body fa_parse_input))
                | PATCH \<Rightarrow> map_option (map_option (PatchLibro k)) (Some (Option.bind body fa_parse_update))
                | DELETE \<Rightarrow> Some (Some (DeleteLibro k))
                | POST \<Rightarrow> None)
      | [s, k, a] \<Rightarrow>
          if s \<noteq> ''libros'' \<or> k = [] then None
          else if m = POST \<and> a = ''prestar'' then Some (Some (PostPrestar k))
          else if m = POST \<and> a = ''devolver'' then Some (Some (PostDevolver k))
          else if m = GET \<and> k = ''filtro'' \<and> a = ''disponibles'' then Some (Some GetDisponibles)
          else if m = GET \<and> k = ''filtro'' \<and> a = ''prestados'' then Some (Some GetPrestados)
          else None
      | _ \<Rightarrow> None)"

definition fa_serve ::
  "http_method \<Rightarrow> string list \<Rightarrow> pyval option \<Rightarrow> catalog \<Rightarrow> fa_response option \<times> catalog" where
  "fa_serve m p body s =
     (case fa_route m p body of
        None \<Rightarrow> (None, s)
      | Some None \<Rightarrow> (Some ValidationError, s)
      | Some (Some r) \<Rightarrow> apfst Some (fa_handle r s))"

section \<open>Invariants and reachable states\<close>

text \<open>The types pydantic guarantees for a book built from a validated body.\<close>

definition fa_libro_typed :: "libro \<Rightarrow> bool" where
  "fa_libro_typed l \<longleftrightarrow>
     py_type (title l) = StrType \<and> py_type (isbn l) = StrType \<and> py_type (author l) = StrType \<and>
     py_type (publication_year l) = IntType \<and> py_type (total_num_pages l) = IntType \<and>
     py_type (is_available l) = BoolType"

text \<open>The catalog invariant: ISBNs are unique and every book is well typed.\<close>

definition fa_inv :: "catalog \<Rightarrow> bool" where
  "fa_inv s \<longleftrightarrow> distinct (map isbn s) \<and> list_all fa_libro_typed s"

text \<open>\<open>response_model=LibroOutput\<close>: the dict a path operation returns must have each
  field of \<open>LibroOutput\<close> with a value of its annotated type. The endpoints
  above return \<open>libro_to_dict\<close> without this check; the lemma
  \<open>fa_inv_output_valid\<close> shows it never fails on a catalog of the invariant.\<close>

definition libro_output_valid :: "pyval \<Rightarrow> bool" where
  "libro_output_valid v \<longleftrightarrow>
     (case v of
        PDict d \<Rightarrow>
          list_all (\<lambda>(campo, t). case map_of d campo of Some x \<Rightarrow> py_type x = t | None \<Rightarrow> False)
            [(''isbn'', StrType), (''titulo'', StrType), (''autor'', StrType),
             (''anio'', IntType), (''paginas'', IntType), (''disponible'', BoolType)]
      | _ \<Rightarrow> False)"

text \<open>The data model of the specification (section 3): non-empty title and author, a
  year in [1000, 2100] and a positive page count.\<close>

definition fa_libro_valid :: "libro \<Rightarrow> bool" where
  "fa_libro_valid l \<longleftrightarrow>
     fa_libro_typed l \<and>
     (case title l of PStr t \<Rightarrow> 1 \<le> py_len t | _ \<Rightarrow> False) \<and>
     (case author l of PStr a \<Rightarrow> 1 \<le> py_len a | _ \<Rightarrow> False) \<and>
     (case publication_year l of PInt y \<Rightarrow> 1000 \<le> y \<and> y \<le> 2100 | _ \<Rightarrow> False) \<and>
     (case total_num_pages l of PInt n \<Rightarrow> 0 < n | _ \<Rightarrow> False)"

text \<open>Catalogs the server can reach: the startup catalog, then any request.\<close>

inductive fa_reachable :: "catalog \<Rightarrow> bool" where
  startup: "fa_reachable (fa_startup_event [])"
| step: "fa_reachable s \<Longrightarrow> fa_reachable (snd (fa_handle r s))"

text \<open>A successful response (2xx).\<close>

fun fa_ok :: "fa_response \<Rightarrow> bool" where
  "fa_ok (Response c _) = (200 \<le> c \<and> c < 300)"
| "fa_ok ValidationError = False"

section \<open>Lemmas\<close>

subsection \<open>Search\<close>

lemma fa_buscar_find [catalog_simps]:
  "fa_buscar_libro_por_isbn k s = find (fa_match k) s"
  by (induction s) auto

lemma fa_buscar_None_iff [catalog_simps]:
  "fa_buscar_libro_por_isbn k s = None \<longleftrightarrow> PStr k \<notin> set (map isbn s)"
  by (induction s) auto

lemma fa_buscar_Some:
  "fa_buscar_libro_por_isbn k s = Some l \<Longrightarrow> l \<in> set s \<and> isbn l = PStr k"
  by (induction s) (auto split: if_splits)

lemma fa_buscar_split:
  assumes "fa_buscar_libro_por_isbn k s = Some l"
  obtains ys zs where "s = ys @ l # zs" "\<not> list_ex (fa_match k) ys" "isbn l = PStr k"
  using assms find_Some_split [of "fa_match k" s l] by (auto simp: fa_buscar_find)

subsection \<open>The invariant under the list operations the endpoints use\<close>

lemma fa_inv_map_first:
  assumes "fa_inv s" "\<And>l. isbn (f l) = isbn l" "\<And>l. fa_libro_typed l \<Longrightarrow> fa_libro_typed (f l)"
  shows "fa_inv (map_first P f s)"
proof -
  have "map isbn (map_first P f s) = map isbn s"
    using assms(2) by (rule map_map_first_frame)
  moreover have "list_all fa_libro_typed (map_first P f s)"
    using assms(1,3) by (auto simp: fa_inv_def intro: list_all_map_first)
  ultimately show ?thesis using assms(1) by (simp add: fa_inv_def)
qed

lemma distinct_map_remove1: "distinct (map g xs) \<Longrightarrow> distinct (map g (remove1 x xs))"
proof (induction xs)
  case Nil
  then show ?case by simp
next
  case (Cons y xs)
  then show ?case
    using set_remove1_subset [of x xs] by (auto simp: image_iff subset_iff)
qed

lemma fa_inv_remove1: "fa_inv s \<Longrightarrow> fa_inv (remove1 l s)"
  using set_remove1_subset [of l s] by (auto simp: fa_inv_def distinct_map_remove1 list_all_iff)

lemma fa_inv_snoc:
  "fa_inv s \<Longrightarrow> isbn l \<notin> set (map isbn s) \<Longrightarrow> fa_libro_typed l \<Longrightarrow> fa_inv (s @ [l])"
  by (simp add: fa_inv_def)

lemma fa_libro_typed_updates [catalog_simps]:
  "fa_libro_typed l \<Longrightarrow> fa_libro_typed (fa_completo i l)"
  "fa_libro_typed l \<Longrightarrow> fa_libro_typed (fa_parcial u l)"
  "fa_libro_typed l \<Longrightarrow> fa_libro_typed (loan l)"
  "fa_libro_typed l \<Longrightarrow> fa_libro_typed (return_book l)"
  "fa_libro_typed (fa_nuevo_libro i)"
  by (auto simp: fa_libro_typed_def fa_completo_def fa_parcial_def loan_def return_book_def
      fa_nuevo_libro_def Let_def split: option.splits)

lemma fa_isbn_updates [simp, catalog_simps]:
  "isbn (fa_completo i l) = isbn l" "isbn (fa_parcial u l) = isbn l"
  "isbn (fa_nuevo_libro i) = PStr (li_isbn i)"
  by (auto simp: fa_completo_def fa_parcial_def fa_nuevo_libro_def Let_def split: option.splits)

lemma fa_endpoints_inv:
  assumes "fa_inv s"
  shows "fa_inv (snd (fa_crear_libro i s))"
    and "fa_inv (snd (fa_actualizar_libro_completo k i s))"
    and "fa_inv (snd (fa_actualizar_libro_parcial k u s))"
    and "fa_inv (snd (fa_eliminar_libro k s))"
    and "fa_inv (snd (fa_prestar_libro k s))"
    and "fa_inv (snd (fa_devolver_libro k s))"
  using assms
  by (auto simp: fa_crear_libro_def fa_actualizar_libro_completo_def fa_actualizar_libro_parcial_def
      fa_eliminar_libro_def fa_prestar_libro_def fa_devolver_libro_def fa_buscar_None_iff
      fa_libro_typed_updates
      intro!: fa_inv_snoc fa_inv_map_first fa_inv_remove1 split: option.splits)

lemma fa_handle_inv: "fa_inv s \<Longrightarrow> fa_inv (snd (fa_handle r s))"
  by (cases r) (simp_all add: fa_endpoints_inv)

lemma fa_startup_inv: "fa_inv (fa_startup_event [])"
  by (simp add: fa_inv_def fa_startup_event_def fa_libros_ejemplo_def fa_libro_typed_def)

lemma fa_libro_typed_output: "fa_libro_typed l \<Longrightarrow> libro_output_valid (libro_to_dict l)"
  by (simp add: fa_libro_typed_def libro_output_valid_def libro_to_dict_def)

lemma fa_inv_output_valid: "fa_inv s \<Longrightarrow> list_all (\<lambda>l. libro_output_valid (libro_to_dict l)) s"
  by (auto simp: fa_inv_def list_all_iff fa_libro_typed_output)

lemma fa_filter_available_partition:
  "mset (filter (\<lambda>l. py_truthy (is_available l)) s) +
   mset (filter (\<lambda>l. \<not> py_truthy (is_available l)) s) = mset s"
  by (induction s) auto

lemma fa_typed_disponible:
  "fa_libro_typed l \<Longrightarrow> py_getitem (libro_to_dict l) ''disponible'' = Inr (PBool (py_truthy (is_available l)))"
  by (cases "is_available l") (auto simp: fa_libro_typed_def libro_to_dict_def)

lemma fa_new_isbns_step:
  assumes "distinct (map li_isbn (i # is))"
    and "list_all (\<lambda>j. PStr (li_isbn j) \<notin> set (map isbn s)) (i # is)"
  shows "list_all (\<lambda>j. PStr (li_isbn j) \<notin> set (map isbn (s @ [fa_nuevo_libro i]))) is"
proof (unfold list_all_iff, intro ballI)
  fix j assume j: "j \<in> set is"
  with assms(1) have "li_isbn j \<noteq> li_isbn i" by (auto simp: image_iff)
  with j assms(2) show "PStr (li_isbn j) \<notin> set (map isbn (s @ [fa_nuevo_libro i]))"
    by (auto simp: list_all_iff)
qed

subsection \<open>Properties of the application\<close>

text \<open>C1 (invariant): in every catalog the FastAPI server can reach, from the startup
  catalog through any sequence of requests, the ISBNs are unique and every book has the
  types of the pydantic model (string title, ISBN and author, integer year and pages,
  boolean availability).\<close>

theorem fa_reachable_inv: "fa_reachable s \<Longrightarrow> fa_inv s"
proof (induction rule: fa_reachable.induct)
  case startup
  show ?case by (rule fa_startup_inv)
next
  case (step s r)
  from step.IH show ?case by (rule fa_handle_inv)
qed

theorem fa_reachable_inv_witness:
  "fa_reachable (snd (fa_handle (PostPrestar ''978-0-452-28423-4'') (fa_startup_event []))) \<and>
   fa_inv (snd (fa_handle (PostPrestar ''978-0-452-28423-4'') (fa_startup_event [])))"
proof -
  have r: "fa_reachable (snd (fa_handle (PostPrestar ''978-0-452-28423-4'') (fa_startup_event [])))"
    by (rule fa_reachable.step [OF fa_reachable.startup])
  from r fa_reachable_inv [OF r] show ?thesis by simp
qed

text \<open>C2 (safety): a request that does not succeed (an \<open>HTTPException\<close> or a
  validation error) leaves the catalog unchanged: every endpoint checks before it
  mutates.\<close>

theorem fa_error_atomic:
  "fa_handle r s = (resp, s') \<Longrightarrow> \<not> fa_ok resp \<Longrightarrow> s' = s"
  by (cases r) (auto simp: fa_obtener_libro_def fa_crear_libro_def fa_actualizar_libro_completo_def
      fa_actualizar_libro_parcial_def fa_eliminar_libro_def fa_prestar_libro_def fa_devolver_libro_def
      fa_no_encontrado_def split: option.splits if_splits)

theorem fa_error_atomic_witness:
  "fa_handle (PostPrestar ''978-0-15-601219-1'') (fa_startup_event []) =
     (Response 400 (PDict [(''detail'', PStr (''El libro ya est'' @ utf8_a_acute @ '' prestado''))]),
      fa_startup_event []) \<and>
   \<not> fa_ok (Response 400 (PDict [(''detail'', PStr (''El libro ya est'' @ utf8_a_acute @ '' prestado''))])) \<and>
   fa_startup_event [] = fa_startup_event []"
proof -
  have h: "fa_handle (PostPrestar ''978-0-15-601219-1'') (fa_startup_event []) =
     (Response 400 (PDict [(''detail'', PStr (''El libro ya est'' @ utf8_a_acute @ '' prestado''))]),
      fa_startup_event [])"
    by (simp add: fa_prestar_libro_def fa_startup_event_def fa_libros_ejemplo_def)
  have n: "\<not> fa_ok (Response 400 (PDict [(''detail'', PStr (''El libro ya est'' @ utf8_a_acute @ '' prestado''))]))"
    by simp
  from fa_error_atomic [OF h n] h n show ?thesis by simp
qed

text \<open>C3 (error): every endpoint addressed to an ISBN that no book has answers 404 with
  the detail \<open>Libro con ISBN ... no encontrado\<close> and leaves the catalog unchanged
  (for \<open>PUT\<close> and \<open>PATCH\<close>, once the body passes validation).\<close>

theorem fa_not_found:
  assumes "PStr k \<notin> set (map isbn s)"
  shows "let nf = Response 404 (PDict [(''detail'', PStr (''Libro con ISBN '' @ k @ '' no encontrado''))])
         in fa_handle (GetLibro k) s = (nf, s) \<and> fa_handle (DeleteLibro k) s = (nf, s) \<and>
            fa_handle (PostPrestar k) s = (nf, s) \<and> fa_handle (PostDevolver k) s = (nf, s) \<and>
            (libro_input_valid i \<longrightarrow> fa_handle (PutLibro k i) s = (nf, s)) \<and>
            (libro_update_valid u \<longrightarrow> fa_handle (PatchLibro k u) s = (nf, s))"
proof -
  from assms have "fa_buscar_libro_por_isbn k s = None" by (simp add: fa_buscar_None_iff)
  then show ?thesis
    by (simp add: fa_no_encontrado_def fa_obtener_libro_def fa_eliminar_libro_def
        fa_prestar_libro_def fa_devolver_libro_def fa_actualizar_libro_completo_def
        fa_actualizar_libro_parcial_def)
qed

theorem fa_not_found_witness:
  "PStr ''999-9-999-99999-9'' \<notin> set (map isbn (fa_startup_event [])) \<and>
   fa_handle (GetLibro ''999-9-999-99999-9'') (fa_startup_event []) =
     (Response 404 (PDict [(''detail'', PStr (''Libro con ISBN '' @ ''999-9-999-99999-9'' @ '' no encontrado''))]),
      fa_startup_event [])"
proof -
  have h: "PStr ''999-9-999-99999-9'' \<notin> set (map isbn (fa_startup_event []))"
    by (simp add: fa_startup_event_def fa_libros_ejemplo_def)
  from h fa_not_found [OF h] show ?thesis by (simp add: Let_def)
qed

text \<open>C4 (error): creating a book whose ISBN is already in the catalog answers 400
  \<open>Ya existe un libro con ese ISBN\<close> and leaves the catalog unchanged.\<close>

theorem fa_crear_duplicate:
  "PStr (li_isbn i) \<in> set (map isbn s) \<Longrightarrow> libro_input_valid i \<Longrightarrow>
   fa_handle (PostLibro i) s =
     (Response 400 (PDict [(''detail'', PStr ''Ya existe un libro con ese ISBN'')]), s)"
  using fa_buscar_None_iff [of "li_isbn i" s] by (simp add: fa_crear_libro_def)

theorem fa_crear_duplicate_witness:
  "PStr (li_isbn \<lparr>li_titulo = ''T'', li_isbn = ''978-0-307-47472-3'', li_autor = ''Au'',
                   li_anio = 2000, li_paginas = 100, li_disponible = True\<rparr>)
     \<in> set (map isbn (fa_startup_event [])) \<and>
   libro_input_valid \<lparr>li_titulo = ''T'', li_isbn = ''978-0-307-47472-3'', li_autor = ''Au'',
                       li_anio = 2000, li_paginas = 100, li_disponible = True\<rparr> \<and>
   fa_handle (PostLibro \<lparr>li_titulo = ''T'', li_isbn = ''978-0-307-47472-3'', li_autor = ''Au'',
                          li_anio = 2000, li_paginas = 100, li_disponible = True\<rparr>) (fa_startup_event []) =
     (Response 400 (PDict [(''detail'', PStr ''Ya existe un libro con ese ISBN'')]), fa_startup_event [])"
proof -
  let ?i = "\<lparr>li_titulo = ''T'', li_isbn = ''978-0-307-47472-3'', li_autor = ''Au'',
             li_anio = 2000, li_paginas = 100, li_disponible = True\<rparr>"
  have h1: "PStr (li_isbn ?i) \<in> set (map isbn (fa_startup_event []))"
    by (simp add: fa_startup_event_def fa_libros_ejemplo_def)
  have h2: "libro_input_valid ?i" by (simp add: libro_input_valid_def py_len_def)
  from h1 h2 fa_crear_duplicate [OF h1 h2] show ?thesis by blast
qed

text \<open>C5 (functional): lending an available book answers 200 with the book marked
  unavailable; lending it again answers 400 \<open>El libro ya est\<dots> prestado\<close> and changes
  nothing; returning it then answers 200 and restores the original catalog.\<close>

theorem fa_loan_then_return:
  assumes found: "fa_buscar_libro_por_isbn k s = Some l" and avail: "is_available l = PBool True"
  shows "fa_handle (PostPrestar k) s =
           (Response 200 (libro_to_dict (loan l)), map_first (fa_match k) loan s) \<and>
         fa_handle (PostPrestar k) (map_first (fa_match k) loan s) =
           (Response 400 (PDict [(''detail'', PStr (''El libro ya est'' @ utf8_a_acute @ '' prestado''))]),
            map_first (fa_match k) loan s) \<and>
         fa_handle (PostDevolver k) (map_first (fa_match k) loan s) =
           (Response 200 (libro_to_dict l), s)"
proof -
  let ?s1 = "map_first (fa_match k) loan s"
  have f1: "fa_buscar_libro_por_isbn k ?s1 = Some (loan l)"
    using found by (simp add: fa_buscar_find find_map_first)
  have r1: "fa_handle (PostPrestar k) s = (Response 200 (libro_to_dict (loan l)), ?s1)"
    using found avail by (simp add: fa_prestar_libro_def)
  have r2: "fa_handle (PostPrestar k) ?s1 =
     (Response 400 (PDict [(''detail'', PStr (''El libro ya est'' @ utf8_a_acute @ '' prestado''))]), ?s1)"
    using f1 by (simp add: fa_prestar_libro_def)
  have "map_first (fa_match k) return_book ?s1 = map_first (fa_match k) (return_book \<circ> loan) s"
    by (simp add: map_first_map_first)
  also have "\<dots> = s"
    using found avail by (simp add: fa_buscar_find map_first_fixpoint return_loan)
  finally have r3: "fa_handle (PostDevolver k) ?s1 = (Response 200 (libro_to_dict l), s)"
    using f1 avail by (simp add: fa_devolver_libro_def return_loan)
  from r1 r2 r3 show ?thesis by blast
qed

theorem fa_loan_then_return_witness:
  "fa_buscar_libro_por_isbn ''978-0-452-28423-4'' (fa_startup_event []) = Some (fa_libros_ejemplo ! 3) \<and>
   is_available (fa_libros_ejemplo ! 3) = PBool True \<and>
   fa_handle (PostDevolver ''978-0-452-28423-4'')
     (map_first (fa_match ''978-0-452-28423-4'') loan (fa_startup_event [])) =
   (Response 200 (libro_to_dict (fa_libros_ejemplo ! 3)), fa_startup_event [])"
proof -
  have h1: "fa_buscar_libro_por_isbn ''978-0-452-28423-4'' (fa_startup_event []) = Some (fa_libros_ejemplo ! 3)"
    by (simp add: fa_startup_event_def fa_libros_ejemplo_def)
  have h2: "is_available (fa_libros_ejemplo ! 3) = PBool True"
    by (simp add: fa_libros_ejemplo_def)
  from h1 h2 fa_loan_then_return [OF h1 h2] show ?thesis by blast
qed

text \<open>C6 (functional): a \<open>PATCH\<close> of an existing book answers 200 and replaces that
  one list element by the book with exactly the fields present in the body changed, in
  the order of the source's assignments; every other book and the ISBN are untouched.\<close>

theorem fa_patch_only_given_fields:
  assumes "fa_buscar_libro_por_isbn k s = Some l" "libro_update_valid u"
  shows "\<exists>ys zs. s = ys @ l # zs \<and>
           fa_handle (PatchLibro k u) s =
             (Response 200 (libro_to_dict (fa_parcial u l)), ys @ fa_parcial u l # zs) \<and>
           isbn (fa_parcial u l) = isbn l \<and>
           title (fa_parcial u l) = (case lu_titulo u of None \<Rightarrow> title l | Some t \<Rightarrow> PStr t) \<and>
           author (fa_parcial u l) = (case lu_autor u of None \<Rightarrow> author l | Some a \<Rightarrow> PStr a) \<and>
           publication_year (fa_parcial u l) =
             (case lu_anio u of None \<Rightarrow> publication_year l | Some y \<Rightarrow> PInt y) \<and>
           total_num_pages (fa_parcial u l) =
             (case lu_paginas u of None \<Rightarrow> total_num_pages l | Some n \<Rightarrow> PInt n) \<and>
           is_available (fa_parcial u l) =
             (case lu_disponible u of None \<Rightarrow> is_available l | Some b \<Rightarrow> PBool b)"
proof -
  from assms(1) obtain ys zs where s: "s = ys @ l # zs" and ys: "\<not> list_ex (fa_match k) ys"
      and l: "isbn l = PStr k"
    by (rule fa_buscar_split)
  have "map_first (fa_match k) (fa_parcial u) s = ys @ fa_parcial u l # zs"
    using s ys l by (simp add: map_first_split)
  with assms s show ?thesis
    by (auto simp: fa_actualizar_libro_parcial_def fa_parcial_def Let_def split: option.split)
qed

theorem fa_patch_only_given_fields_witness:
  "fa_buscar_libro_por_isbn ''978-0-06-093434-7'' (fa_startup_event []) = Some (fa_libros_ejemplo ! 1) \<and>
   libro_update_valid \<lparr>lu_titulo = None, lu_autor = None, lu_anio = None, lu_paginas = Some 900,
                       lu_disponible = None\<rparr> \<and>
   total_num_pages (fa_parcial \<lparr>lu_titulo = None, lu_autor = None, lu_anio = None,
                               lu_paginas = Some 900, lu_disponible = None\<rparr> (fa_libros_ejemplo ! 1)) = PInt 900"
proof -
  let ?u = "\<lparr>lu_titulo = None, lu_autor = None, lu_anio = None, lu_paginas = Some 900,
             lu_disponible = None\<rparr>"
  have h1: "fa_buscar_libro_por_isbn ''978-0-06-093434-7'' (fa_startup_event []) = Some (fa_libros_ejemplo ! 1)"
    by (simp add: fa_startup_event_def fa_libros_ejemplo_def)
  have h2: "libro_update_valid ?u" by (simp add: libro_update_valid_def)
  from fa_patch_only_given_fields [OF h1 h2] h1 h2 show ?thesis by auto
qed

text \<open>C7 (functional): on a catalog of the invariant the two filter endpoints split the
  listing: every book \<open>/libros/filtro/disponibles\<close> returns has \<open>"disponible": true\<close>,
  every book \<open>/libros/filtro/prestados\<close> returns has \<open>"disponible": false\<close>, together
  they are exactly the listed books (as a multiset), and each keeps the listing's order.\<close>

theorem fa_filters_partition:
  assumes "fa_inv s"
    and "fa_handle GetDisponibles s = (Response 200 (PList a), s)"
    and "fa_handle GetPrestados s = (Response 200 (PList b), s)"
    and "fa_handle GetLibros s = (Response 200 (PList c), s)"
  shows "mset a + mset b = mset c \<and> subseq a c \<and> subseq b c \<and>
         (\<forall>v \<in> set a. py_getitem v ''disponible'' = Inr (PBool True)) \<and>
         (\<forall>v \<in> set b. py_getitem v ''disponible'' = Inr (PBool False))"
proof -
  let ?av = "\<lambda>l. py_truthy (is_available l)"
  from assms(2-4) have a: "a = map libro_to_dict (filter ?av s)"
    and b: "b = map libro_to_dict (filter (\<lambda>l. \<not> ?av l) s)" and c: "c = map libro_to_dict s"
    by (simp_all add: fa_obtener_libros_disponibles_def fa_obtener_libros_prestados_def
        fa_obtener_libros_def)
  have "mset a + mset b =
        image_mset libro_to_dict (mset (filter ?av s) + mset (filter (\<lambda>l. \<not> ?av l) s))"
    by (simp only: a b mset_map image_mset_union)
  also have "\<dots> = mset c" by (simp only: fa_filter_available_partition c mset_map)
  finally have part: "mset a + mset b = mset c \<and> subseq a c \<and> subseq b c"
    by (simp add: a b c subseq_map subseq_filter_left)
  from assms(1) have "\<forall>l \<in> set s. fa_libro_typed l" by (simp add: fa_inv_def list_all_iff)
  with part show ?thesis by (auto simp: a b fa_typed_disponible)
qed

theorem fa_filters_partition_witness:
  "fa_inv (fa_startup_event []) \<and>
   fa_handle GetDisponibles (fa_startup_event []) =
     (Response 200 (PList (map libro_to_dict [fa_libros_ejemplo ! 0, fa_libros_ejemplo ! 1, fa_libros_ejemplo ! 3])),
      fa_startup_event []) \<and>
   fa_handle GetPrestados (fa_startup_event []) =
     (Response 200 (PList (map libro_to_dict [fa_libros_ejemplo ! 2])), fa_startup_event []) \<and>
   fa_handle GetLibros (fa_startup_event []) =
     (Response 200 (PList (map libro_to_dict fa_libros_ejemplo)), fa_startup_event []) \<and>
   mset (map libro_to_dict [fa_libros_ejemplo ! 0, fa_libros_ejemplo ! 1, fa_libros_ejemplo ! 3]) +
   mset (map libro_to_dict [fa_libros_ejemplo ! 2]) = mset (map libro_to_dict fa_libros_ejemplo) \<and>
   py_getitem (libro_to_dict (fa_libros_ejemplo ! 2)) ''disponible'' = Inr (PBool False)"
proof -
  have h0: "fa_inv (fa_startup_event [])" by (rule fa_startup_inv)
  have h1: "fa_handle GetDisponibles (fa_startup_event []) =
     (Response 200 (PList (map libro_to_dict [fa_libros_ejemplo ! 0, fa_libros_ejemplo ! 1, fa_libros_ejemplo ! 3])),
      fa_startup_event [])"
    by (simp add: fa_obtener_libros_disponibles_def fa_startup_event_def fa_libros_ejemplo_def)
  have h2: "fa_handle GetPrestados (fa_startup_event []) =
     (Response 200 (PList (map libro_to_dict [fa_libros_ejemplo ! 2])), fa_startup_event [])"
    by (simp add: fa_obtener_libros_prestados_def fa_startup_event_def fa_libros_ejemplo_def)
  have h3: "fa_handle GetLibros (fa_startup_event []) =
     (Response 200 (PList (map libro_to_dict fa_libros_ejemplo)), fa_startup_event [])"
    by (simp add: fa_obtener_libros_def fa_startup_event_def)
  from h0 h1 h2 h3 fa_filters_partition [OF h0 h1 h2 h3] show ?thesis by simp
qed

text \<open>C8 (functional): creating books with pairwise distinct ISBNs that are not yet in
  the catalog answers 201 for each, and the listing then shows the old books followed by
  the new ones in insertion order.\<close>

theorem fa_run_adds:
  "distinct (map li_isbn is) \<Longrightarrow> list_all libro_input_valid is \<Longrightarrow>
   list_all (\<lambda>i. PStr (li_isbn i) \<notin> set (map isbn s)) is \<Longrightarrow>
   fa_run (map PostLibro is) s =
     (map (\<lambda>i. Response 201 (libro_to_dict (fa_nuevo_libro i))) is, s @ map fa_nuevo_libro is)"
proof (induction "is" arbitrary: s)
  case Nil
  then show ?case by simp
next
  case (Cons i "is")
  have new: "fa_buscar_libro_por_isbn (li_isbn i) s = None"
    using Cons.prems(3) by (simp add: fa_buscar_None_iff)
  have fresh: "list_all (\<lambda>j. PStr (li_isbn j) \<notin> set (map isbn (s @ [fa_nuevo_libro i]))) is"
    using Cons.prems(1,3) by (rule fa_new_isbns_step)
  from Cons.prems(1,2) have "distinct (map li_isbn is)" "list_all libro_input_valid is" by simp_all
  from Cons.IH [OF this fresh] have "fa_run (map PostLibro is) (s @ [fa_nuevo_libro i]) =
     (map (\<lambda>i. Response 201 (libro_to_dict (fa_nuevo_libro i))) is,
      (s @ [fa_nuevo_libro i]) @ map fa_nuevo_libro is)" .
  with new Cons.prems(2) show ?case by (simp add: fa_crear_libro_def)
qed

theorem fa_run_adds_witness:
  "distinct (map li_isbn [\<lparr>li_titulo = ''T'', li_isbn = ''A1-0000000'', li_autor = ''Au'',
                           li_anio = 2000, li_paginas = 100, li_disponible = True\<rparr>]) \<and>
   list_all libro_input_valid [\<lparr>li_titulo = ''T'', li_isbn = ''A1-0000000'', li_autor = ''Au'',
                           li_anio = 2000, li_paginas = 100, li_disponible = True\<rparr>] \<and>
   list_all (\<lambda>i. PStr (li_isbn i) \<notin> set (map isbn [])) [\<lparr>li_titulo = ''T'', li_isbn = ''A1-0000000'',
                           li_autor = ''Au'', li_anio = 2000, li_paginas = 100, li_disponible = True\<rparr>] \<and>
   snd (fa_run (map PostLibro [\<lparr>li_titulo = ''T'', li_isbn = ''A1-0000000'', li_autor = ''Au'',
                           li_anio = 2000, li_paginas = 100, li_disponible = True\<rparr>]) []) =
     [fa_nuevo_libro \<lparr>li_titulo = ''T'', li_isbn = ''A1-0000000'', li_autor = ''Au'',
                      li_anio = 2000, li_paginas = 100, li_disponible = True\<rparr>]"
proof -
  let ?is = "[\<lparr>li_titulo = ''T'', li_isbn = ''A1-0000000'', li_autor = ''Au'',
               li_anio = 2000, li_paginas = 100, li_disponible = True\<rparr>]"
  have h1: "distinct (map li_isbn ?is)" by simp
  have h2: "list_all libro_input_valid ?is" by (simp add: libro_input_valid_def py_len_def)
  have h3: "list_all (\<lambda>i. PStr (li_isbn i) \<notin> set (map isbn [])) ?is" by simp
  from h1 h2 h3 fa_run_adds [OF h1 h2 h3] show ?thesis by simp
qed

text \<open>The specification's data model requires a non-empty title, and
  \<open>LibroInput\<close> enforces it on creation and full replacement, but
  \<open>LibroUpdateInput.titulo\<close> carries no \<open>min_length\<close>: a validated \<open>PATCH\<close> with
  \<open>"titulo": ""\<close> turns a catalog whose books all satisfy the data model into one
  that does not.\<close>

lemma fa_patch_empty_title:
  "list_all fa_libro_valid (fa_startup_event []) \<and>
   libro_update_valid \<lparr>lu_titulo = Some [], lu_autor = None, lu_anio = None, lu_paginas = None,
                       lu_disponible = None\<rparr> \<and>
   \<not> list_all fa_libro_valid
       (snd (fa_handle (PatchLibro ''978-0-452-28423-4''
          \<lparr>lu_titulo = Some [], lu_autor = None, lu_anio = None, lu_paginas = None,
           lu_disponible = None\<rparr>) (fa_startup_event [])))"
  by (simp add: fa_startup_event_def fa_libros_ejemplo_def fa_libro_valid_def fa_libro_typed_def
      libro_update_valid_def fa_actualizar_libro_parcial_def fa_parcial_def py_len_def)

text \<open>The specification says availability changes only through
  loan and return; the \<open>PATCH\<close> endpoint (and likewise \<open>PUT\<close>) sets
  \<open>disponible\<close> directly, so an available book becomes unavailable with a 200 answer
  and no loan.\<close>

lemma fa_patch_sets_availability:
  "is_available (fa_startup_event [] ! 3) = PBool True \<and>
   fst (fa_handle (PatchLibro ''978-0-452-28423-4''
          \<lparr>lu_titulo = None, lu_autor = None, lu_anio = None, lu_paginas = None,
           lu_disponible = Some False\<rparr>) (fa_startup_event [])) =
     Response 200 (libro_to_dict ((fa_startup_event [] ! 3)\<lparr>is_available := PBool False\<rparr>)) \<and>
   is_available (snd (fa_handle (PatchLibro ''978-0-452-28423-4''
          \<lparr>lu_titulo = None, lu_autor = None, lu_anio = None, lu_paginas = None,
           lu_disponible = Some False\<rparr>) (fa_startup_event [])) ! 3) = PBool False"
  by (simp add: fa_startup_event_def fa_libros_ejemplo_def libro_update_valid_def
      fa_actualizar_libro_parcial_def fa_parcial_def)

end
