(* ===== verification/Catalog_Spec.thy ===== *)
theory Catalog_Spec
  imports Catalog_FastAPI
begin

text \<open>
  The contract of the book catalog as the specification states it (section 4.1 of
  \<^verbatim>\<open>spec.md\<close>): an ordered sequence of typed books keyed by a unique ISBN, nine
  operations, and two errors \<open>NotFound\<close> and \<open>Conflict\<close>. \<open>fa_abs\<close> reads a FastAPI
  catalog as such a sequence, \<open>fa_spec_op\<close> reads a request as an operation, and
  \<open>fa_resp_matches\<close> relates a response to the operation's result: 404 to
  \<open>NotFound\<close>, 400 to \<open>Conflict\<close>, a 2xx body to the book or books returned.
\<close>

record book =
  bk_title :: string
  bk_author :: string
  bk_year :: int
  bk_pages :: int
  bk_available :: bool

type_synonym abs_catalog = "(string \<times> book) list"

datatype cat_error = NotFound | Conflict

datatype spec_value = VBook book | VBooks "book list" | VDone

datatype spec_op =
    SList
  | SGet string
  | SAdd string book
  | SReplace string string string int int bool
  | SUpdate string "string option" "string option" "int option" "int option" "bool option"
  | SRemove string
  | SLoan string
  | SReturn string
  | SFilterAvailable
  | SFilterOnLoan

definition spec_set :: "string \<Rightarrow> book \<Rightarrow> abs_catalog \<Rightarrow> abs_catalog" where
  "spec_set k b s = map (\<lambda>(k', c). if k' = k then (k', b) else (k', c)) s"

definition spec_update_fields ::
  "string option \<Rightarrow> string option \<Rightarrow> int option \<Rightarrow> int option \<Rightarrow> bool option \<Rightarrow> book \<Rightarrow> book" where
  "spec_update_fields t a y p av b =
     b\<lparr>bk_title := case_option (bk_title b) id t, bk_author := case_option (bk_author b) id a,
       bk_year := case_option (bk_year b) id y, bk_pages := case_option (bk_pages b) id p,
       bk_available := case_option (bk_available b) id av\<rparr>"

fun spec_step :: "spec_op \<Rightarrow> abs_catalog \<Rightarrow> (cat_error + spec_value) \<times> abs_catalog" where
  "spec_step SList s = (Inr (VBooks (map snd s)), s)"
| "spec_step (SGet k) s =
     (case map_of s k of None \<Rightarrow> (Inl NotFound, s) | Some b \<Rightarrow> (Inr (VBook b), s))"
| "spec_step (SAdd k b) s =
     (if k \<in> set (map fst s) then (Inl Conflict, s) else (Inr (VBook b), s @ [(k, b)]))"
| "spec_step (SReplace k t a y p av) s =
     (case map_of s k of None \<Rightarrow> (Inl NotFound, s)
      | Some b \<Rightarrow> let b' = b\<lparr>bk_title := t, bk_author := a, bk_year := y, bk_pages := p,
                             bk_available := av\<rparr>
                 in (Inr (VBook b'), spec_set k b' s))"
| "spec_step (SUpdate k t a y p av) s =
     (case map_of s k of None \<Rightarrow> (Inl NotFound, s)
      | Some b \<Rightarrow> let b' = spec_update_fields t a y p av b in (Inr (VBook b'), spec_set k b' s))"
| "spec_step (SRemove k) s =
     (case map_of s k of None \<Rightarrow> (Inl NotFound, s)
      | Some b \<Rightarrow> (Inr VDone, filter (\<lambda>(k', _). k' \<noteq> k) s))"
| "spec_step (SLoan k) s =
     (case map_of s k of None \<Rightarrow> (Inl NotFound, s)
      | Some b \<Rightarrow> if \<not> bk_available b then (Inl Conflict, s)
                 else let b' = b\<lparr>bk_available := False\<rparr> in (Inr (VBook b'), spec_set k b' s))"
| "spec_step (SReturn k) s =
     (case map_of s k of None \<Rightarrow> (Inl NotFound, s)
      | Some b \<Rightarrow> if bk_available b then (Inl Conflict, s)
                 else let b' = b\<lparr>bk_available := True\<rparr> in (Inr (VBook b'), spec_set k b' s))"
| "spec_step SFilterAvailable s = (Inr (VBooks (map snd (filter (\<lambda>(_, b). bk_available b) s))), s)"
| "spec_step SFilterOnLoan s = (Inr (VBooks (map snd (filter (\<lambda>(_, b). \<not> bk_available b) s))), s)"

section \<open>Abstraction of the FastAPI catalog\<close>

fun py_str :: "pyval \<Rightarrow> string" where
  "py_str (PStr s) = s"
| "py_str _ = []"

fun py_int :: "pyval \<Rightarrow> int" where
  "py_int (PInt i) = i"
| "py_int _ = 0"

definition book_of :: "libro \<Rightarrow> book" where
  "book_of l =
     \<lparr>bk_title = py_str (title l), bk_author = py_str (author l),
      bk_year = py_int (publication_year l), bk_pages = py_int (total_num_pages l),
      bk_available = py_truthy (is_available l)\<rparr>"

definition fa_abs :: "catalog \<Rightarrow> abs_catalog" where
  "fa_abs s = map (\<lambda>l. (py_str (isbn l), book_of l)) s"

definition dict_book :: "pyval \<Rightarrow> book option" where
  "dict_book d = (case libro_of_dict d of Inl _ \<Rightarrow> None | Inr l \<Rightarrow> Some (book_of l))"

fun fa_spec_op :: "fa_request \<Rightarrow> spec_op" where
  "fa_spec_op GetLibros = SList"
| "fa_spec_op (GetLibro k) = SGet k"
| "fa_spec_op (PostLibro i) =
     SAdd (li_isbn i) \<lparr>bk_title = li_titulo i, bk_author = li_autor i, bk_year = li_anio i,
                       bk_pages = li_paginas i, bk_available = li_disponible i\<rparr>"
| "fa_spec_op (PutLibro k i) =
     SReplace k (li_titulo i) (li_autor i) (li_anio i) (li_paginas i) (li_disponible i)"
| "fa_spec_op (PatchLibro k u) =
     SUpdate k (lu_titulo u) (lu_autor u) (lu_anio u) (lu_paginas u) (lu_disponible u)"
| "fa_spec_op (DeleteLibro k) = SRemove k"
| "fa_spec_op (PostPrestar k) = SLoan k"
| "fa_spec_op (PostDevolver k) = SReturn k"
| "fa_spec_op GetDisponibles = SFilterAvailable"
| "fa_spec_op GetPrestados = SFilterOnLoan"

fun fa_request_valid :: "fa_request \<Rightarrow> bool" where
  "fa_request_valid (PostLibro i) = libro_input_valid i"
| "fa_request_valid (PutLibro k i) = libro_input_valid i"
| "fa_request_valid (PatchLibro k u) = libro_update_valid u"
| "fa_request_valid _ = True"

fun fa_resp_matches :: "fa_response \<Rightarrow> cat_error + spec_value \<Rightarrow> bool" where
  "fa_resp_matches (Response c body) (Inl NotFound) = (c = 404)"
| "fa_resp_matches (Response c body) (Inl Conflict) = (c = 400)"
| "fa_resp_matches (Response c body) (Inr (VBook b)) = (200 \<le> c \<and> c < 300 \<and> dict_book body = Some b)"
| "fa_resp_matches (Response c body) (Inr (VBooks bs)) =
     (c = 200 \<and> (case body of PList ds \<Rightarrow> map dict_book ds = map Some bs | _ \<Rightarrow> False))"
| "fa_resp_matches (Response c body) (Inr VDone) = (c = 200)"
| "fa_resp_matches ValidationError r = False"

section \<open>Lemmas\<close>

lemma dict_book_libro [simp]: "dict_book (libro_to_dict l) = Some (book_of l)"
  by (simp add: dict_book_def libro_of_dict_def libro_to_dict_def Libro_def book_of_def)

lemma book_of_updates [simp]:
  "book_of (loan l) = (book_of l)\<lparr>bk_available := False\<rparr>"
  "book_of (return_book l) = (book_of l)\<lparr>bk_available := True\<rparr>"
  "book_of (fa_completo i l) = (book_of l)\<lparr>bk_title := li_titulo i, bk_author := li_autor i,
      bk_year := li_anio i, bk_pages := li_paginas i, bk_available := li_disponible i\<rparr>"
  by (simp_all add: book_of_def fa_completo_def)

lemma book_of_parcial [simp]:
  "book_of (fa_parcial u l) =
     spec_update_fields (lu_titulo u) (lu_autor u) (lu_anio u) (lu_paginas u) (lu_disponible u) (book_of l)"
  unfolding book_of_def fa_parcial_def spec_update_fields_def Let_def
  by (simp split: option.split)

lemma spec_set_notin: "k \<notin> set (map fst s) \<Longrightarrow> spec_set k b s = s"
  by (induction s) (auto simp: spec_set_def)

lemma filter_key_notin: "k \<notin> set (map fst s) \<Longrightarrow> filter (\<lambda>(k', _). k' \<noteq> k) s = s"
  by (induction s) auto

lemma typed_isbn: "fa_libro_typed l \<Longrightarrow> \<exists>k. isbn l = PStr k"
  by (cases "isbn l") (simp_all add: fa_libro_typed_def)

lemma fa_abs_map_of:
  "list_all fa_libro_typed s \<Longrightarrow> map_of (fa_abs s) k = map_option book_of (fa_buscar_libro_por_isbn k s)"
proof (induction s)
  case Nil
  then show ?case by (simp add: fa_abs_def)
next
  case (Cons l s)
  then obtain k' where "isbn l = PStr k'" by (auto dest: typed_isbn)
  with Cons show ?case by (auto simp: fa_abs_def)
qed

lemma fa_abs_keys:
  "list_all fa_libro_typed s \<Longrightarrow> (k \<in> set (map fst (fa_abs s))) = (PStr k \<in> set (map isbn s))"
proof (induction s)
  case Nil
  then show ?case by (simp add: fa_abs_def)
next
  case (Cons l s)
  then obtain k' where "isbn l = PStr k'" by (auto dest: typed_isbn)
  with Cons show ?case by (auto simp: fa_abs_def)
qed

lemma fa_abs_Nil [simp]: "fa_abs [] = []"
  by (simp add: fa_abs_def)

lemma fa_abs_append [simp]: "fa_abs (xs @ ys) = fa_abs xs @ fa_abs ys"
  by (simp add: fa_abs_def)

lemma fa_abs_Cons [simp]: "fa_abs (l # ys) = (py_str (isbn l), book_of l) # fa_abs ys"
  by (simp add: fa_abs_def)

lemma spec_set_split:
  "k \<notin> set (map fst xs) \<Longrightarrow> k \<notin> set (map fst ys) \<Longrightarrow>
   spec_set k b (xs @ (k, c) # ys) = xs @ (k, b) # ys"
  by (induction xs) (auto simp: spec_set_def spec_set_notin [unfolded spec_set_def])

lemma filter_key_split:
  "k \<notin> set (map fst xs) \<Longrightarrow> k \<notin> set (map fst ys) \<Longrightarrow>
   filter (\<lambda>(k', _). k' \<noteq> k) (xs @ (k, c) # ys) = xs @ ys"
  by (simp add: filter_key_notin)

text \<open>The found book splits a well-formed catalog; the key is absent on both sides.\<close>

lemma fa_found_split:
  assumes inv: "fa_inv s" and found: "fa_buscar_libro_por_isbn k s = Some l"
  obtains ys zs where "s = ys @ l # zs" "\<not> list_ex (fa_match k) ys" "isbn l = PStr k"
    "k \<notin> set (map fst (fa_abs ys))" "k \<notin> set (map fst (fa_abs zs))"
proof -
  from found obtain ys zs where s: "s = ys @ l # zs" and ys: "\<not> list_ex (fa_match k) ys"
      and l: "isbn l = PStr k"
    by (rule fa_buscar_split)
  from inv s have ty: "list_all fa_libro_typed ys" "list_all fa_libro_typed zs"
    by (simp_all add: fa_inv_def)
  from inv s l have "PStr k \<notin> set (map isbn zs)" by (auto simp: fa_inv_def)
  moreover from ys have "PStr k \<notin> set (map isbn ys)" by (auto simp: list_ex_iff)
  ultimately show ?thesis using that s ys l fa_abs_keys [OF ty(1)] fa_abs_keys [OF ty(2)] by blast
qed

lemma fa_abs_mutate:
  assumes "fa_inv s" "fa_buscar_libro_por_isbn k s = Some l" "\<And>l. isbn (f l) = isbn l"
  shows "fa_abs (map_first (fa_match k) f s) = spec_set k (book_of (f l)) (fa_abs s)"
proof -
  from assms(1,2) obtain ys zs where s: "s = ys @ l # zs" and ys: "\<not> list_ex (fa_match k) ys"
      and l: "isbn l = PStr k" and k1: "k \<notin> set (map fst (fa_abs ys))"
      and k2: "k \<notin> set (map fst (fa_abs zs))"
    by (rule fa_found_split)
  have "map_first (fa_match k) f s = ys @ f l # zs"
    using s ys l by (simp add: map_first_split)
  moreover have "isbn (f l) = PStr k" using assms(3) [of l] l by simp
  ultimately show ?thesis
    using s l k1 k2 by (simp add: spec_set_split)
qed

lemma fa_abs_remove:
  assumes "fa_inv s" "fa_buscar_libro_por_isbn k s = Some l"
  shows "fa_abs (remove1 l s) = filter (\<lambda>(k', _). k' \<noteq> k) (fa_abs s)"
proof -
  from assms obtain ys zs where s: "s = ys @ l # zs" and ys: "\<not> list_ex (fa_match k) ys"
      and l: "isbn l = PStr k" and k1: "k \<notin> set (map fst (fa_abs ys))"
      and k2: "k \<notin> set (map fst (fa_abs zs))"
    by (rule fa_found_split)
  have "remove1 l s = ys @ zs"
    using s ys l by (simp add: remove1_split)
  then show ?thesis
    using s l k1 k2 by (simp add: filter_key_notin)
qed

lemma fa_abs_filter:
  "map snd (filter (\<lambda>(_, b). bk_available b) (fa_abs s)) =
     map book_of (filter (\<lambda>l. py_truthy (is_available l)) s)"
  "map snd (filter (\<lambda>(_, b). \<not> bk_available b) (fa_abs s)) =
     map book_of (filter (\<lambda>l. \<not> py_truthy (is_available l)) s)"
  by (induction s) (auto simp: book_of_def)

lemma map_dict_book [simp]: "map dict_book (map libro_to_dict xs) = map Some (map book_of xs)"
  by (induction xs) auto

lemma fa_inv_typed: "fa_inv s \<Longrightarrow> list_all fa_libro_typed s"
  by (simp add: fa_inv_def)

lemma fa_abs_nuevo [simp]: "py_str (isbn (fa_nuevo_libro i)) = li_isbn i"
  by (simp add: fa_nuevo_libro_def)

lemma book_of_nuevo [simp]:
  "book_of (fa_nuevo_libro i) =
     \<lparr>bk_title = li_titulo i, bk_author = li_autor i, bk_year = li_anio i,
      bk_pages = li_paginas i, bk_available = li_disponible i\<rparr>"
  by (simp add: book_of_def fa_nuevo_libro_def Libro_def)

lemma fa_refines_lookup:
  assumes "fa_inv s"
  shows "map_of (fa_abs s) k = map_option book_of (fa_buscar_libro_por_isbn k s)"
    and "(k \<in> set (map fst (fa_abs s))) = (fa_buscar_libro_por_isbn k s \<noteq> None)"
  using fa_abs_map_of [OF fa_inv_typed [OF assms]] fa_abs_keys [OF fa_inv_typed [OF assms]]
  by (simp_all add: fa_buscar_None_iff)

lemma fa_refines_found:
  assumes inv: "fa_inv s" and found: "fa_buscar_libro_por_isbn k s = Some l"
  shows "map_of (fa_abs s) k = Some (book_of l)"
    and "fa_abs (map_first (fa_match k) loan s) = spec_set k (book_of (loan l)) (fa_abs s)"
    and "fa_abs (map_first (fa_match k) return_book s) = spec_set k (book_of (return_book l)) (fa_abs s)"
    and "fa_abs (map_first (fa_match k) (fa_completo i) s) = spec_set k (book_of (fa_completo i l)) (fa_abs s)"
    and "fa_abs (map_first (fa_match k) (fa_parcial u) s) = spec_set k (book_of (fa_parcial u l)) (fa_abs s)"
    and "fa_abs (remove1 l s) = filter (\<lambda>(k', _). k' \<noteq> k) (fa_abs s)"
  using fa_refines_lookup(1) [OF inv, of k] found fa_abs_mutate [OF inv found] fa_abs_remove [OF inv found]
  by simp_all

text \<open>C10 (refinement): the FastAPI application implements the specification's
  catalog. For every catalog with unique ISBNs and well-typed books and every request
  whose body passes validation, the catalog after the request, read abstractly, is the
  catalog after the corresponding operation of the specification, and the response
  matches the operation's result: 404 exactly for \<open>NotFound\<close>, 400 exactly for
  \<open>Conflict\<close>, and otherwise a 2xx body that encodes the returned book or books.\<close>

theorem fa_refines_spec:
  assumes inv: "fa_inv s" and valid: "fa_request_valid r"
  shows "fa_resp_matches (fst (fa_handle r s)) (fst (spec_step (fa_spec_op r) (fa_abs s))) \<and>
         fa_abs (snd (fa_handle r s)) = snd (spec_step (fa_spec_op r) (fa_abs s))"
proof (cases r)
  case GetLibros
  then show ?thesis by (simp add: fa_obtener_libros_def fa_abs_def)
next
  case (GetLibro k)
  then show ?thesis using fa_refines_lookup [OF inv, of k]
    by (cases "fa_buscar_libro_por_isbn k s")
       (simp_all add: fa_obtener_libro_def fa_no_encontrado_def)
next
  case (PostLibro i)
  then show ?thesis using valid fa_refines_lookup(2) [OF inv, of "li_isbn i"]
    by (simp add: fa_crear_libro_def)
next
  case (PutLibro k i)
  then show ?thesis using valid fa_refines_lookup [OF inv, of k] fa_refines_found [OF inv, of k]
    by (cases "fa_buscar_libro_por_isbn k s")
       (simp_all add: fa_actualizar_libro_completo_def fa_no_encontrado_def Let_def)
next
  case (PatchLibro k u)
  then show ?thesis using valid fa_refines_lookup [OF inv, of k] fa_refines_found [OF inv, of k]
    by (cases "fa_buscar_libro_por_isbn k s")
       (simp_all add: fa_actualizar_libro_parcial_def fa_no_encontrado_def Let_def)
next
  case (DeleteLibro k)
  then show ?thesis using fa_refines_lookup [OF inv, of k] fa_refines_found [OF inv, of k]
    by (cases "fa_buscar_libro_por_isbn k s")
       (simp_all add: fa_eliminar_libro_def fa_no_encontrado_def)
next
  case (PostPrestar k)
  then show ?thesis using fa_refines_lookup [OF inv, of k] fa_refines_found [OF inv, of k]
    by (cases "fa_buscar_libro_por_isbn k s")
       (simp_all add: fa_prestar_libro_def fa_no_encontrado_def book_of_def Let_def)
next
  case (PostDevolver k)
  then show ?thesis using fa_refines_lookup [OF inv, of k] fa_refines_found [OF inv, of k]
    by (cases "fa_buscar_libro_por_isbn k s")
       (simp_all add: fa_devolver_libro_def fa_no_encontrado_def book_of_def Let_def)
next
  case GetDisponibles
  then show ?thesis by (simp add: fa_obtener_libros_disponibles_def fa_abs_filter)
next
  case GetPrestados
  then show ?thesis by (simp add: fa_obtener_libros_prestados_def fa_abs_filter)
qed

theorem fa_refines_spec_witness:
  "fa_inv (fa_startup_event []) \<and> fa_request_valid (PostPrestar ''978-0-452-28423-4'') \<and>
   fa_abs (snd (fa_handle (PostPrestar ''978-0-452-28423-4'') (fa_startup_event []))) =
   snd (spec_step (SLoan ''978-0-452-28423-4'') (fa_abs (fa_startup_event [])))"
proof -
  have h1: "fa_inv (fa_startup_event [])" by (rule fa_startup_inv)
  have h2: "fa_request_valid (PostPrestar ''978-0-452-28423-4'')" by simp
  from h1 h2 fa_refines_spec [OF h1 h2] show ?thesis by simp
qed

end
