(* ===== verification/Catalog_Flask.thy ===== *)
theory Catalog_Flask
  imports Libro
begin

text \<open>
  The Flask application \<^verbatim>\<open>src/6_Biblioteca_python/app_flask.py\<close>. Like the FastAPI
  one it keeps the module-level list \<open>libros\<close> (a \<open>catalog\<close>), but it does no
  validation: the request body is whatever \<open>request.get_json()\<close> decodes, a Python value
  of any shape (\<open>JsonBody\<close>), or an exception when the body is not JSON
  (\<open>BadBody\<close>: Flask raises \<open>UnsupportedMediaType\<close> or \<open>BadRequest\<close>). The handlers
  \<open>crear_libro\<close> and \<open>actualizar_libro\<close> catch every exception of their \<open>try\<close>
  block and answer 500 with \<open>{"error": str(e)}\<close>; the model keeps the exception and
  not its text. A lookup by ISBN compares with Python's \<open>==\<close>; \<open>if not
  libro.is_available\<close> is Python's truth test. Routing (\<open>fl_route\<close>) takes the method
  and the path's segments, as the decorators declare them; \<open>fl_handle\<close> runs the
  handler of a routed request.
\<close>

datatype fl_body = JsonBody pyval | BadBody

datatype fl_exc = FlPyExc py_exc | FlBodyError

text \<open>A response: status and JSON body, the 500 of a caught exception, or Werkzeug's
  own 404/405 for a request no route accepts.\<close>

datatype fl_response = FlResponse nat pyval | FlError500 fl_exc | FlNoRoute

definition fl_error :: "nat \<Rightarrow> string \<Rightarrow> fl_response" where
  "fl_error c msg = FlResponse c (PDict [(''error'', PStr msg)])"

definition fl_libro_msg :: "string \<Rightarrow> libro \<Rightarrow> pyval" where
  "fl_libro_msg msg l = PDict [(''mensaje'', PStr msg), (''libro'', libro_to_dict l)]"

section \<open>Helpers and endpoints\<close>

text \<open>\<open>buscar_libro_por_isbn(isbn)\<close>: the first book whose \<open>isbn\<close> is \<open>== isbn\<close>.
  The argument is a path string for most routes and the body's \<open>data['isbn']\<close>, of
  any type, for \<open>crear_libro\<close>.\<close>

fun fl_buscar_libro_por_isbn :: "pyval \<Rightarrow> catalog \<Rightarrow> libro option" where
  "fl_buscar_libro_por_isbn k [] = None"
| "fl_buscar_libro_por_isbn k (l # ls) =
     (if py_eq (isbn l) k then Some l else fl_buscar_libro_por_isbn k ls)"

abbreviation fl_match :: "pyval \<Rightarrow> libro \<Rightarrow> bool" where
  "fl_match k l \<equiv> py_eq (isbn l) k"

definition fl_home :: pyval where
  "fl_home =
     PDict [(''mensaje'', PStr (''API de Biblioteca - Sistema de Gesti'' @ utf8_o_acute @ ''n de Libros'')),
            (''version'', PStr ''1.0''),
            (''endpoints'', PDict
               [(''GET /libros'', PStr ''Obtener todos los libros''),
                (''GET /libros/<isbn>'', PStr (''Obtener un libro espec'' @ utf8_i_acute @ ''fico'')),
                (''POST /libros'', PStr ''Crear un nuevo libro''),
                (''PUT /libros/<isbn>'', PStr ''Actualizar un libro existente''),
                (''DELETE /libros/<isbn>'', PStr ''Eliminar un libro''),
                (''POST /libros/<isbn>/prestar'', PStr ''Prestar un libro''),
                (''POST /libros/<isbn>/devolver'', PStr ''Devolver un libro'')])]"

definition fl_campos_requeridos :: "string list" where
  "fl_campos_requeridos = [''titulo'', ''isbn'', ''autor'', ''anio'', ''paginas'', ''disponible'']"

text \<open>The loop \<open>for campo in campos_requeridos: if campo not in data: return ...\<close>:
  the first missing field, or the \<open>TypeError\<close> of an \<open>in\<close> test on a value that is
  not a container.\<close>

fun fl_falta_campo :: "string list \<Rightarrow> pyval \<Rightarrow> py_exc + string option" where
  "fl_falta_campo [] data = Inr None"
| "fl_falta_campo (campo # cs) data =
     (case py_in_str campo data of
        Inl e \<Rightarrow> Inl e
      | Inr True \<Rightarrow> fl_falta_campo cs data
      | Inr False \<Rightarrow> Inr (Some campo))"

definition fl_crear_libro :: "fl_body \<Rightarrow> catalog \<Rightarrow> fl_response \<times> catalog" where
  "fl_crear_libro body libros =
     (case body of
        BadBody \<Rightarrow> (FlError500 FlBodyError, libros)
      | JsonBody data \<Rightarrow>
          (case fl_falta_campo fl_campos_requeridos data of
             Inl e \<Rightarrow> (FlError500 (FlPyExc e), libros)
           | Inr (Some campo) \<Rightarrow>
               (fl_error 400 (''Falta el campo '' @ [CHR 0x27] @ campo @ [CHR 0x27]), libros)
           | Inr None \<Rightarrow>
               (case py_getitem data ''isbn'' of
                  Inl e \<Rightarrow> (FlError500 (FlPyExc e), libros)
                | Inr k \<Rightarrow>
                    if fl_buscar_libro_por_isbn k libros \<noteq> None
                    then (fl_error 400 ''Ya existe un libro con ese ISBN'', libros)
                    else (case libro_of_dict data of
                            Inl e \<Rightarrow> (FlError500 (FlPyExc e), libros)
                          | Inr nuevo \<Rightarrow>
                              (FlResponse 201 (fl_libro_msg ''Libro creado exitosamente'' nuevo),
                               libros @ [nuevo])))))"

definition fl_obtener_libros :: "catalog \<Rightarrow> pyval" where
  "fl_obtener_libros libros =
     PDict [(''total'', PInt (int (length libros))), (''libros'', PList (map libro_to_dict libros))]"

definition fl_obtener_libro :: "string \<Rightarrow> catalog \<Rightarrow> fl_response" where
  "fl_obtener_libro k libros =
     (case fl_buscar_libro_por_isbn (PStr k) libros of
        None \<Rightarrow> fl_error 404 ''Libro no encontrado''
      | Some l \<Rightarrow> FlResponse 200 (libro_to_dict l))"

text \<open>One \<open>if 'campo' in data: libro.attr = data['campo']\<close> of \<open>actualizar_libro\<close>,
  on the state of the \<open>try\<close> block: the exception raised so far, if any, and the book
  as mutated so far. An exception skips the remaining statements but keeps the
  assignments already made.\<close>

definition fl_update_step ::
  "string \<Rightarrow> (libro \<Rightarrow> pyval \<Rightarrow> libro) \<Rightarrow> pyval \<Rightarrow> py_exc option \<times> libro \<Rightarrow> py_exc option \<times> libro" where
  "fl_update_step campo set_attr data st =
     (case st of
        (Some e, l) \<Rightarrow> (Some e, l)
      | (None, l) \<Rightarrow>
          (case py_in_str campo data of
             Inl e \<Rightarrow> (Some e, l)
           | Inr False \<Rightarrow> (None, l)
           | Inr True \<Rightarrow>
               (case py_getitem data campo of
                  Inl e \<Rightarrow> (Some e, l)
                | Inr v \<Rightarrow> (None, set_attr l v))))"

definition fl_actualizar_campos :: "pyval \<Rightarrow> libro \<Rightarrow> py_exc option \<times> libro" where
  "fl_actualizar_campos data l =
     (let r1 = fl_update_step ''titulo'' set_title data (None, l);
          r2 = fl_update_step ''autor'' set_author data r1;
          r3 = fl_update_step ''anio'' set_publication_year data r2;
          r4 = fl_update_step ''paginas'' set_total_num_pages data r3
      in fl_update_step ''disponible'' set_is_available data r4)"

definition fl_actualizar_libro :: "string \<Rightarrow> fl_body \<Rightarrow> catalog \<Rightarrow> fl_response \<times> catalog" where
  "fl_actualizar_libro k body libros =
     (case fl_buscar_libro_por_isbn (PStr k) libros of
        None \<Rightarrow> (fl_error 404 ''Libro no encontrado'', libros)
      | Some l \<Rightarrow>
          (case body of
             BadBody \<Rightarrow> (FlError500 FlBodyError, libros)
           | JsonBody data \<Rightarrow>
               (let libros' = map_first (fl_match (PStr k)) (\<lambda>x. snd (fl_actualizar_campos data x)) libros
                in case fl_actualizar_campos data l of
                     (Some e, _) \<Rightarrow> (FlError500 (FlPyExc e), libros')
                   | (None, l') \<Rightarrow>
                       (FlResponse 200 (fl_libro_msg ''Libro actualizado exitosamente'' l'), libros'))))"

definition fl_eliminar_libro :: "string \<Rightarrow> catalog \<Rightarrow> fl_response \<times> catalog" where
  "fl_eliminar_libro k libros =
     (case fl_buscar_libro_por_isbn (PStr k) libros of
        None \<Rightarrow> (fl_error 404 ''Libro no encontrado'', libros)
      | Some l \<Rightarrow>
          (FlResponse 200 (PDict [(''mensaje'', PStr ''Libro eliminado exitosamente''),
                                  (''isbn'', PStr k)]),
           remove1 l libros))"

definition fl_prestar_libro :: "string \<Rightarrow> catalog \<Rightarrow> fl_response \<times> catalog" where
  "fl_prestar_libro k libros =
     (case fl_buscar_libro_por_isbn (PStr k) libros of
        None \<Rightarrow> (fl_error 404 ''Libro no encontrado'', libros)
      | Some l \<Rightarrow>
          if \<not> py_truthy (is_available l)
          then (fl_error 400 (''El libro ya est'' @ utf8_a_acute @ '' prestado''), libros)
          else (FlResponse 200 (fl_libro_msg ''Libro prestado exitosamente'' (loan l)),
                map_first (fl_match (PStr k)) loan libros))"

definition fl_devolver_libro :: "string \<Rightarrow> catalog \<Rightarrow> fl_response \<times> catalog" where
  "fl_devolver_libro k libros =
     (case fl_buscar_libro_por_isbn (PStr k) libros of
        None \<Rightarrow> (fl_error 404 ''Libro no encontrado'', libros)
      | Some l \<Rightarrow>
          if py_truthy (is_available l)
          then (fl_error 400 (''El libro ya est'' @ utf8_a_acute @ '' disponible''), libros)
          else (FlResponse 200 (fl_libro_msg ''Libro devuelto exitosamente'' (return_book l)),
                map_first (fl_match (PStr k)) return_book libros))"

definition fl_libros_disponibles :: "catalog \<Rightarrow> pyval" where
  "fl_libros_disponibles libros =
     (let disponibles = map libro_to_dict (filter (\<lambda>l. py_truthy (is_available l)) libros)
      in PDict [(''total'', PInt (int (length disponibles))), (''libros'', PList disponibles)])"

definition fl_libros_ejemplo :: "libro list" where
  "fl_libros_ejemplo =
     [Libro (PStr (''Cien A'' @ utf8_n_tilde @ ''os de Soledad'')) (PStr ''978-0-307-47472-3'')
            (PStr (''Gabriel Garc'' @ utf8_i_acute @ ''a M'' @ utf8_a_acute @ ''rquez''))
            (PInt 1967) (PInt 417) (PBool True),
      Libro (PStr ''Don Quijote de la Mancha'') (PStr ''978-0-06-093434-7'')
            (PStr ''Miguel de Cervantes'') (PInt 1605) (PInt 863) (PBool True),
      Libro (PStr ''El Principito'') (PStr ''978-0-15-601219-1'')
            (PStr (''Antoine de Saint-Exup'' @ utf8_e_acute @ ''ry'')) (PInt 1943) (PInt 96) (PBool False)]"

definition fl_inicializar_datos :: "catalog \<Rightarrow> catalog" where
  "fl_inicializar_datos libros = libros @ fl_libros_ejemplo"

section \<open>Routing\<close>

datatype fl_request =
    FlHome
  | FlGetLibros
  | FlGetLibro string
  | FlPostLibro fl_body
  | FlPutLibro string fl_body
  | FlDeleteLibro string
  | FlPostPrestar string
  | FlPostDevolver string
  | FlGetDisponibles

text \<open>The \<open>@app.route\<close> decorators. A \<open><string:isbn>\<close> segment is any non-empty
  segment; Werkzeug tries the static rule \<open>/libros/disponibles\<close> before the rule with
  a converter, so \<open>GET /libros/disponibles\<close> is the filter and never a lookup.\<close>

definition fl_route :: "http_method \<Rightarrow> string list \<Rightarrow> fl_body \<Rightarrow> fl_request option" where
  "fl_route m p body =
     (case p of
        [] \<Rightarrow> if m = GET then Some FlHome else None
      | [s] \<Rightarrow>
          if s \<noteq> ''libros'' then None
          else (case m of GET \<Rightarrow> Some FlGetLibros | POST \<Rightarrow> Some (FlPostLibro body) | _ \<Rightarrow> None)
      | [s, k] \<Rightarrow>
          if s \<noteq> ''libros'' \<or> k = [] then None
          else if k = ''disponibles'' \<and> m = GET then Some FlGetDisponibles
          else (case m of
                  GET \<Rightarrow> Some (FlGetLibro k)
                | PUT \<Rightarrow> Some (FlPutLibro k body)
                | DELETE \<Rightarrow> Some (FlDeleteLibro k)
                | _ \<Rightarrow> None)
      | [s, k, a] \<Rightarrow>
          if s \<noteq> ''libros'' \<or> k = [] \<or> m \<noteq> POST then None
          else if a = ''prestar'' then Some (FlPostPrestar k)
          else if a = ''devolver'' then Some (FlPostDevolver k)
          else None
      | _ \<Rightarrow> None)"

fun fl_handle :: "fl_request \<Rightarrow> catalog \<Rightarrow> fl_response \<times> catalog" where
  "fl_handle FlHome s = (FlResponse 200 fl_home, s)"
| "fl_handle FlGetLibros s = (FlResponse 200 (fl_obtener_libros s), s)"
| "fl_handle (FlGetLibro k) s = (fl_obtener_libro k s, s)"
| "fl_handle (FlPostLibro b) s = fl_crear_libro b s"
| "fl_handle (FlPutLibro k b) s = fl_actualizar_libro k b s"
| "fl_handle (FlDeleteLibro k) s = fl_eliminar_libro k s"
| "fl_handle (FlPostPrestar k) s = fl_prestar_libro k s"
| "fl_handle (FlPostDevolver k) s = fl_devolver_libro k s"
| "fl_handle FlGetDisponibles s = (FlResponse 200 (fl_libros_disponibles s), s)"

definition fl_serve :: "http_method \<Rightarrow> string list \<Rightarrow> fl_body \<Rightarrow> catalog \<Rightarrow> fl_response \<times> catalog" where
  "fl_serve m p body s =
     (case fl_route m p body of None \<Rightarrow> (FlNoRoute, s) | Some r \<Rightarrow> fl_handle r s)"

fun fl_ok :: "fl_response \<Rightarrow> bool" where
  "fl_ok (FlResponse c _) = (200 \<le> c \<and> c < 300)"
| "fl_ok _ = False"

section \<open>Invariant and reachable states\<close>

text \<open>The uniqueness \<open>crear_libro\<close> enforces, with its own comparison: no book's
  ISBN is \<open>==\<close> to the ISBN of a book after it (the check compares each stored ISBN
  with the new one).\<close>

fun fl_isbns_unique :: "catalog \<Rightarrow> bool" where
  "fl_isbns_unique [] = True"
| "fl_isbns_unique (l # ls) = (list_all (\<lambda>m. \<not> py_eq (isbn l) (isbn m)) ls \<and> fl_isbns_unique ls)"

inductive fl_reachable :: "catalog \<Rightarrow> bool" where
  init: "fl_reachable (fl_inicializar_datos [])"
| step: "fl_reachable s \<Longrightarrow> fl_reachable (snd (fl_handle r s))"

section \<open>Lemmas\<close>

lemma fl_buscar_find [catalog_simps]: "fl_buscar_libro_por_isbn k s = find (fl_match k) s"
  by (induction s) auto

lemma fl_buscar_None_iff: "fl_buscar_libro_por_isbn k s = None \<longleftrightarrow> \<not> list_ex (fl_match k) s"
  by (induction s) auto

lemma fl_buscar_Some: "fl_buscar_libro_por_isbn k s = Some l \<Longrightarrow> l \<in> set s \<and> fl_match k l"
  by (induction s) (auto split: if_splits)

lemma fl_buscar_unique:
  "fl_isbns_unique s \<Longrightarrow> l \<in> set s \<Longrightarrow> isbn l = PStr k \<Longrightarrow> fl_buscar_libro_por_isbn (PStr k) s = Some l"
  by (induction s) (auto simp: list_all_iff)

lemma fl_update_step_nondict:
  "py_type data \<noteq> DictType \<Longrightarrow> snd (fl_update_step c f data st) = snd st"
  by (cases data) (auto simp: fl_update_step_def split: prod.splits option.splits sum.splits bool.splits)

lemma fl_update_step_dict:
  "fl_update_step c f (PDict d) (None, l) =
     (None, if c \<in> fst ` set d then f l (py_dict_get d c PNone) else l)"
  by (cases "map_of d c") (auto simp: fl_update_step_def py_dict_get_def map_of_eq_None_iff
      dest: weak_map_of_SomeI)

lemma fl_actualizar_campos_nondict:
  "py_type data \<noteq> DictType \<Longrightarrow> snd (fl_actualizar_campos data l) = l"
  by (simp add: fl_actualizar_campos_def Let_def fl_update_step_nondict)

lemma fl_actualizar_campos_dict:
  "fl_actualizar_campos (PDict d) l =
     (None, l\<lparr>title := py_dict_get d ''titulo'' (title l), author := py_dict_get d ''autor'' (author l),
              publication_year := py_dict_get d ''anio'' (publication_year l),
              total_num_pages := py_dict_get d ''paginas'' (total_num_pages l),
              is_available := py_dict_get d ''disponible'' (is_available l)\<rparr>)"
  by (cases "''titulo'' \<in> fst ` set d"; cases "''autor'' \<in> fst ` set d";
      cases "''anio'' \<in> fst ` set d"; cases "''paginas'' \<in> fst ` set d";
      cases "''disponible'' \<in> fst ` set d")
    (simp_all add: fl_actualizar_campos_def fl_update_step_dict py_dict_get_present py_dict_get_absent)

lemma fl_actualizar_campos_error:
  "fst (fl_actualizar_campos data l) \<noteq> None \<Longrightarrow> snd (fl_actualizar_campos data l) = l"
  by (cases data) (simp_all add: fl_actualizar_campos_nondict fl_actualizar_campos_dict)

lemma fl_actualizar_campos_isbn [simp]: "isbn (snd (fl_actualizar_campos data l)) = isbn l"
  by (cases data) (simp_all add: fl_actualizar_campos_nondict fl_actualizar_campos_dict)

lemma libro_of_dict_isbn: "libro_of_dict d = Inr l \<Longrightarrow> py_getitem d ''isbn'' = Inr (isbn l)"
  by (auto simp: libro_of_dict_def split: sum.splits)

lemma fl_isbns_unique_cong:
  "map isbn s = map isbn t \<Longrightarrow> fl_isbns_unique s = fl_isbns_unique t"
proof (induction s arbitrary: t)
  case Nil
  then show ?case by simp
next
  case (Cons l ls)
  then obtain m ms where t: "t = m # ms" "isbn m = isbn l" "map isbn ms = map isbn ls"
    by (cases t) auto
  have eq: "list_all (\<lambda>x. \<not> py_eq (isbn l) (isbn x)) xs =
             list_all (\<lambda>v. \<not> py_eq (isbn l) v) (map isbn xs)" for xs
    by (simp add: list.pred_map comp_def)
  show ?case using t Cons.IH [OF t(3) [symmetric]] eq [of ls] eq [of ms] by simp
qed

lemma fl_isbns_unique_map_first [catalog_simps]:
  "(\<And>x. isbn (f x) = isbn x) \<Longrightarrow> fl_isbns_unique (map_first P f s) = fl_isbns_unique s"
  by (rule fl_isbns_unique_cong) (simp add: map_map_first_frame)

lemma fl_isbns_unique_remove1 [catalog_simps]:
  "fl_isbns_unique s \<Longrightarrow> fl_isbns_unique (remove1 x s)"
proof (induction s)
  case (Cons l ls)
  have "list_all P ls \<Longrightarrow> list_all P (remove1 x ls)" for P
    using set_remove1_subset [of x ls] by (auto simp: list_all_iff)
  with Cons show ?case by auto
qed simp

lemma fl_isbns_unique_snoc [catalog_simps]:
  "fl_isbns_unique (s @ [x]) \<longleftrightarrow> fl_isbns_unique s \<and> list_all (\<lambda>l. \<not> py_eq (isbn l) (isbn x)) s"
  by (induction s) auto

lemma fl_crear_unique:
  assumes "fl_isbns_unique s" shows "fl_isbns_unique (snd (fl_crear_libro b s))"
proof -
  have "fl_isbns_unique (s @ [nuevo])"
    if "py_getitem data ''isbn'' = Inr k" "fl_buscar_libro_por_isbn k s = None"
       "libro_of_dict data = Inr nuevo" for data k nuevo
    using that assms libro_of_dict_isbn [OF that(3)]
    by (simp add: fl_isbns_unique_snoc fl_buscar_None_iff list_all_iff list_ex_iff)
  then show ?thesis
    using assms by (auto simp: fl_crear_libro_def split: fl_body.splits sum.splits option.splits)
qed

lemma fl_handle_unique: "fl_isbns_unique s \<Longrightarrow> fl_isbns_unique (snd (fl_handle r s))"
  by (cases r) (auto simp: fl_crear_unique fl_actualizar_libro_def fl_eliminar_libro_def
      fl_prestar_libro_def fl_devolver_libro_def fl_isbns_unique_map_first fl_isbns_unique_remove1
      Let_def split: option.splits fl_body.splits prod.splits)

lemma fl_unique_lookup:
  "fl_isbns_unique s \<Longrightarrow> length (filter (\<lambda>l. isbn l = PStr k) s) \<le> 1"
proof (induction s)
  case (Cons l ls)
  then show ?case
    by (cases "isbn l = PStr k") (auto simp: list_all_iff filter_empty_conv)
qed simp

lemma fl_actualizar_atomic:
  assumes "\<not> fl_ok (fst (fl_actualizar_libro k b s))"
  shows "snd (fl_actualizar_libro k b s) = s"
proof (cases "fl_buscar_libro_por_isbn (PStr k) s")
  case (Some l)
  have "map_first (fl_match (PStr k)) (\<lambda>x. snd (fl_actualizar_campos data x)) s = s"
    if "fst (fl_actualizar_campos data l) \<noteq> None" for data
    using Some that by (intro map_first_fixpoint [of _ _ l]) (simp_all add: fl_buscar_find fl_actualizar_campos_error)
  with Some assms show ?thesis
    by (auto simp: fl_actualizar_libro_def Let_def split: fl_body.splits prod.splits option.splits)
qed (simp add: fl_actualizar_libro_def)

lemma fl_falta_campo_dict:
  "fl_falta_campo cs (PDict d) = Inr (find (\<lambda>c. c \<notin> fst ` set d) cs)"
  by (induction cs) auto

lemma libro_of_dict_present:
  "find (\<lambda>c. c \<notin> fst ` set d) fl_campos_requeridos = None \<Longrightarrow>
   libro_of_dict (PDict d) =
     Inr (Libro (py_dict_get d ''titulo'' PNone) (py_dict_get d ''isbn'' PNone)
                (py_dict_get d ''autor'' PNone) (py_dict_get d ''anio'' PNone)
                (py_dict_get d ''paginas'' PNone) (py_dict_get d ''disponible'' PNone))"
  by (simp add: fl_campos_requeridos_def libro_of_dict_def py_getitem_dict_present
      del: py_getitem.simps split: if_split_asm)

section \<open>Properties\<close>

text \<open>C11 (invariant): in every state the Flask application reaches from \<open>inicializar_datos\<close>, no stored ISBN is \<open>==\<close> to the ISBN of a later book, so a path ISBN names at most one book.\<close>

theorem fl_reachable_unique:
  "fl_reachable s \<Longrightarrow> fl_isbns_unique s \<and> (\<forall>k. length (filter (\<lambda>l. isbn l = PStr k) s) \<le> 1)"
proof (induction rule: fl_reachable.induct)
  case init
  have "fl_isbns_unique (fl_inicializar_datos [])"
    by (simp add: fl_inicializar_datos_def fl_libros_ejemplo_def)
  then show ?case using fl_unique_lookup by blast
next
  case (step s r)
  then have "fl_isbns_unique (snd (fl_handle r s))" by (simp add: fl_handle_unique)
  then show ?case using fl_unique_lookup by blast
qed

theorem fl_reachable_unique_witness:
  "fl_isbns_unique (fl_inicializar_datos []) \<and>
   length (filter (\<lambda>l. isbn l = PStr ''978-0-06-093434-7'') (fl_inicializar_datos [])) \<le> 1"
  using fl_reachable_unique [OF fl_reachable.init] by blast

text \<open>C12 (error): every Flask request answered with an error (404, 400, the 500 of a caught exception) leaves the catalog unchanged; for \<open>actualizar_libro\<close> this needs that an exception of its \<open>try\<close> block can only come before the first assignment.\<close>

theorem fl_error_atomic:
  "\<not> fl_ok (fst (fl_handle r s)) \<Longrightarrow> snd (fl_handle r s) = s"
  by (cases r) (auto simp: fl_crear_libro_def fl_obtener_libro_def fl_eliminar_libro_def
      fl_prestar_libro_def fl_devolver_libro_def fl_error_def fl_actualizar_atomic
      split: fl_body.splits sum.splits option.splits)

theorem fl_error_atomic_witness:
  "fst (fl_handle (FlPutLibro ''978-0-06-093434-7'' (JsonBody (PStr ''titulo''))) (fl_inicializar_datos [])) =
     FlError500 (FlPyExc TypeError) \<and>
   snd (fl_handle (FlPutLibro ''978-0-06-093434-7'' (JsonBody (PStr ''titulo''))) (fl_inicializar_datos [])) =
     fl_inicializar_datos []"
proof -
  have h: "fst (fl_handle (FlPutLibro ''978-0-06-093434-7'' (JsonBody (PStr ''titulo'')))
                 (fl_inicializar_datos [])) = FlError500 (FlPyExc TypeError)"
    by (simp add: fl_actualizar_libro_def fl_inicializar_datos_def fl_libros_ejemplo_def
        fl_actualizar_campos_def fl_update_step_def)
  then have "\<not> fl_ok (fst (fl_handle (FlPutLibro ''978-0-06-093434-7'' (JsonBody (PStr ''titulo'')))
                 (fl_inicializar_datos [])))" by simp
  from h fl_error_atomic [OF this] show ?thesis by simp
qed

text \<open>C13 (functional): \<open>POST /libros\<close> with a JSON object answers 400 naming the first missing required field, else 400 when a stored ISBN is \<open>==\<close> to the given one, else 201 and appends the book built from the object's values.\<close>

theorem fl_crear_dict:
  "fl_handle (FlPostLibro (JsonBody (PDict d))) s =
     (case find (\<lambda>c. c \<notin> fst ` set d) fl_campos_requeridos of
        Some c \<Rightarrow> (fl_error 400 (''Falta el campo '' @ [CHR 0x27] @ c @ [CHR 0x27]), s)
      | None \<Rightarrow>
          if list_ex (\<lambda>l. py_eq (isbn l) (py_dict_get d ''isbn'' PNone)) s
          then (fl_error 400 ''Ya existe un libro con ese ISBN'', s)
          else
            (let nuevo = Libro (py_dict_get d ''titulo'' PNone) (py_dict_get d ''isbn'' PNone)
                               (py_dict_get d ''autor'' PNone) (py_dict_get d ''anio'' PNone)
                               (py_dict_get d ''paginas'' PNone) (py_dict_get d ''disponible'' PNone)
             in (FlResponse 201 (fl_libro_msg ''Libro creado exitosamente'' nuevo), s @ [nuevo])))"
proof (cases "find (\<lambda>c. c \<notin> fst ` set d) fl_campos_requeridos")
  case None
  then have "''isbn'' \<in> fst ` set d" by (simp add: fl_campos_requeridos_def split: if_splits)
  with None show ?thesis
    by (simp add: fl_crear_libro_def fl_falta_campo_dict py_getitem_dict_present
        libro_of_dict_present fl_buscar_None_iff Let_def del: py_getitem.simps)
qed (simp add: fl_crear_libro_def fl_falta_campo_dict)

text \<open>C14 (functional): \<open>PUT /libros/<isbn>\<close> of a stored book with a JSON object is a partial update: it answers 200 and sets exactly the attributes whose keys the object has, the others keep their values.\<close>

theorem fl_put_partial:
  "fl_buscar_libro_por_isbn (PStr k) s = Some l \<Longrightarrow>
   fl_handle (FlPutLibro k (JsonBody (PDict d))) s =
     (let upd = (\<lambda>x. x\<lparr>title := py_dict_get d ''titulo'' (title x), author := py_dict_get d ''autor'' (author x),
                         publication_year := py_dict_get d ''anio'' (publication_year x),
                         total_num_pages := py_dict_get d ''paginas'' (total_num_pages x),
                         is_available := py_dict_get d ''disponible'' (is_available x)\<rparr>)
      in (FlResponse 200 (fl_libro_msg ''Libro actualizado exitosamente'' (upd l)),
          map_first (fl_match (PStr k)) upd s))"
  by (simp add: fl_actualizar_libro_def fl_actualizar_campos_dict)

theorem fl_put_partial_witness:
  "fl_buscar_libro_por_isbn (PStr ''978-0-06-093434-7'') (fl_inicializar_datos []) = Some (fl_libros_ejemplo ! 1) \<and>
   snd (fl_handle (FlPutLibro ''978-0-06-093434-7'' (JsonBody (PDict [(''titulo'', PStr ''Quijote'')])))
          (fl_inicializar_datos [])) =
     [fl_libros_ejemplo ! 0, (fl_libros_ejemplo ! 1)\<lparr>title := PStr ''Quijote''\<rparr>, fl_libros_ejemplo ! 2]"
proof -
  have h: "fl_buscar_libro_por_isbn (PStr ''978-0-06-093434-7'') (fl_inicializar_datos []) = Some (fl_libros_ejemplo ! 1)"
    by (simp add: fl_inicializar_datos_def fl_libros_ejemplo_def)
  from h fl_put_partial [OF h, of "[(''titulo'', PStr ''Quijote'')]"] show ?thesis
    by (simp add: fl_inicializar_datos_def fl_libros_ejemplo_def py_dict_get_def Libro_def)
qed

text \<open>C15 (safety): a book whose ISBN is not a string (Flask stores whatever JSON value \<open>isbn\<close> held) is found by no path lookup, so no request can delete, lend, return or update it.\<close>

theorem fl_non_str_isbn_stuck:
  "l \<in> set s \<Longrightarrow> py_type (isbn l) \<noteq> StrType \<Longrightarrow>
   l \<in> set (snd (fl_handle r s)) \<and> (\<forall>k. fl_buscar_libro_por_isbn (PStr k) s \<noteq> Some l)"
proof -
  assume l: "l \<in> set s" "py_type (isbn l) \<noteq> StrType"
  then have nm: "\<not> fl_match (PStr k) l" for k by auto
  have found: "fl_buscar_libro_por_isbn (PStr k) s = Some x \<Longrightarrow> l \<noteq> x" for k x
    using fl_buscar_Some [of "PStr k" s x] nm [of k] by auto
  have "l \<in> set (snd (fl_handle r s))"
    using l nm found
    by (cases r) (auto simp: fl_crear_libro_def fl_actualizar_libro_def fl_eliminar_libro_def
        fl_prestar_libro_def fl_devolver_libro_def Let_def map_first_keeps in_set_remove1
        split: fl_body.splits sum.splits option.splits prod.splits)
  with found show ?thesis by blast
qed

theorem fl_non_str_isbn_stuck_witness:
  "let body = JsonBody (PDict [(''titulo'', PStr ''T''), (''isbn'', PInt 42), (''autor'', PStr ''Au''),
                               (''anio'', PInt 2000), (''paginas'', PInt 100), (''disponible'', PBool True)]);
       s = snd (fl_handle (FlPostLibro body) (fl_inicializar_datos []));
       l = Libro (PStr ''T'') (PInt 42) (PStr ''Au'') (PInt 2000) (PInt 100) (PBool True)
   in l \<in> set s \<and> py_type (isbn l) \<noteq> StrType \<and>
      l \<in> set (snd (fl_handle (FlDeleteLibro ''42'') s)) \<and>
      (\<forall>k. fl_buscar_libro_por_isbn (PStr k) s \<noteq> Some l)"
proof -
  define s where "s = snd (fl_handle (FlPostLibro (JsonBody (PDict [(''titulo'', PStr ''T''),
      (''isbn'', PInt 42), (''autor'', PStr ''Au''), (''anio'', PInt 2000), (''paginas'', PInt 100),
      (''disponible'', PBool True)]))) (fl_inicializar_datos []))"
  define l where "l = Libro (PStr ''T'') (PInt 42) (PStr ''Au'') (PInt 2000) (PInt 100) (PBool True)"
  have h1: "l \<in> set s"
    by (simp add: s_def l_def fl_crear_libro_def fl_campos_requeridos_def libro_of_dict_def
        fl_inicializar_datos_def fl_libros_ejemplo_def)
  have h2: "py_type (isbn l) \<noteq> StrType" by (simp add: l_def)
  from fl_non_str_isbn_stuck [OF h1 h2, of "FlDeleteLibro ''42''"] h1 h2 show ?thesis
    by (simp add: s_def l_def Let_def)
qed

text \<open>C16 (functional): the Flask application takes availability by Python truth: in
  any catalog of unique ISBNs, a book whose \<open>disponible\<close> is a non-empty string, such as
  \<open>"false"\<close> sent in a JSON body, is listed by \<open>/libros/disponibles\<close> and cannot be
  returned (400, already available).\<close>

theorem fl_string_false_is_available:
  assumes "fl_isbns_unique s" and "l \<in> set s" and "isbn l = PStr k"
    and "is_available l = PStr x" and "x \<noteq> []"
  shows "(\<exists>ds. fl_libros_disponibles s = PDict [(''total'', PInt (int (length ds))), (''libros'', PList ds)] \<and>
               libro_to_dict l \<in> set ds) \<and>
         fl_handle (FlPostDevolver k) s = (fl_error 400 (''El libro ya est'' @ utf8_a_acute @ '' disponible''), s)"
  using assms by (auto simp: fl_libros_disponibles_def fl_devolver_libro_def fl_buscar_unique)

theorem fl_string_false_is_available_witness:
  "let l = Libro (PStr ''T'') (PStr ''A1'') (PStr ''Au'') (PInt 2000) (PInt 100) (PStr ''false'')
   in (\<exists>ds. fl_libros_disponibles [l] = PDict [(''total'', PInt (int (length ds))), (''libros'', PList ds)] \<and>
            libro_to_dict l \<in> set ds) \<and>
      fl_handle (FlPostDevolver ''A1'') [l] = (fl_error 400 (''El libro ya est'' @ utf8_a_acute @ '' disponible''), [l])"
proof -
  define l where "l = Libro (PStr ''T'') (PStr ''A1'') (PStr ''Au'') (PInt 2000) (PInt 100) (PStr ''false'')"
  have h: "fl_isbns_unique [l]" "l \<in> set [l]" "isbn l = PStr ''A1''" "is_available l = PStr ''false''"
    "''false'' \<noteq> []" by (simp_all add: l_def Libro_def)
  show ?thesis unfolding Let_def l_def [symmetric]
    using fl_string_false_is_available [OF h] by simp
qed

end
