(* ===== verification/Client_Script.thy ===== *)
theory Client_Script
  imports Catalog_FastAPI Catalog_Flask
begin

text \<open>
  The client script \<^verbatim>\<open>src/6_Biblioteca_python/ejemplo_pruebas.py\<close>. Each
  \<open>prueba_N\<close> sends one HTTP request (method, path, optional JSON body); a server is
  any function from a request and the catalog to a response and the new catalog, and
  both applications are servers (\<open>fastapi_server\<close>, \<open>flask_server\<close>).
  \<open>ejecutar_todas_las_pruebas\<close> sends the nine requests in order, reading a line of
  input between two of them; \<open>main\<close> is the menu loop over the lines the user types.
  Printing is not modelled; the server is assumed reachable, so the
  \<open>ConnectionError\<close> branches are not taken.
\<close>

record client_request =
  cr_method :: http_method
  cr_path :: "string list"
  cr_json :: "pyval option"

type_synonym 'r server = "client_request \<Rightarrow> catalog \<Rightarrow> 'r \<times> catalog"

definition fastapi_server :: "fa_response option server" where
  "fastapi_server q s = fa_serve (cr_method q) (cr_path q) (cr_json q) s"

text \<open>\<open>requests\<close> sends no JSON content type without \<open>json=\<close>, and Flask's
  \<open>get_json()\<close> then raises.\<close>

definition flask_server :: "fl_response server" where
  "flask_server q s =
     fl_serve (cr_method q) (cr_path q) (case cr_json q of None \<Rightarrow> BadBody | Some v \<Rightarrow> JsonBody v) s"

text \<open>\<open>response.status_code\<close>; \<open>None\<close> is the framework's 404 or 405 for an
  unrouted request.\<close>

fun fa_status_code :: "fa_response option \<Rightarrow> nat option" where
  "fa_status_code (Some (Response c _)) = Some c"
| "fa_status_code (Some ValidationError) = Some 422"
| "fa_status_code None = None"

fun fl_status_code :: "fl_response \<Rightarrow> nat option" where
  "fl_status_code (FlResponse c _) = Some c"
| "fl_status_code (FlError500 _) = Some 500"
| "fl_status_code FlNoRoute = None"

section \<open>The nine requests\<close>

definition isbn_harry_potter :: string where
  "isbn_harry_potter = ''978-0-439-70818-8''"

definition prueba_1_obtener_todos_los_libros :: client_request where
  "prueba_1_obtener_todos_los_libros = \<lparr>cr_method = GET, cr_path = [''libros''], cr_json = None\<rparr>"

definition nuevo_libro_json :: pyval where
  "nuevo_libro_json =
     PDict [(''titulo'', PStr ''Harry Potter y la Piedra Filosofal''), (''isbn'', PStr isbn_harry_potter),
            (''autor'', PStr ''J.K. Rowling''), (''anio'', PInt 1997), (''paginas'', PInt 309),
            (''disponible'', PBool True)]"

definition prueba_2_crear_libro :: client_request where
  "prueba_2_crear_libro = \<lparr>cr_method = POST, cr_path = [''libros''], cr_json = Some nuevo_libro_json\<rparr>"

definition prueba_3_obtener_libro_especifico :: client_request where
  "prueba_3_obtener_libro_especifico =
     \<lparr>cr_method = GET, cr_path = [''libros'', ''978-0-307-47472-3''], cr_json = None\<rparr>"

definition libro_actualizado_json :: pyval where
  "libro_actualizado_json =
     PDict [(''titulo'', PStr (''Harry Potter y la Piedra Filosofal (Edici'' @ utf8_o_acute @ ''n Especial)'')),
            (''isbn'', PStr isbn_harry_potter), (''autor'', PStr ''J.K. Rowling''),
            (''anio'', PInt 1997), (''paginas'', PInt 320), (''disponible'', PBool True)]"

definition prueba_4_actualizar_libro :: client_request where
  "prueba_4_actualizar_libro =
     \<lparr>cr_method = PUT, cr_path = [''libros'', isbn_harry_potter], cr_json = Some libro_actualizado_json\<rparr>"

definition prueba_5_prestar_libro :: client_request where
  "prueba_5_prestar_libro =
     \<lparr>cr_method = POST, cr_path = [''libros'', isbn_harry_potter, ''prestar''], cr_json = None\<rparr>"

definition prueba_6_devolver_libro :: client_request where
  "prueba_6_devolver_libro =
     \<lparr>cr_method = POST, cr_path = [''libros'', isbn_harry_potter, ''devolver''], cr_json = None\<rparr>"

definition prueba_7_eliminar_libro :: client_request where
  "prueba_7_eliminar_libro = \<lparr>cr_method = DELETE, cr_path = [''libros'', isbn_harry_potter], cr_json = None\<rparr>"

definition prueba_8_libro_no_encontrado :: client_request where
  "prueba_8_libro_no_encontrado =
     \<lparr>cr_method = GET, cr_path = [''libros'', ''999-9-999-99999-9''], cr_json = None\<rparr>"

definition libro_invalido_json :: pyval where
  "libro_invalido_json =
     PDict [(''isbn'', PStr ''978-1-111-11111-1''), (''autor'', PStr ''Autor Desconocido''), (''anio'', PInt 2023)]"

definition prueba_9_crear_libro_invalido :: client_request where
  "prueba_9_crear_libro_invalido = \<lparr>cr_method = POST, cr_path = [''libros''], cr_json = Some libro_invalido_json\<rparr>"

definition todas_las_pruebas :: "client_request list" where
  "todas_las_pruebas =
     [prueba_1_obtener_todos_los_libros, prueba_2_crear_libro, prueba_3_obtener_libro_especifico,
      prueba_4_actualizar_libro, prueba_5_prestar_libro, prueba_6_devolver_libro,
      prueba_7_eliminar_libro, prueba_8_libro_no_encontrado, prueba_9_crear_libro_invalido]"

section \<open>Running requests against a server\<close>

fun client_run :: "'r server \<Rightarrow> client_request list \<Rightarrow> catalog \<Rightarrow> 'r list \<times> catalog" where
  "client_run srv [] s = ([], s)"
| "client_run srv (q # qs) s =
     (let (r, s') = srv q s; (rs, s'') = client_run srv qs s' in (r # rs, s''))"

section \<open>The menu\<close>

text \<open>\<open>ejecutar_todas_las_pruebas\<close>: after each request but the last, one line is read
  (\<open>input("Presiona Enter...")\<close>). The result is the requests sent and the remaining
  input, or \<open>None\<close> when the input ended (\<open>EOFError\<close>).\<close>

fun ejecutar_todas :: "client_request list \<Rightarrow> string list \<Rightarrow> client_request list \<times> string list option" where
  "ejecutar_todas [] ls = ([], Some ls)"
| "ejecutar_todas [q] ls = ([q], Some ls)"
| "ejecutar_todas (q # q' # qs) [] = ([q], None)"
| "ejecutar_todas (q # q' # qs) (l # ls) = (let (rs, r) = ejecutar_todas (q' # qs) ls in (q # rs, r))"

datatype menu_entry = Prueba client_request | Todas

text \<open>The dict \<open>pruebas\<close> of \<open>main\<close>.\<close>

definition pruebas :: "string \<Rightarrow> menu_entry option" where
  "pruebas opcion =
     map_of (zip (map (\<lambda>c. [c]) ''123456789'') (map Prueba todas_las_pruebas) @ [(''0'', Todas)])
       opcion"

text \<open>\<open>main()\<close>, on the lines typed at its prompts. The result is the requests sent and
  whether the loop left by \<open>q\<close> (\<open>True\<close>) or by the end of the input (\<open>False\<close>: the
  \<open>EOFError\<close> of an \<open>input\<close> outside the \<open>try\<close>, or a second one inside the
  \<open>except\<close> handler). The loop reads at least one line per iteration, so it
  terminates.\<close>

function main :: "string list \<Rightarrow> client_request list \<times> bool" where
  "main [] = ([], False)"
| "main (l # ls) =
     (let opcion = py_lower (py_strip l) in
      if opcion = ''q'' then ([], True)
      else (case pruebas opcion of
              None \<Rightarrow> (case ls of [] \<Rightarrow> ([], False) | _ # ls' \<Rightarrow> main ls')
            | Some (Prueba q) \<Rightarrow>
                (case ls of [] \<Rightarrow> ([q], False) | _ # ls' \<Rightarrow> apfst ((#) q) (main ls'))
            | Some Todas \<Rightarrow>
                (case ejecutar_todas todas_las_pruebas ls of
                   (rs, None) \<Rightarrow> (rs, False)
                 | (rs, Some ls') \<Rightarrow> apfst ((@) rs) (main ls'))))"
  by pat_completeness auto

termination main
proof -
  have rest: "ejecutar_todas qs xs = (rs, Some xs') \<Longrightarrow> length xs' \<le> length xs" for qs xs rs xs'
    by (induction qs xs arbitrary: rs rule: ejecutar_todas.induct) (auto split: prod.splits)
  show ?thesis
    by (relation "measure length") (auto dest: rest [OF sym] simp: le_imp_less_Suc)
qed

section \<open>Lemmas\<close>

lemmas client_defs = todas_las_pruebas_def prueba_1_obtener_todos_los_libros_def prueba_2_crear_libro_def
  prueba_3_obtener_libro_especifico_def prueba_4_actualizar_libro_def prueba_5_prestar_libro_def
  prueba_6_devolver_libro_def prueba_7_eliminar_libro_def prueba_8_libro_no_encontrado_def
  prueba_9_crear_libro_invalido_def nuevo_libro_json_def libro_actualizado_json_def
  libro_invalido_json_def isbn_harry_potter_def

lemma ejecutar_todas_length:
  "ejecutar_todas qs ls = (rs, r) \<Longrightarrow>
   length rs + (case r of None \<Rightarrow> 0 | Some ls' \<Rightarrow> length ls') \<le> Suc (length ls)"
  by (induction qs ls arbitrary: rs r rule: ejecutar_todas.induct) (auto split: prod.splits option.splits)

section \<open>Properties\<close>

text \<open>Running the client script's nine requests (\<open>ejecutar_todas_las_pruebas\<close>) against the FastAPI application from its startup catalog answers 200, 201, 200, 200, 200, 200, 200, 404 and 422, and leaves the catalog as it started: the created book is updated, lent, returned and deleted.\<close>

lemma fastapi_script_run:
  "let (rs, s) = client_run fastapi_server todas_las_pruebas (fa_startup_event [])
   in map fa_status_code rs = map Some [200, 201, 200, 200, 200, 200, 200, 404, 422] \<and>
      s = fa_startup_event []"
  by (simp add: client_defs fastapi_server_def fa_serve_def fa_route_def fa_parse_input_def
      fa_startup_event_def fa_libros_ejemplo_def fa_crear_libro_def libro_input_valid_def py_len_def
      fa_actualizar_libro_completo_def fa_prestar_libro_def fa_devolver_libro_def fa_eliminar_libro_def
      fa_obtener_libro_def Libro_def fa_completo_def loan_def return_book_def fa_nuevo_libro_def fa_no_encontrado_def)

text \<open>The same nine requests against the Flask application from \<open>inicializar_datos\<close> answer the same codes except the last, 400 instead of 422 (the missing \<open>titulo\<close> is reported by the handler), and leave the catalog as it started.\<close>

lemma flask_script_run:
  "let (rs, s) = client_run flask_server todas_las_pruebas (fl_inicializar_datos [])
   in map fl_status_code rs = map Some [200, 201, 200, 200, 200, 200, 200, 404, 400] \<and>
      s = fl_inicializar_datos []"
  by (simp add: client_defs flask_server_def fl_serve_def fl_route_def fl_crear_libro_def
      fl_campos_requeridos_def libro_of_dict_def fl_inicializar_datos_def fl_libros_ejemplo_def
      fl_actualizar_libro_def fl_actualizar_campos_def fl_update_step_def fl_prestar_libro_def
      fl_devolver_libro_def fl_eliminar_libro_def fl_obtener_libro_def fl_error_def Libro_def
      loan_def return_book_def)

text \<open>C17 (bounds): the menu loop sends at most one request per line of input it reads, whatever the user types.\<close>

theorem main_requests_bounded: "length (fst (main ls)) \<le> length ls"
proof (induction ls rule: main.induct)
  case (2 l ls)
  define opcion where "opcion = py_lower (py_strip l)"
  show ?case
  proof (cases "opcion = ''q'' \<or> pruebas opcion \<noteq> Some Todas")
    case True
    with 2(1,2) show ?thesis
      by (cases "pruebas opcion")
        (fastforce simp: opcion_def Let_def split: list.splits menu_entry.splits intro: le_SucI)+
  next
    case False
    then have nq: "opcion \<noteq> ''q''" and todas: "pruebas opcion = Some Todas" by auto
    obtain rs r where e: "ejecutar_todas todas_las_pruebas ls = (rs, r)" by fastforce
    show ?thesis
    proof (cases r)
      case None
      with e ejecutar_todas_length [OF e] nq todas show ?thesis by (simp add: opcion_def Let_def)
    next
      case (Some ls')
      with e ejecutar_todas_length [OF e] nq todas
        2(3) [OF opcion_def nq todas refl e [symmetric] Some]
      show ?thesis by (simp add: opcion_def Let_def)
    qed
  qed
qed simp

text \<open>Option \<open>0\<close>, eight Enter presses and \<open> Q \<close> (stripped and lower-cased to \<open>q\<close>) send the nine requests in order and leave the loop normally.\<close>

lemma main_all_then_quit:
  "main (''0'' # replicate 8 [] @ ['' Q '']) = (todas_las_pruebas, True)"
  by code_simp

lemma main_q: "main [''q''] = ([], True)"
  by code_simp

text \<open>C34 (termination): the \<open>while True\<close> loop of \<open>main()\<close> leaves through its
  \<open>break\<close>: on any session of menu choices other than \<open>0\<close> and \<open>q\<close>, each followed
  by the line read at its Enter prompt, and then \<open>q\<close>, the loop sends exactly the
  requests of the tests chosen (none for an invalid option) and ends by \<open>q\<close>.\<close>

theorem main_sale_por_q:
  assumes "\<forall>(l, e) \<in> set xs. py_lower (py_strip l) \<noteq> ''q'' \<and> pruebas (py_lower (py_strip l)) \<noteq> Some Todas"
  shows "main (concat (map (\<lambda>(l, e). [l, e]) xs) @ [''q'']) =
           (concat (map (\<lambda>(l, e). case pruebas (py_lower (py_strip l)) of Some (Prueba r) \<Rightarrow> [r] | _ \<Rightarrow> []) xs),
            True)"
  using assms
proof (induction xs)
  case Nil
  then show ?case by (simp del: main.simps add: main_q)
next
  case (Cons x xs)
  obtain l e where x: "x = (l, e)" by fastforce
  with Cons show ?case
    by (auto simp: Let_def split: option.splits menu_entry.splits)
qed

theorem main_sale_por_q_witness:
  "main [''1'', '''', ''x'', '''', ''q''] = ([prueba_1_obtener_todos_los_libros], True)"
proof -
  have h: "\<forall>(l, e) \<in> set [(''1'', ''''), (''x'', '''')].
             py_lower (py_strip l) \<noteq> ''q'' \<and> pruebas (py_lower (py_strip l)) \<noteq> Some Todas"
    by code_simp
  have r: "concat (map (\<lambda>(l, e). case pruebas (py_lower (py_strip l)) of Some (Prueba r) \<Rightarrow> [r] | _ \<Rightarrow> [])
             [(''1'', ''''), (''x'', '''')]) = [prueba_1_obtener_todos_los_libros]"
    by code_simp
  from main_sale_por_q [OF h] r show ?thesis by simp
qed

end
