(* ===== verification/Persona.thy ===== *)
theory Persona
  imports Prelude
begin

text \<open>
  The class \<open>Persona\<close> of \<^verbatim>\<open>src/1_Creacion_Clases/persona.py\<close>. An instance is a
  record of its four attributes (the name, the integer age of the docstring, the
  identification and the private \<open>_estado\<close>). The class attribute
  \<open>contador_personas\<close>, which \<open>__init__\<close> increments, is explicit state: a
  \<open>persona_mundo\<close> holds it together with every instance created so far, addressed by
  creation order, and the mutating methods act on an address. Methods that only print
  are modelled by their effect on the object; the returned strings (\<open>saludar\<close>,
  \<open>obtener_informacion\<close>, \<open>__str__\<close>, \<open>__repr__\<close>) are modelled exactly.
\<close>

record persona =
  nombre :: string
  edad :: int
  identificacion :: string
  estado :: string

record persona_mundo =
  personas :: "persona list"
  contador_personas :: int

definition persona_clase_inicial :: persona_mundo where
  "persona_clase_inicial = \<lparr>personas = [], contador_personas = 0\<rparr>"

text \<open>\<open>Persona(nombre, edad, identificacion)\<close>: the new object and the class with its
  counter incremented.\<close>

definition Persona :: "string \<Rightarrow> int \<Rightarrow> string \<Rightarrow> persona_mundo \<Rightarrow> persona \<times> persona_mundo" where
  "Persona n e i w =
     (let p = \<lparr>nombre = n, edad = e, identificacion = i, estado = ''activo''\<rparr>
      in (p, w\<lparr>personas := personas w @ [p], contador_personas := contador_personas w + 1\<rparr>))"

definition saludar :: "persona \<Rightarrow> string" where
  "saludar p =
     ''Hola, mi nombre es '' @ nombre p @ '' y tengo '' @ py_str_int (edad p) @
     '' a'' @ utf8_n_tilde @ ''os.''"

definition cumplir_anios :: "persona \<Rightarrow> persona" where
  "cumplir_anios p = p\<lparr>edad := edad p + 1\<rparr>"

definition es_mayor_de_edad :: "persona \<Rightarrow> bool" where
  "es_mayor_de_edad p \<longleftrightarrow> 18 \<le> edad p"

definition obtener_informacion :: "persona \<Rightarrow> string" where
  "obtener_informacion p =
     (let ind = replicate 8 (CHR '' ''); nl = [CHR 0x0A];
          estado_edad = (if es_mayor_de_edad p then ''mayor de edad'' else ''menor de edad'')
      in nl @ ind @ ''--- Informaci'' @ utf8_o_acute @ ''n de la Persona ---'' @ nl @
         ind @ ''Nombre: '' @ nombre p @ nl @
         ind @ ''Edad: '' @ py_str_int (edad p) @ '' a'' @ utf8_n_tilde @ ''os ('' @ estado_edad @ '')'' @ nl @
         ind @ ''Identificaci'' @ utf8_o_acute @ ''n: '' @ identificacion p @ nl @
         ind @ ''Estado: '' @ estado p @ nl @ ind)"

definition actualizar_nombre :: "string \<Rightarrow> persona \<Rightarrow> persona" where
  "actualizar_nombre nuevo_nombre p = p\<lparr>nombre := nuevo_nombre\<rparr>"

definition obtener_total_personas :: "persona_mundo \<Rightarrow> int" where
  "obtener_total_personas w = contador_personas w"

definition validar_edad :: "int \<Rightarrow> bool" where
  "validar_edad e \<longleftrightarrow> 0 \<le> e \<and> e \<le> 120"

definition persona_str :: "persona \<Rightarrow> string" where
  "persona_str p =
     ''Persona(nombre='' @ [CHR 0x27] @ nombre p @ [CHR 0x27] @ '', edad='' @ py_str_int (edad p) @ '')''"

definition persona_repr :: "persona \<Rightarrow> string" where
  "persona_repr p =
     ''Persona(nombre='' @ [CHR 0x27] @ nombre p @ [CHR 0x27] @ '', edad='' @ py_str_int (edad p) @
     '', identificacion='' @ [CHR 0x27] @ identificacion p @ [CHR 0x27] @ '')''"

section \<open>Programs over the class\<close>

text \<open>The statements a program can run on the class: create an instance, or call a
  mutating method on the instance at an address.\<close>

datatype persona_op =
    NuevaPersona string int string
  | CumplirAnios nat
  | ActualizarNombre nat string

fun persona_step :: "persona_op \<Rightarrow> persona_mundo \<Rightarrow> persona_mundo" where
  "persona_step (NuevaPersona n e i) w = snd (Persona n e i w)"
| "persona_step (CumplirAnios a) w = w\<lparr>personas := (personas w)[a := cumplir_anios (personas w ! a)]\<rparr>"
| "persona_step (ActualizarNombre a n) w =
     w\<lparr>personas := (personas w)[a := actualizar_nombre n (personas w ! a)]\<rparr>"

inductive persona_reachable :: "persona_mundo \<Rightarrow> bool" where
  inicio: "persona_reachable persona_clase_inicial"
| paso: "persona_reachable w \<Longrightarrow> persona_reachable (persona_step op w)"

text \<open>The statements of the \<open>__main__\<close> block that change state, in order.\<close>

definition persona_demo_ops :: "persona_op list" where
  "persona_demo_ops =
     [NuevaPersona (''Juan P'' @ utf8_e_acute @ ''rez'') 25 ''123456789'',
      NuevaPersona (''Mar'' @ utf8_i_acute @ ''a Garc'' @ utf8_i_acute @ ''a'') 17 ''987654321'',
      CumplirAnios 0,
      ActualizarNombre 1 (''Mar'' @ utf8_i_acute @ ''a Fernanda Garc'' @ utf8_i_acute @ ''a'')]"

definition persona_demo :: persona_mundo where
  "persona_demo = fold persona_step persona_demo_ops persona_clase_inicial"

section \<open>Lemmas\<close>

lemma persona_reachable_fold:
  "persona_reachable w \<Longrightarrow> persona_reachable (fold persona_step ops w)"
  by (induction ops arbitrary: w) (auto intro: persona_reachable.paso)

section \<open>Properties\<close>

text \<open>C18 (invariant): in every state a program can reach from the class definition, the class attribute \<open>contador_personas\<close> (what \<open>obtener_total_personas\<close> returns) equals the number of instances created.\<close>

theorem persona_contador_inv:
  "persona_reachable w \<Longrightarrow> obtener_total_personas w = int (length (personas w))"
proof (induction rule: persona_reachable.induct)
  case inicio
  then show ?case by (simp add: obtener_total_personas_def persona_clase_inicial_def)
next
  case (paso w op)
  then show ?case
    by (cases op) (simp_all add: obtener_total_personas_def Persona_def Let_def)
qed

theorem persona_contador_inv_witness:
  "obtener_total_personas persona_demo = int (length (personas persona_demo))"
proof -
  have "persona_reachable persona_demo"
    unfolding persona_demo_def by (rule persona_reachable_fold [OF persona_reachable.inicio])
  from persona_contador_inv [OF this] show ?thesis .
qed

text \<open>C19 (safety): no statement decreases the age of an existing instance, so a person who is of age (\<open>es_mayor_de_edad\<close>) stays of age.\<close>

theorem persona_edad_monotone:
  "a < length (personas w) \<Longrightarrow>
   edad (personas w ! a) \<le> edad (personas (persona_step op w) ! a) \<and>
   (es_mayor_de_edad (personas w ! a) \<longrightarrow> es_mayor_de_edad (personas (persona_step op w) ! a))"
  by (cases op) (auto simp: Persona_def Let_def nth_append nth_update_apply cumplir_anios_def
      actualizar_nombre_def es_mayor_de_edad_def)

theorem persona_edad_monotone_witness:
  "edad (personas persona_demo ! 0) \<le> edad (personas (persona_step (CumplirAnios 0) persona_demo) ! 0) \<and>
   es_mayor_de_edad (personas (persona_step (CumplirAnios 0) persona_demo) ! 0)"
proof -
  have h: "0 < length (personas persona_demo)"
    by (simp add: persona_demo_def persona_demo_ops_def persona_clase_inicial_def Persona_def Let_def)
  have m: "es_mayor_de_edad (personas persona_demo ! 0)"
    by (simp add: persona_demo_def persona_demo_ops_def persona_clase_inicial_def Persona_def
        es_mayor_de_edad_def cumplir_anios_def Let_def)
  from persona_edad_monotone [OF h, of "CumplirAnios 0"] m show ?thesis by blast
qed

text \<open>The \<open>__main__\<close> demonstration ends with two instances counted, Juan aged 26 printed by \<open>__str__\<close> as the source shows, the second person renamed and still under age, the greeting of the first instance as printed, and \<open>validar_edad\<close> accepting 25 and rejecting 150 and -5.\<close>

lemma persona_demo_salida:
  "obtener_total_personas persona_demo = 2 \<and>
   persona_str (personas persona_demo ! 0) =
     ''Persona(nombre='' @ [CHR 0x27] @ ''Juan P'' @ utf8_e_acute @ ''rez'' @ [CHR 0x27] @ '', edad=26)'' \<and>
   nombre (personas persona_demo ! 1) = ''Mar'' @ utf8_i_acute @ ''a Fernanda Garc'' @ utf8_i_acute @ ''a'' \<and>
   \<not> es_mayor_de_edad (personas persona_demo ! 1) \<and>
   saludar (fst (Persona (''Juan P'' @ utf8_e_acute @ ''rez'') 25 ''123456789'' persona_clase_inicial)) =
     ''Hola, mi nombre es Juan P'' @ utf8_e_acute @ ''rez y tengo 25 a'' @ utf8_n_tilde @ ''os.'' \<and>
   map validar_edad [25, 150, -5] = [True, False, False]"
  by (simp add: persona_demo_def persona_demo_ops_def persona_clase_inicial_def Persona_def
      obtener_total_personas_def persona_str_def py_str_int_def cumplir_anios_def actualizar_nombre_def
      es_mayor_de_edad_def saludar_def validar_edad_def Let_def)

text \<open>\<open>validar_edad\<close> is never applied by the class: a reachable state holds a person whose age it rejects (created at 120, then one birthday).\<close>

theorem persona_edad_no_validada:
  "\<exists>w. persona_reachable w \<and> (\<exists>p \<in> set (personas w). \<not> validar_edad (edad p))"
proof -
  let ?w = "persona_step (CumplirAnios 0) (persona_step (NuevaPersona ''Ana'' 120 ''1'') persona_clase_inicial)"
  have "persona_reachable ?w" by (intro persona_reachable.paso persona_reachable.inicio)
  moreover have "\<not> validar_edad (edad (personas ?w ! 0))"
    by (simp add: persona_clase_inicial_def Persona_def Let_def cumplir_anios_def validar_edad_def)
  moreover have "personas ?w ! 0 \<in> set (personas ?w)"
    by (simp add: persona_clase_inicial_def Persona_def Let_def)
  ultimately show ?thesis by blast
qed

end
