(* ===== verification/Curso_Estudiante.thy ===== *)
theory Curso_Estudiante
  imports Prelude Complex_Main "HOL-Library.AList"
begin

text \<open>
  \<^verbatim>\<open>src/2_Agregacion_Composicion/curso_estudiante.py\<close>: the classes \<open>Estudiante\<close>,
  \<open>Modulo\<close> and \<open>Curso\<close>. A course owns its modules (composition: they are values
  inside the course record) but only refers to its students (aggregation): students
  live in a store, a list of objects addressed by creation order, and a course holds
  addresses. \<open>estudiante in self.estudiantes\<close> compares by identity (the class
  defines no \<open>__eq__\<close>), which is equality of addresses. \<open>inscribir_estudiante\<close>
  mutates both the course and the referenced student, so it takes and returns the
  store. Grades are Python numbers, here exact reals (float rounding is not
  modelled); a student's \<open>notas\<close> dict is an association list updated in place as a
  dict is (\<open>AList.update\<close>). The course state is one of the three strings the class
  assigns, here a datatype. Methods that only print (\<open>listar_estudiantes\<close>,
  \<open>listar_modulos\<close>) and the float formatting of \<open>obtener_info\<close> are not modelled.
\<close>

section \<open>Estudiante\<close>

record estudiante =
  est_nombre :: string
  est_codigo :: string
  correo :: string
  cursos_inscritos :: "string list"
  notas :: "(string \<times> real) list"

definition Estudiante :: "string \<Rightarrow> string \<Rightarrow> string \<Rightarrow> estudiante" where
  "Estudiante n c e = \<lparr>est_nombre = n, est_codigo = c, correo = e, cursos_inscritos = [], notas = []\<rparr>"

definition inscribir_curso :: "string \<Rightarrow> estudiante \<Rightarrow> estudiante" where
  "inscribir_curso nombre_curso e =
     (if nombre_curso \<notin> set (cursos_inscritos e)
      then e\<lparr>cursos_inscritos := cursos_inscritos e @ [nombre_curso]\<rparr> else e)"

definition asignar_nota :: "string \<Rightarrow> real \<Rightarrow> estudiante \<Rightarrow> estudiante" where
  "asignar_nota nombre_curso nota e =
     (if 0 \<le> nota \<and> nota \<le> 5 then e\<lparr>notas := AList.update nombre_curso nota (notas e)\<rparr> else e)"

definition obtener_promedio :: "estudiante \<Rightarrow> real" where
  "obtener_promedio e =
     (if notas e = [] then 0 else sum_list (map snd (notas e)) / real (length (notas e)))"

definition estudiante_str :: "estudiante \<Rightarrow> string" where
  "estudiante_str e =
     ''Estudiante: '' @ est_nombre e @ '' (C'' @ utf8_o_acute @ ''digo: '' @ est_codigo e @ '')''"

section \<open>Modulo\<close>

record modulo =
  mod_numero :: int
  mod_nombre :: string
  duracion_horas :: int
  contenido :: "string list"

definition Modulo :: "int \<Rightarrow> string \<Rightarrow> int \<Rightarrow> string list \<Rightarrow> modulo" where
  "Modulo n nombre h c = \<lparr>mod_numero = n, mod_nombre = nombre, duracion_horas = h, contenido = c\<rparr>"

definition modulo_str :: "modulo \<Rightarrow> string" where
  "modulo_str m =
     ''M'' @ utf8_o_acute @ ''dulo '' @ py_str_int (mod_numero m) @ '': '' @ mod_nombre m @
     '' ('' @ py_str_int (duracion_horas m) @ ''h)''"

definition obtener_detalle :: "modulo \<Rightarrow> string" where
  "obtener_detalle m =
     (let nl = [CHR 0x0A]
      in nl @ modulo_str m @ nl @ ''Contenido:'' @ nl @
         concat (map (\<lambda>(i, tema). ''  '' @ py_str_int (int i) @ ''. '' @ tema @ nl)
                     (enumerate 1 (contenido m))))"

section \<open>Curso\<close>

datatype curso_estado = Planificacion | EnCurso | Finalizado

definition curso_estado_str :: "curso_estado \<Rightarrow> string" where
  "curso_estado_str st =
     (case st of Planificacion \<Rightarrow> ''Planificaci'' @ utf8_o_acute @ ''n''
      | EnCurso \<Rightarrow> ''En curso'' | Finalizado \<Rightarrow> ''Finalizado'')"

record curso =
  cur_nombre :: string
  cur_codigo :: string
  profesor :: string
  duracion_semanas :: int
  estudiantes :: "addr list"
  modulos :: "modulo list"
  cur_estado :: curso_estado

definition Curso :: "string \<Rightarrow> string \<Rightarrow> string \<Rightarrow> int \<Rightarrow> curso" where
  "Curso n c p d =
     \<lparr>cur_nombre = n, cur_codigo = c, profesor = p, duracion_semanas = d,
      estudiantes = [], modulos = [], cur_estado = Planificacion\<rparr>"

definition agregar_modulo :: "int \<Rightarrow> string \<Rightarrow> int \<Rightarrow> string list \<Rightarrow> curso \<Rightarrow> curso" where
  "agregar_modulo n nombre h c cur = cur\<lparr>modulos := modulos cur @ [Modulo n nombre h c]\<rparr>"

text \<open>\<open>inscribir_estudiante(estudiante)\<close>: appends the reference and calls
  \<open>estudiante.inscribir_curso(self.nombre)\<close> on the referenced object.\<close>

definition inscribir_estudiante ::
  "addr \<Rightarrow> curso \<Rightarrow> estudiante list \<Rightarrow> curso \<times> estudiante list" where
  "inscribir_estudiante a cur heap =
     (if a \<notin> set (estudiantes cur)
      then (cur\<lparr>estudiantes := estudiantes cur @ [a]\<rparr>,
            heap[a := inscribir_curso (cur_nombre cur) (heap ! a)])
      else (cur, heap))"

definition dar_de_baja_estudiante :: "addr \<Rightarrow> curso \<Rightarrow> curso" where
  "dar_de_baja_estudiante a cur =
     (if a \<in> set (estudiantes cur) then cur\<lparr>estudiantes := remove1 a (estudiantes cur)\<rparr> else cur)"

definition obtener_total_horas :: "curso \<Rightarrow> int" where
  "obtener_total_horas cur = sum_list (map duracion_horas (modulos cur))"

definition iniciar_curso :: "curso \<Rightarrow> curso" where
  "iniciar_curso cur = (if cur_estado cur = Planificacion then cur\<lparr>cur_estado := EnCurso\<rparr> else cur)"

definition finalizar_curso :: "curso \<Rightarrow> curso" where
  "finalizar_curso cur = (if cur_estado cur = EnCurso then cur\<lparr>cur_estado := Finalizado\<rparr> else cur)"

text \<open>\<open>listar_estudiantes()\<close> and \<open>listar_modulos()\<close>: the lines they print; the
  students are printed through the course's references into the store.\<close>

definition listar_estudiantes :: "estudiante list \<Rightarrow> curso \<Rightarrow> string list" where
  "listar_estudiantes heap cur =
     ([CHR 0x0A] @ ''--- Estudiantes inscritos en '' @ cur_nombre cur @ '' ---'') #
     (if estudiantes cur = [] then [''No hay estudiantes inscritos'']
      else map (\<lambda>(i, a). py_str_int (int i) @ ''. '' @ estudiante_str (heap ! a)) (enumerate 1 (estudiantes cur)))"

definition listar_modulos :: "curso \<Rightarrow> string list" where
  "listar_modulos cur =
     ([CHR 0x0A] @ ''--- M'' @ utf8_o_acute @ ''dulos de '' @ cur_nombre cur @ '' ---'') #
     (if modulos cur = [] then [''No hay m'' @ utf8_o_acute @ ''dulos definidos'']
      else map obtener_detalle (modulos cur))"

definition obtener_resumen :: "curso \<Rightarrow> string" where
  "obtener_resumen cur =
     (let nl = [CHR 0x0A]; linea = replicate 60 (CHR ''='')
      in nl @ linea @ nl @
         ''CURSO: '' @ cur_nombre cur @ nl @
         linea @ nl @
         ''C'' @ utf8_o_acute @ ''digo: '' @ cur_codigo cur @ nl @
         ''Profesor: '' @ profesor cur @ nl @
         ''Duraci'' @ utf8_o_acute @ ''n: '' @ py_str_int (duracion_semanas cur) @ '' semanas'' @ nl @
         ''Total de horas: '' @ py_str_int (obtener_total_horas cur) @ '' horas'' @ nl @
         ''Estado: '' @ curso_estado_str (cur_estado cur) @ nl @
         ''M'' @ utf8_o_acute @ ''dulos: '' @ py_str_int (int (length (modulos cur))) @ nl @
         ''Estudiantes inscritos: '' @ py_str_int (int (length (estudiantes cur))) @ nl)"

definition curso_str :: "curso \<Rightarrow> string" where
  "curso_str cur = ''Curso: '' @ cur_nombre cur @ '' (C'' @ utf8_o_acute @ ''digo: '' @ cur_codigo cur @ '')''"

section \<open>Programs over the three classes\<close>

text \<open>The objects a program has created: students and courses, each addressed by
  creation order.\<close>

record aula =
  alumnos :: "estudiante list"
  cursos :: "curso list"

definition aula_inicial :: aula where
  "aula_inicial = \<lparr>alumnos = [], cursos = []\<rparr>"

datatype aula_op =
    NuevoEstudiante string string string
  | NuevoCurso string string string int
  | AgregarModulo addr int string int "string list"
  | InscribirEstudiante addr addr
  | DarDeBaja addr addr
  | IniciarCurso addr
  | FinalizarCurso addr
  | AsignarNota addr string real
  | InscribirCurso addr string

fun aula_step :: "aula_op \<Rightarrow> aula \<Rightarrow> aula" where
  "aula_step (NuevoEstudiante n c e) w = w\<lparr>alumnos := alumnos w @ [Estudiante n c e]\<rparr>"
| "aula_step (NuevoCurso n c p d) w = w\<lparr>cursos := cursos w @ [Curso n c p d]\<rparr>"
| "aula_step (AgregarModulo k n nombre h c) w =
     w\<lparr>cursos := (cursos w)[k := agregar_modulo n nombre h c (cursos w ! k)]\<rparr>"
| "aula_step (InscribirEstudiante k a) w =
     (let (cur, heap) = inscribir_estudiante a (cursos w ! k) (alumnos w)
      in w\<lparr>alumnos := heap, cursos := (cursos w)[k := cur]\<rparr>)"
| "aula_step (DarDeBaja k a) w =
     w\<lparr>cursos := (cursos w)[k := dar_de_baja_estudiante a (cursos w ! k)]\<rparr>"
| "aula_step (IniciarCurso k) w = w\<lparr>cursos := (cursos w)[k := iniciar_curso (cursos w ! k)]\<rparr>"
| "aula_step (FinalizarCurso k) w = w\<lparr>cursos := (cursos w)[k := finalizar_curso (cursos w ! k)]\<rparr>"
| "aula_step (AsignarNota a c n) w = w\<lparr>alumnos := (alumnos w)[a := asignar_nota c n (alumnos w ! a)]\<rparr>"
| "aula_step (InscribirCurso a c) w = w\<lparr>alumnos := (alumnos w)[a := inscribir_curso c (alumnos w ! a)]\<rparr>"

text \<open>A program only passes references to objects it has created.\<close>

fun aula_op_ok :: "aula \<Rightarrow> aula_op \<Rightarrow> bool" where
  "aula_op_ok w (NuevoEstudiante n c e) \<longleftrightarrow> True"
| "aula_op_ok w (NuevoCurso n c p d) \<longleftrightarrow> True"
| "aula_op_ok w (AgregarModulo k n nombre h c) \<longleftrightarrow> k < length (cursos w)"
| "aula_op_ok w (InscribirEstudiante k a) \<longleftrightarrow> k < length (cursos w) \<and> a < length (alumnos w)"
| "aula_op_ok w (DarDeBaja k a) \<longleftrightarrow> k < length (cursos w) \<and> a < length (alumnos w)"
| "aula_op_ok w (IniciarCurso k) \<longleftrightarrow> k < length (cursos w)"
| "aula_op_ok w (FinalizarCurso k) \<longleftrightarrow> k < length (cursos w)"
| "aula_op_ok w (AsignarNota a c n) \<longleftrightarrow> a < length (alumnos w)"
| "aula_op_ok w (InscribirCurso a c) \<longleftrightarrow> a < length (alumnos w)"

fun aula_run_ok :: "aula \<Rightarrow> aula_op list \<Rightarrow> bool" where
  "aula_run_ok w [] \<longleftrightarrow> True"
| "aula_run_ok w (op # ops) \<longleftrightarrow> aula_op_ok w op \<and> aula_run_ok (aula_step op w) ops"

inductive aula_reachable :: "aula \<Rightarrow> bool" where
  inicio: "aula_reachable aula_inicial"
| paso: "aula_reachable w \<Longrightarrow> aula_op_ok w op \<Longrightarrow> aula_reachable (aula_step op w)"

text \<open>The life cycle the class gives a course: \<open>iniciar_curso\<close> from
  \<open>Planificacion\<close>, \<open>finalizar_curso\<close> from \<open>EnCurso\<close>.\<close>

inductive curso_transicion :: "curso_estado \<Rightarrow> curso_estado \<Rightarrow> bool" where
  iniciar: "curso_transicion Planificacion EnCurso"
| finalizar: "curso_transicion EnCurso Finalizado"

text \<open>The invariant of a set of objects. A course lists a student once, by a
  reference to a created student who has the course in \<open>cursos_inscritos\<close>; a
  student's grades are in [0, 5] under distinct keys.\<close>

definition curso_ok :: "estudiante list \<Rightarrow> curso \<Rightarrow> bool" where
  "curso_ok heap cur \<longleftrightarrow>
     distinct (estudiantes cur) \<and>
     (\<forall>a \<in> set (estudiantes cur). a < length heap \<and> cur_nombre cur \<in> set (cursos_inscritos (heap ! a)))"

definition notas_ok :: "estudiante \<Rightarrow> bool" where
  "notas_ok e \<longleftrightarrow> distinct (map fst (notas e)) \<and> (\<forall>(c, n) \<in> set (notas e). 0 \<le> n \<and> n \<le> 5)"

definition aula_inv :: "aula \<Rightarrow> bool" where
  "aula_inv w \<longleftrightarrow> (\<forall>cur \<in> set (cursos w). curso_ok (alumnos w) cur) \<and> (\<forall>e \<in> set (alumnos w). notas_ok e)"

section \<open>The demonstration\<close>

definition curso_demo_ops :: "aula_op list" where
  "curso_demo_ops =
     [NuevoEstudiante (''Carlos Rodr'' @ utf8_i_acute @ ''guez'') ''EST001'' ''carlos@email.com'',
      NuevoEstudiante (''Ana Mart'' @ utf8_i_acute @ ''nez'') ''EST002'' ''ana@email.com'',
      NuevoEstudiante ''Luis Torres'' ''EST003'' ''luis@email.com'',
      NuevoCurso ''Python Orientado a Objetos'' ''PROG301'' (''Dr. Roberto G'' @ utf8_o_acute @ ''mez'') 12,
      AgregarModulo 0 1 (''Introducci'' @ utf8_o_acute @ ''n a POO'') 20
        [[CHR 0xC2, CHR 0xBF] @ ''Qu'' @ utf8_e_acute @ '' es la POO?'', ''Clases y objetos'',
         ''Atributos y m'' @ utf8_e_acute @ ''todos'', ''Encapsulamiento''],
      AgregarModulo 0 2 ''Herencia y Polimorfismo'' 25
        [''Concepto de herencia'', ''Herencia simple y m'' @ [CHR 0xC3, CHR 0xBA] @ ''ltiple'',
         ''Polimorfismo'', ''M'' @ utf8_e_acute @ ''todos abstractos''],
      AgregarModulo 0 3 (''Patrones de dise'' @ utf8_n_tilde @ ''o'') 30
        [''Singleton'', ''Factory'', ''Observer'', ''Strategy''],
      InscribirEstudiante 0 0, InscribirEstudiante 0 1, InscribirEstudiante 0 2,
      IniciarCurso 0,
      AsignarNota 0 ''Python Orientado a Objetos'' 4.5,
      AsignarNota 1 ''Python Orientado a Objetos'' 4.8,
      AsignarNota 2 ''Python Orientado a Objetos'' 4.2,
      DarDeBaja 0 2,
      FinalizarCurso 0]"

definition curso_demo :: aula where
  "curso_demo = fold aula_step curso_demo_ops aula_inicial"

section \<open>Lemmas\<close>

lemma curso_ok_mono:
  assumes "curso_ok heap cur" "length heap \<le> length heap'"
    and "\<And>a. a < length heap \<Longrightarrow> set (cursos_inscritos (heap ! a)) \<subseteq> set (cursos_inscritos (heap' ! a))"
  shows "curso_ok heap' cur"
  using assms by (fastforce simp: curso_ok_def)

lemma curso_ok_same_students:
  "curso_ok heap cur \<Longrightarrow> estudiantes cur' = estudiantes cur \<Longrightarrow> cur_nombre cur' = cur_nombre cur \<Longrightarrow>
   curso_ok heap cur'"
  by (simp add: curso_ok_def)

lemma inscribir_curso_grows [simp]:
  "set (cursos_inscritos (inscribir_curso c e)) = insert c (set (cursos_inscritos e))"
  "notas (inscribir_curso c e) = notas e"
  by (auto simp: inscribir_curso_def)

lemma notas_ok_inscribir [simp]: "notas_ok (inscribir_curso c e) = notas_ok e"
  by (simp add: notas_ok_def)

lemma asignar_nota_frame [simp]:
  "cursos_inscritos (asignar_nota c n e) = cursos_inscritos e"
  by (simp add: asignar_nota_def)

lemma set_alist_update: "set (AList.update k v al) \<subseteq> insert (k, v) (set al)"
  by (induction al) auto

lemma notas_ok_asignar: "notas_ok e \<Longrightarrow> notas_ok (asignar_nota c n e)"
  using set_alist_update [of c n "notas e"]
  by (auto simp: notas_ok_def asignar_nota_def distinct_update)

lemma aula_inv_students_grow:
  assumes "aula_inv w" "length heap' = length (alumnos w)"
    and "\<And>a. a < length (alumnos w) \<Longrightarrow>
           set (cursos_inscritos (alumnos w ! a)) \<subseteq> set (cursos_inscritos (heap' ! a))"
    and "\<forall>e \<in> set heap'. notas_ok e"
  shows "aula_inv (w\<lparr>alumnos := heap'\<rparr>)"
  using assms curso_ok_mono [of "alumnos w" _ heap'] by (auto simp: aula_inv_def)

lemma aula_inv_update_student:
  assumes "aula_inv w"
    and "set (cursos_inscritos (alumnos w ! a)) \<subseteq> set (cursos_inscritos (f (alumnos w ! a)))"
    and "notas_ok (alumnos w ! a) \<Longrightarrow> notas_ok (f (alumnos w ! a))"
  shows "aula_inv (w\<lparr>alumnos := (alumnos w)[a := f (alumnos w ! a)]\<rparr>)"
proof (cases "a < length (alumnos w)")
  case True
  have "notas_ok (alumnos w ! a)" using assms(1) True by (simp add: aula_inv_def)
  with assms True show ?thesis
    by (intro aula_inv_students_grow) (auto simp: nth_update_apply aula_inv_def dest: set_update_subset_insert [THEN subsetD])
qed (simp add: assms(1) not_less list_update_beyond)

lemma aula_inv_update_course:
  assumes "aula_inv w" "curso_ok (alumnos w) (cursos w ! k) \<Longrightarrow> curso_ok (alumnos w) (f (cursos w ! k))"
  shows "aula_inv (w\<lparr>cursos := (cursos w)[k := f (cursos w ! k)]\<rparr>)"
proof (cases "k < length (cursos w)")
  case True
  with assms show ?thesis by (auto simp: aula_inv_def dest: set_update_subset_insert [THEN subsetD])
qed (simp add: assms(1) not_less list_update_beyond)

lemma aula_inv_inscribir:
  assumes inv: "aula_inv w" and k: "k < length (cursos w)" and a: "a < length (alumnos w)"
  shows "aula_inv (aula_step (InscribirEstudiante k a) w)"
proof (cases "a \<in> set (estudiantes (cursos w ! k))")
  case True
  with inv show ?thesis by (simp add: inscribir_estudiante_def)
next
  case False
  let ?cur = "cursos w ! k" and ?heap = "alumnos w"
  let ?heap' = "?heap[a := inscribir_curso (cur_nombre ?cur) (?heap ! a)]"
  have grow: "set (cursos_inscritos (?heap ! b)) \<subseteq> set (cursos_inscritos (?heap' ! b))"
    if "b < length ?heap" for b using that by (auto simp: nth_update_apply)
  have oks: "\<forall>cur \<in> set (cursos w). curso_ok ?heap' cur"
    using inv grow curso_ok_mono [of ?heap _ ?heap'] by (auto simp: aula_inv_def)
  have old: "curso_ok ?heap ?cur" using inv k by (simp add: aula_inv_def)
  have new: "curso_ok ?heap' (?cur\<lparr>estudiantes := estudiantes ?cur @ [a]\<rparr>)"
    using old False a grow by (fastforce simp: curso_ok_def nth_update_apply)
  have notas: "\<forall>e \<in> set ?heap'. notas_ok e"
    using inv a by (auto simp: aula_inv_def dest: set_update_subset_insert [THEN subsetD])
  from oks new notas False show ?thesis
    by (auto simp: inscribir_estudiante_def aula_inv_def dest: set_update_subset_insert [THEN subsetD])
qed

lemma aula_step_inv: "aula_inv w \<Longrightarrow> aula_op_ok w op \<Longrightarrow> aula_inv (aula_step op w)"
proof (cases op)
  case (NuevoEstudiante n c e)
  moreover assume "aula_inv w"
  ultimately show ?thesis
    using curso_ok_mono [of "alumnos w" _ "alumnos w @ [Estudiante n c e]"]
    by (auto simp: aula_inv_def nth_append notas_ok_def Estudiante_def)
next
  case (NuevoCurso n c p d)
  moreover assume "aula_inv w"
  ultimately show ?thesis by (auto simp: aula_inv_def curso_ok_def Curso_def)
next
  case (InscribirEstudiante k a)
  moreover assume "aula_inv w" "aula_op_ok w op"
  ultimately show ?thesis using aula_inv_inscribir by simp
next
  case (DarDeBaja k a)
  moreover assume "aula_inv w"
  ultimately show ?thesis
    using set_remove1_subset [of a]
    by (fastforce simp: dar_de_baja_estudiante_def curso_ok_def intro!: aula_inv_update_course [simplified])
qed (auto simp: agregar_modulo_def iniciar_curso_def finalizar_curso_def curso_ok_def
      intro!: aula_inv_update_course [simplified] aula_inv_update_student [simplified] notas_ok_asignar)

lemma length_alumnos_step:
  "length (alumnos (aula_step op w)) =
     length (alumnos w) + (case op of NuevoEstudiante _ _ _ \<Rightarrow> 1 | _ \<Rightarrow> 0)"
  by (cases op) (auto simp: inscribir_estudiante_def split: prod.splits)

lemma aula_reachable_fold:
  "aula_reachable w \<Longrightarrow> aula_run_ok w ops \<Longrightarrow> aula_reachable (fold aula_step ops w)"
  by (induction ops arbitrary: w) (auto intro: aula_reachable.paso)

lemma curso_demo_reachable: "aula_reachable curso_demo"
proof -
  have "aula_run_ok aula_inicial curso_demo_ops"
    by (simp add: curso_demo_ops_def aula_inicial_def Estudiante_def Curso_def agregar_modulo_def
        inscribir_estudiante_def inscribir_curso_def iniciar_curso_def asignar_nota_def)
  from aula_reachable_fold [OF aula_reachable.inicio this] show ?thesis by (simp add: curso_demo_def)
qed

lemma sum_list_bounded:
  "\<forall>x \<in> set xs. 0 \<le> x \<and> x \<le> (5::real) \<Longrightarrow> 0 \<le> sum_list xs \<and> sum_list xs \<le> 5 * real (length xs)"
  by (induction xs) (auto simp: algebra_simps)

inductive_cases curso_transicion_FinalizadoE: "curso_transicion Finalizado y"

lemma curso_transicion_Finalizado: "curso_transicion\<^sup>=\<^sup>= Finalizado y \<Longrightarrow> y = Finalizado"
  by (auto elim: curso_transicion_FinalizadoE)

section \<open>Properties\<close>

text \<open>C21 (invariant): in every state a program over the three classes can reach, a course lists each student once, by a reference to a created student who has the course in \<open>cursos_inscritos\<close> (the two sides of the aggregation agree in this direction), and every stored grade is in [0, 5] under a distinct course key.\<close>

theorem aula_reachable_inv: "aula_reachable w \<Longrightarrow> aula_inv w"
proof (induction rule: aula_reachable.induct)
  case inicio
  then show ?case by (simp add: aula_inv_def aula_inicial_def)
next
  case (paso w op)
  from aula_step_inv [OF paso.IH paso.hyps(2)] show ?case .
qed

theorem aula_reachable_inv_witness: "aula_inv curso_demo"
  using aula_reachable_inv [OF curso_demo_reachable] .

text \<open>C22 (bounds): in every reachable state, \<open>obtener_promedio\<close> of every student is between 0 and 5: \<open>asignar_nota\<close> stores only grades in [0, 5].\<close>

theorem promedio_bounded:
  "aula_reachable w \<Longrightarrow> e \<in> set (alumnos w) \<Longrightarrow> 0 \<le> obtener_promedio e \<and> obtener_promedio e \<le> 5"
proof -
  assume "aula_reachable w" "e \<in> set (alumnos w)"
  with aula_reachable_inv have "notas_ok e" by (auto simp: aula_inv_def)
  then have "\<forall>x \<in> set (map snd (notas e)). 0 \<le> x \<and> x \<le> 5" by (auto simp: notas_ok_def)
  from sum_list_bounded [OF this] show ?thesis
    by (auto simp: obtener_promedio_def divide_le_eq)
qed

theorem promedio_bounded_witness:
  "0 \<le> obtener_promedio (alumnos curso_demo ! 2) \<and> obtener_promedio (alumnos curso_demo ! 2) \<le> 5"
proof -
  have "2 < length (alumnos curso_demo)"
    by (simp add: curso_demo_def curso_demo_ops_def aula_inicial_def length_alumnos_step del: aula_step.simps)
  then have h2: "alumnos curso_demo ! 2 \<in> set (alumnos curso_demo)" by (rule nth_mem)
  from promedio_bounded [OF curso_demo_reachable h2] show ?thesis .
qed

text \<open>C23 (safety): every statement moves a course along the life cycle \<open>Planificacion\<close>, \<open>EnCurso\<close>, \<open>Finalizado\<close> (at most one \<open>curso_transicion\<close> step per statement, so no statement skips a stage), and a finished course stays finished.\<close>

theorem curso_ciclo_de_vida:
  "aula_op_ok w op \<Longrightarrow> k < length (cursos w) \<Longrightarrow>
   curso_transicion\<^sup>=\<^sup>= (cur_estado (cursos w ! k)) (cur_estado (cursos (aula_step op w) ! k)) \<and>
   (cur_estado (cursos w ! k) = Finalizado \<longrightarrow> cur_estado (cursos (aula_step op w) ! k) = Finalizado)"
proof -
  assume ok: "aula_op_ok w op" and k: "k < length (cursos w)"
  have "curso_transicion\<^sup>=\<^sup>= (cur_estado (cursos w ! k)) (cur_estado (cursos (aula_step op w) ! k))"
    using ok k
    by (cases op) (auto simp: nth_append nth_update_apply agregar_modulo_def dar_de_baja_estudiante_def
        inscribir_estudiante_def iniciar_curso_def finalizar_curso_def
        intro: curso_transicion.intros split: prod.splits)
  with curso_transicion_Finalizado show ?thesis by auto
qed

theorem curso_ciclo_de_vida_witness:
  "let w = aula_step (NuevoCurso ''POO'' ''P1'' ''Prof'' 12) aula_inicial
   in curso_transicion\<^sup>=\<^sup>= (cur_estado (cursos w ! 0)) (cur_estado (cursos (aula_step (IniciarCurso 0) w) ! 0)) \<and>
      cur_estado (cursos (aula_step (IniciarCurso 0) w) ! 0) = EnCurso"
proof -
  define w where "w = aula_step (NuevoCurso ''POO'' ''P1'' ''Prof'' 12) aula_inicial"
  have h1: "aula_op_ok w (IniciarCurso 0)" by (simp add: w_def aula_inicial_def)
  have h2: "0 < length (cursos w)" by (simp add: w_def aula_inicial_def)
  have e: "cur_estado (cursos (aula_step (IniciarCurso 0) w) ! 0) = EnCurso"
    by (simp add: w_def aula_inicial_def Curso_def iniciar_curso_def)
  show ?thesis using curso_ciclo_de_vida [OF h1 h2] e unfolding w_def Let_def by blast
qed

text \<open>C20 (liveness): a course can always be finished: from any state of the
  store, whatever its course's stage, the statements \<open>iniciar_curso()\<close> and then
  \<open>finalizar_curso()\<close> leave it \<open>Finalizado\<close>; the guards of both methods make them
  no-ops on a course already past their stage.\<close>

theorem curso_siempre_finalizable:
  "k < length (cursos w) \<Longrightarrow>
   cur_estado (cursos (fold aula_step [IniciarCurso k, FinalizarCurso k] w) ! k) = Finalizado"
  by (cases "cur_estado (cursos w ! k)") (simp_all add: iniciar_curso_def finalizar_curso_def)

theorem curso_siempre_finalizable_witness:
  "let w = aula_step (NuevoCurso ''POO'' ''P1'' ''Prof'' 12) aula_inicial
   in cur_estado (cursos (fold aula_step [IniciarCurso 0, FinalizarCurso 0] w) ! 0) = Finalizado"
proof -
  define w where "w = aula_step (NuevoCurso ''POO'' ''P1'' ''Prof'' 12) aula_inicial"
  have "0 < length (cursos w)" by (simp add: w_def aula_inicial_def)
  from curso_siempre_finalizable [OF this] show ?thesis unfolding Let_def w_def [symmetric] .
qed

text \<open>The \<open>__main__\<close> demonstration: at its end the course has 2 students, 75 hours of
  modules, state \<open>Finalizado\<close> and prints its first module as the source does; the
  dropped student keeps grade average 4.2 and still lists the course.\<close>

lemma curso_demo_baja:
  "length (estudiantes (cursos curso_demo ! 0)) = 2 \<and>
   ''Python Orientado a Objetos'' \<in> set (cursos_inscritos (alumnos curso_demo ! 2)) \<and>
   2 \<notin> set (estudiantes (cursos curso_demo ! 0)) \<and>
   obtener_total_horas (cursos curso_demo ! 0) = 75 \<and>
   cur_estado (cursos curso_demo ! 0) = Finalizado \<and>
   obtener_promedio (alumnos curso_demo ! 2) = 4.2 \<and>
   modulo_str (modulos (cursos curso_demo ! 0) ! 0) =
     ''M'' @ utf8_o_acute @ ''dulo 1: Introducci'' @ utf8_o_acute @ ''n a POO (20h)''"
  by (simp add: curso_demo_def curso_demo_ops_def aula_inicial_def Estudiante_def Curso_def
      agregar_modulo_def Modulo_def inscribir_estudiante_def inscribir_curso_def iniciar_curso_def
      asignar_nota_def dar_de_baja_estudiante_def finalizar_curso_def obtener_total_horas_def
      obtener_promedio_def modulo_str_def py_str_int_def)

text \<open>C24 (functional): \<open>dar_de_baja_estudiante\<close> removes only the course side of the
  aggregation: in any store of the invariant, dropping an enrolled student takes the
  reference out of the course, keeps the course's name, changes no student object, and
  the student still lists the course in \<open>cursos_inscritos\<close>.\<close>

theorem curso_baja_asimetrica:
  assumes "aula_inv w" and "k < length (cursos w)" and "a \<in> set (estudiantes (cursos w ! k))"
  shows "a \<notin> set (estudiantes (cursos (aula_step (DarDeBaja k a) w) ! k)) \<and>
         cur_nombre (cursos (aula_step (DarDeBaja k a) w) ! k) = cur_nombre (cursos w ! k) \<and>
         alumnos (aula_step (DarDeBaja k a) w) = alumnos w \<and>
         cur_nombre (cursos w ! k) \<in> set (cursos_inscritos (alumnos (aula_step (DarDeBaja k a) w) ! a))"
proof -
  from assms(1,2) have ok: "curso_ok (alumnos w) (cursos w ! k)" by (simp add: aula_inv_def)
  then have d: "distinct (estudiantes (cursos w ! k))" by (simp add: curso_ok_def)
  from ok assms(3) have "cur_nombre (cursos w ! k) \<in> set (cursos_inscritos (alumnos w ! a))"
    by (simp add: curso_ok_def)
  with d assms(2,3) show ?thesis by (simp add: dar_de_baja_estudiante_def)
qed

theorem curso_baja_asimetrica_witness:
  "let w = fold aula_step [NuevoEstudiante ''Ana'' ''E1'' ''a@x'', NuevoCurso ''POO'' ''P1'' ''Prof'' 12,
                           InscribirEstudiante 0 0] aula_inicial
   in aula_inv w \<and> 0 < length (cursos w) \<and> 0 \<in> set (estudiantes (cursos w ! 0)) \<and>
      0 \<notin> set (estudiantes (cursos (aula_step (DarDeBaja 0 0) w) ! 0)) \<and>
      ''POO'' \<in> set (cursos_inscritos (alumnos (aula_step (DarDeBaja 0 0) w) ! 0))"
proof -
  define w where "w = fold aula_step [NuevoEstudiante ''Ana'' ''E1'' ''a@x'', NuevoCurso ''POO'' ''P1'' ''Prof'' 12,
                           InscribirEstudiante 0 0] aula_inicial"
  have h: "aula_inv w" "0 < length (cursos w)" "0 \<in> set (estudiantes (cursos w ! 0))"
    by (simp_all add: w_def aula_inicial_def aula_inv_def curso_ok_def notas_ok_def Estudiante_def
        Curso_def inscribir_estudiante_def inscribir_curso_def)
  have n: "cur_nombre (cursos w ! 0) = ''POO''"
    by (simp add: w_def aula_inicial_def Curso_def inscribir_estudiante_def)
  show ?thesis unfolding Let_def w_def [symmetric]
    using h curso_baja_asimetrica [OF h] n by simp
qed

end
