(* ===== verification/Empleados.thy ===== *)
theory Empleados
  imports Prelude Complex_Main
begin

text \<open>
  \<^verbatim>\<open>src/5_Polimorfismo/empleados_polimorfismo.py\<close>: the base class \<open>Empleado\<close>, its
  four subclasses, the payroll \<open>SistemaNomina\<close> and the duck-typing example. An
  employee is a record of the attributes \<open>Empleado.__init__\<close> sets, with the
  attributes of its class in a datatype \<open>empleado_datos\<close> (one constructor per class,
  \<open>Base\<close> for an instance of \<open>Empleado\<close> itself). Overridden methods are functions by
  cases on that datatype, so a call dispatches as Python's does. The class attribute
  \<open>contador_empleados\<close> is explicit state next to the employees created so far, who
  are addressed by creation order; \<open>SistemaNomina\<close> holds such addresses. Money and
  hours are Python numbers, here exact reals (float rounding is not modelled).
  Exceptions are values: \<open>NotImplementedError\<close> from the base \<open>calcular_salario\<close>,
  and \<open>AttributeError\<close> for a subclass method called on another class. The report
  methods \<open>mostrar_informacion\<close> are strings: the base block and the overrides of the
  full-time and freelance classes, with the \<open>:,.2f\<close> format; the overrides of the
  hourly and commission classes print float reprs and are not modelled.
\<close>

datatype emp_exc = NotImplementedError | AttributeError string

record beneficio =
  ben_nombre :: string
  ben_valor :: real

record proyecto =
  proy_nombre :: string
  pago :: real
  completado :: bool

datatype empleado_datos =
    Base
  | TiempoCompletoDatos real "beneficio list"
  | PorHorasDatos real real real
  | PorComisionDatos real real "real list"
  | FreelanceDatos "proyecto list"

record empleado =
  emp_nombre :: string
  emp_identificacion :: string
  fecha_ingreso :: string
  activo :: bool
  numero_empleado :: int
  datos :: empleado_datos

text \<open>\<open>self.__class__.__name__\<close>.\<close>

fun clase_nombre :: "empleado_datos \<Rightarrow> string" where
  "clase_nombre Base = ''Empleado''"
| "clase_nombre (TiempoCompletoDatos _ _) = ''EmpleadoTiempoCompleto''"
| "clase_nombre (PorHorasDatos _ _ _) = ''EmpleadoPorHoras''"
| "clase_nombre (PorComisionDatos _ _ _) = ''EmpleadoPorComision''"
| "clase_nombre (FreelanceDatos _) = ''EmpleadoFreelance''"

section \<open>Construction and the class counter\<close>

record nomina_mundo =
  empleados_creados :: "empleado list"
  contador_empleados :: int

definition nomina_inicial :: nomina_mundo where
  "nomina_inicial = \<lparr>empleados_creados = [], contador_empleados = 0\<rparr>"

text \<open>\<open>Empleado.__init__\<close> followed by the subclass constructor's assignments
  (\<open>d\<close>): the counter is incremented and its new value is the employee number.\<close>

definition nuevo_empleado ::
  "string \<Rightarrow> string \<Rightarrow> string \<Rightarrow> empleado_datos \<Rightarrow> nomina_mundo \<Rightarrow> nomina_mundo" where
  "nuevo_empleado n i f d w =
     (let c = contador_empleados w + 1;
          e = \<lparr>emp_nombre = n, emp_identificacion = i, fecha_ingreso = f, activo = True,
               numero_empleado = c, datos = d\<rparr>
      in w\<lparr>empleados_creados := empleados_creados w @ [e], contador_empleados := c\<rparr>)"

definition Empleado :: "string \<Rightarrow> string \<Rightarrow> string \<Rightarrow> nomina_mundo \<Rightarrow> nomina_mundo" where
  "Empleado n i f = nuevo_empleado n i f Base"

definition EmpleadoTiempoCompleto ::
  "string \<Rightarrow> string \<Rightarrow> string \<Rightarrow> real \<Rightarrow> nomina_mundo \<Rightarrow> nomina_mundo" where
  "EmpleadoTiempoCompleto n i f salario_mensual = nuevo_empleado n i f (TiempoCompletoDatos salario_mensual [])"

definition EmpleadoPorHoras :: "string \<Rightarrow> string \<Rightarrow> string \<Rightarrow> real \<Rightarrow> nomina_mundo \<Rightarrow> nomina_mundo" where
  "EmpleadoPorHoras n i f tarifa = nuevo_empleado n i f (PorHorasDatos tarifa 0 0)"

definition EmpleadoPorComision ::
  "string \<Rightarrow> string \<Rightarrow> string \<Rightarrow> real \<Rightarrow> real \<Rightarrow> nomina_mundo \<Rightarrow> nomina_mundo" where
  "EmpleadoPorComision n i f base porcentaje = nuevo_empleado n i f (PorComisionDatos base porcentaje [])"

definition EmpleadoFreelance :: "string \<Rightarrow> string \<Rightarrow> string \<Rightarrow> nomina_mundo \<Rightarrow> nomina_mundo" where
  "EmpleadoFreelance n i f = nuevo_empleado n i f (FreelanceDatos [])"

section \<open>Methods\<close>

definition trabajar :: "empleado \<Rightarrow> string" where
  "trabajar e = emp_nombre e @ '' est'' @ utf8_a_acute @ '' trabajando '' @ [CHR 0xF0, CHR 0x9F, CHR 0x92, CHR 0xBC]"

definition tomar_descanso :: "empleado \<Rightarrow> string" where
  "tomar_descanso e =
     emp_nombre e @ '' est'' @ utf8_a_acute @ '' tomando un descanso '' @ [CHR 0xE2, CHR 0x98, CHR 0x95]"

definition empleado_str :: "empleado \<Rightarrow> string" where
  "empleado_str e = clase_nombre (datos e) @ '': '' @ emp_nombre e"

text \<open>\<open>Empleado.mostrar_informacion\<close>, the block every override extends through
  \<open>super()\<close>: \<open>Tipo\<close> is the class of the instance, not \<open>Empleado\<close>.\<close>

definition mostrar_informacion_base :: "empleado \<Rightarrow> string" where
  "mostrar_informacion_base e =
     ''\<newline>        --- Empleado #'' @ py_str_int (numero_empleado e) @ '' ---\<newline>'' @
     ''        Tipo: '' @ clase_nombre (datos e) @ ''\<newline>'' @
     ''        Nombre: '' @ emp_nombre e @ ''\<newline>'' @
     ''        ID: '' @ emp_identificacion e @ ''\<newline>'' @
     ''        Fecha de ingreso: '' @ fecha_ingreso e @ ''\<newline>'' @
     ''        Estado: '' @ (if activo e then ''Activo'' else ''Inactivo'') @ ''\<newline>        ''"

text \<open>The overrides of \<open>calcular_salario()\<close>, one per subclass: hours in excess are
  paid at 1.5 times the rate, a commission is the sales total times the percentage, a
  freelancer is paid the completed projects.\<close>

definition salario_por_horas :: "real \<Rightarrow> real \<Rightarrow> real \<Rightarrow> real" where
  "salario_por_horas tarifa horas extra =
     (let salario_normal = horas * tarifa;
          salario_extra = extra * tarifa * 1.5
      in salario_normal + salario_extra)"

definition salario_por_comision :: "real \<Rightarrow> real \<Rightarrow> real list \<Rightarrow> real" where
  "salario_por_comision base porcentaje vs = base + sum_list vs * porcentaje"

definition salario_freelance :: "proyecto list \<Rightarrow> real" where
  "salario_freelance ps = sum_list (map pago (filter completado ps))"

declare salario_por_horas_def [simp] salario_por_comision_def [simp] salario_freelance_def [simp]

text \<open>\<open>calcular_salario()\<close>, by the class of the instance: the base class raises
  \<open>NotImplementedError\<close>, a full-time employee is paid the monthly salary.\<close>

fun salario_datos :: "empleado_datos \<Rightarrow> emp_exc + real" where
  "salario_datos Base = Inl NotImplementedError"
| "salario_datos (TiempoCompletoDatos s _) = Inr s"
| "salario_datos (PorHorasDatos tarifa horas extra) = Inr (salario_por_horas tarifa horas extra)"
| "salario_datos (PorComisionDatos base porcentaje vs) = Inr (salario_por_comision base porcentaje vs)"
| "salario_datos (FreelanceDatos ps) = Inr (salario_freelance ps)"

definition calcular_salario :: "empleado \<Rightarrow> emp_exc + real" where
  "calcular_salario e = salario_datos (datos e)"

definition agregar_beneficio :: "string \<Rightarrow> real \<Rightarrow> empleado \<Rightarrow> emp_exc + empleado" where
  "agregar_beneficio b v e =
     (case datos e of
        TiempoCompletoDatos s bs \<Rightarrow>
          Inr (e\<lparr>datos := TiempoCompletoDatos s (bs @ [\<lparr>ben_nombre = b, ben_valor = v\<rparr>])\<rparr>)
      | _ \<Rightarrow> Inl (AttributeError ''agregar_beneficio''))"

definition calcular_salario_con_beneficios :: "empleado \<Rightarrow> emp_exc + real" where
  "calcular_salario_con_beneficios e =
     (case datos e of
        TiempoCompletoDatos s bs \<Rightarrow> Inr (s + sum_list (map ben_valor bs))
      | _ \<Rightarrow> Inl (AttributeError ''calcular_salario_con_beneficios''))"

text \<open>The format \<open>:,.2f\<close> of the reports: the value rounded to hundredths, ties to
  even (Python rounds the exact value of the float, which the real stands for), the
  integer part in groups of three digits separated by commas, and the sign kept even
  when the rounded value is zero (\<open>-0.00\<close>).\<close>

definition py_redondeo_par :: "real \<Rightarrow> int" where
  "py_redondeo_par y =
     (let f = \<lfloor>y\<rfloor>; d = y - of_int f
      in if d < 1 / 2 then f else if 1 / 2 < d then f + 1 else if even f then f else f + 1)"

definition py_cero_izq :: "nat \<Rightarrow> nat \<Rightarrow> string" where
  "py_cero_izq w k = replicate (w - length (py_digits k)) (CHR ''0'') @ py_digits k"

fun py_miles :: "nat \<Rightarrow> string" where
  "py_miles n =
     (if n < 1000 then py_digits n else py_miles (n div 1000) @ '','' @ py_cero_izq 3 (n mod 1000))"

definition py_fmt_miles_2f :: "real \<Rightarrow> string" where
  "py_fmt_miles_2f x =
     (let c = nat (py_redondeo_par (\<bar>x\<bar> * 100))
      in (if x < 0 then ''-'' else []) @ py_miles (c div 100) @ ''.'' @ py_cero_izq 2 (c mod 100))"

text \<open>The overrides of \<open>mostrar_informacion()\<close> that format only amounts of money, on
  an instance with the given class attributes: \<open>EmpleadoTiempoCompleto\<close> (salary,
  benefits and the total with benefits) and \<open>EmpleadoFreelance\<close> (the completed and
  the pending projects). The loops under \<open>if lista:\<close> are maps over the list.\<close>

definition info_tiempo_completo :: "empleado \<Rightarrow> real \<Rightarrow> beneficio list \<Rightarrow> string" where
  "info_tiempo_completo e salario_mensual beneficios =
     mostrar_informacion_base e @
     ''        Salario mensual: $'' @ py_fmt_miles_2f salario_mensual @ ''\<newline>'' @
     (if beneficios = [] then [] else
        ''        Beneficios:\<newline>'' @
        concat (map (\<lambda>b. ''          - '' @ ben_nombre b @ '': $'' @ py_fmt_miles_2f (ben_valor b) @ ''\<newline>'')
                    beneficios) @
        ''        Salario total: $'' @
          py_fmt_miles_2f (salario_mensual + sum_list (map ben_valor beneficios)) @ ''\<newline>'')"

definition info_freelance :: "empleado \<Rightarrow> proyecto list \<Rightarrow> string" where
  "info_freelance e proyectos =
     (let completados = filter completado proyectos;
          pendientes = filter (\<lambda>p. \<not> completado p) proyectos;
          linea = (\<lambda>marca p. ''          '' @ marca @ '' '' @ proy_nombre p @ '': $'' @
                              py_fmt_miles_2f (pago p) @ ''\<newline>'')
      in mostrar_informacion_base e @
         ''        Total de proyectos: '' @ py_str_int (int (length proyectos)) @ ''\<newline>'' @
         ''        Proyectos completados: '' @ py_str_int (int (length completados)) @ ''\<newline>'' @
         concat (map (linea [CHR 0xE2, CHR 0x9C, CHR 0x93]) completados) @
         ''        Proyectos pendientes: '' @ py_str_int (int (length pendientes)) @ ''\<newline>'' @
         concat (map (linea [CHR 0xE2, CHR 0x97, CHR 0x8B]) pendientes) @
         ''        Salario total (completados): $'' @ py_fmt_miles_2f (salario_freelance proyectos) @ ''\<newline>'')"

definition registrar_horas :: "real \<Rightarrow> bool \<Rightarrow> empleado \<Rightarrow> emp_exc + empleado" where
  "registrar_horas horas son_extra e =
     (case datos e of
        PorHorasDatos tarifa ht he \<Rightarrow>
          Inr (e\<lparr>datos := (if son_extra then PorHorasDatos tarifa ht (he + horas)
                           else PorHorasDatos tarifa (ht + horas) he)\<rparr>)
      | _ \<Rightarrow> Inl (AttributeError ''registrar_horas''))"

definition resetear_horas :: "empleado \<Rightarrow> emp_exc + empleado" where
  "resetear_horas e =
     (case datos e of
        PorHorasDatos tarifa _ _ \<Rightarrow> Inr (e\<lparr>datos := PorHorasDatos tarifa 0 0\<rparr>)
      | _ \<Rightarrow> Inl (AttributeError ''resetear_horas''))"

definition registrar_venta :: "real \<Rightarrow> empleado \<Rightarrow> emp_exc + empleado" where
  "registrar_venta monto e =
     (case datos e of
        PorComisionDatos base p vs \<Rightarrow> Inr (e\<lparr>datos := PorComisionDatos base p (vs @ [monto])\<rparr>)
      | _ \<Rightarrow> Inl (AttributeError ''registrar_venta''))"

definition calcular_total_ventas :: "empleado \<Rightarrow> emp_exc + real" where
  "calcular_total_ventas e =
     (case datos e of PorComisionDatos _ _ vs \<Rightarrow> Inr (sum_list vs)
      | _ \<Rightarrow> Inl (AttributeError ''calcular_total_ventas''))"

definition calcular_comision :: "empleado \<Rightarrow> emp_exc + real" where
  "calcular_comision e =
     (case datos e of PorComisionDatos _ p vs \<Rightarrow> Inr (sum_list vs * p)
      | _ \<Rightarrow> Inl (AttributeError ''calcular_comision''))"

definition resetear_ventas :: "empleado \<Rightarrow> emp_exc + empleado" where
  "resetear_ventas e =
     (case datos e of
        PorComisionDatos base p _ \<Rightarrow> Inr (e\<lparr>datos := PorComisionDatos base p []\<rparr>)
      | _ \<Rightarrow> Inl (AttributeError ''resetear_ventas''))"

definition agregar_proyecto :: "string \<Rightarrow> real \<Rightarrow> empleado \<Rightarrow> emp_exc + empleado" where
  "agregar_proyecto n p e =
     (case datos e of
        FreelanceDatos ps \<Rightarrow>
          Inr (e\<lparr>datos := FreelanceDatos (ps @ [\<lparr>proy_nombre = n, pago = p, completado = False\<rparr>])\<rparr>)
      | _ \<Rightarrow> Inl (AttributeError ''agregar_proyecto''))"

text \<open>\<open>completar_proyecto\<close>: the loop marks the first pending project of that name
  (the dict is mutated through the loop variable) and returns whether it found one.\<close>

definition proyecto_pendiente :: "string \<Rightarrow> proyecto \<Rightarrow> bool" where
  "proyecto_pendiente n p \<longleftrightarrow> proy_nombre p = n \<and> \<not> completado p"

definition completar_proyecto :: "string \<Rightarrow> empleado \<Rightarrow> emp_exc + (bool \<times> empleado)" where
  "completar_proyecto n e =
     (case datos e of
        FreelanceDatos ps \<Rightarrow>
          (if list_ex (proyecto_pendiente n) ps
           then Inr (True, e\<lparr>datos := FreelanceDatos
                               (map_first (proyecto_pendiente n) (\<lambda>p. p\<lparr>completado := True\<rparr>) ps)\<rparr>)
           else Inr (False, e))
      | _ \<Rightarrow> Inl (AttributeError ''completar_proyecto''))"

section \<open>SistemaNomina\<close>

record sistema_nomina =
  nombre_empresa :: string
  sis_empleados :: "addr list"

definition SistemaNomina :: "string \<Rightarrow> sistema_nomina" where
  "SistemaNomina n = \<lparr>nombre_empresa = n, sis_empleados = []\<rparr>"

text \<open>\<open>agregar_empleado\<close>: every object of the model is an \<open>Empleado\<close>, so the
  \<open>isinstance\<close> test holds.\<close>

definition agregar_empleado :: "addr \<Rightarrow> sistema_nomina \<Rightarrow> sistema_nomina" where
  "agregar_empleado a s = s\<lparr>sis_empleados := sis_empleados s @ [a]\<rparr>"

text \<open>\<open>calcular_salario()\<close> of each employee in turn; the first exception
  propagates.\<close>

fun salarios :: "empleado list \<Rightarrow> emp_exc + real list" where
  "salarios [] = Inr []"
| "salarios (e # es) =
     (case calcular_salario e of
        Inl x \<Rightarrow> Inl x
      | Inr s \<Rightarrow> (case salarios es of Inl x \<Rightarrow> Inl x | Inr vs \<Rightarrow> Inr (s # vs)))"

definition empleados_de :: "empleado list \<Rightarrow> sistema_nomina \<Rightarrow> empleado list" where
  "empleados_de heap s = map (\<lambda>a. heap ! a) (sis_empleados s)"

definition calcular_nomina_total :: "empleado list \<Rightarrow> sistema_nomina \<Rightarrow> emp_exc + real" where
  "calcular_nomina_total heap s =
     (case salarios (empleados_de heap s) of Inl x \<Rightarrow> Inl x | Inr vs \<Rightarrow> Inr (sum_list vs))"

text \<open>\<open>obtener_estadisticas\<close>: \<open>None\<close> for an empty payroll (it prints and returns),
  otherwise the total, the average, the maximum and the minimum salary it prints.\<close>

definition obtener_estadisticas ::
  "empleado list \<Rightarrow> sistema_nomina \<Rightarrow> emp_exc + (real \<times> real \<times> real \<times> real) option" where
  "obtener_estadisticas heap s =
     (let es = empleados_de heap s in
      if es = [] then Inr None
      else (case salarios es of
              Inl x \<Rightarrow> Inl x
            | Inr vs \<Rightarrow> Inr (Some (sum_list vs, sum_list vs / real (length vs), Max (set vs), Min (set vs)))))"

text \<open>\<open>listar_empleados_por_tipo\<close>: the \<open>defaultdict\<close> of class names, keys in the
  order of first occurrence, each with the names of its employees.\<close>

definition listar_empleados_por_tipo :: "empleado list \<Rightarrow> sistema_nomina \<Rightarrow> (string \<times> string list) list" where
  "listar_empleados_por_tipo heap s =
     (let es = empleados_de heap s; tipos = remdups (map (\<lambda>e. clase_nombre (datos e)) es)
      in map (\<lambda>t. (t, map emp_nombre (filter (\<lambda>e. clase_nombre (datos e) = t) es))) tipos)"

section \<open>Programs over the classes\<close>

text \<open>The constructors a statement can call, and the methods that mutate an employee.\<close>

datatype emp_ctor =
    CEmpleado
  | CTiempoCompleto real
  | CPorHoras real
  | CPorComision real real
  | CFreelance

fun crear_empleado :: "string \<Rightarrow> string \<Rightarrow> string \<Rightarrow> emp_ctor \<Rightarrow> nomina_mundo \<Rightarrow> nomina_mundo" where
  "crear_empleado n i f CEmpleado = Empleado n i f"
| "crear_empleado n i f (CTiempoCompleto s) = EmpleadoTiempoCompleto n i f s"
| "crear_empleado n i f (CPorHoras t) = EmpleadoPorHoras n i f t"
| "crear_empleado n i f (CPorComision b p) = EmpleadoPorComision n i f b p"
| "crear_empleado n i f CFreelance = EmpleadoFreelance n i f"

datatype emp_metodo =
    AgregarBeneficio string real
  | RegistrarHoras real bool
  | ResetearHoras
  | RegistrarVenta real
  | ResetearVentas
  | AgregarProyecto string real
  | CompletarProyecto string

fun aplicar_metodo :: "emp_metodo \<Rightarrow> empleado \<Rightarrow> emp_exc + empleado" where
  "aplicar_metodo (AgregarBeneficio b v) e = agregar_beneficio b v e"
| "aplicar_metodo (RegistrarHoras h x) e = registrar_horas h x e"
| "aplicar_metodo ResetearHoras e = resetear_horas e"
| "aplicar_metodo (RegistrarVenta m) e = registrar_venta m e"
| "aplicar_metodo ResetearVentas e = resetear_ventas e"
| "aplicar_metodo (AgregarProyecto n p) e = agregar_proyecto n p e"
| "aplicar_metodo (CompletarProyecto n) e = map_sum id snd (completar_proyecto n e)"

datatype nomina_op = Crear string string string emp_ctor | Llamar addr emp_metodo

text \<open>A call that raises leaves the object as it was (every method raises, if at all,
  before its first assignment).\<close>

fun nomina_step :: "nomina_op \<Rightarrow> nomina_mundo \<Rightarrow> nomina_mundo" where
  "nomina_step (Crear n i f c) w = crear_empleado n i f c w"
| "nomina_step (Llamar a m) w =
     (case aplicar_metodo m (empleados_creados w ! a) of
        Inl _ \<Rightarrow> w
      | Inr e \<Rightarrow> w\<lparr>empleados_creados := (empleados_creados w)[a := e]\<rparr>)"

inductive nomina_reachable :: "nomina_mundo \<Rightarrow> bool" where
  inicio: "nomina_reachable nomina_inicial"
| paso: "nomina_reachable w \<Longrightarrow> nomina_reachable (nomina_step op w)"

section \<open>The demonstrations\<close>

text \<open>\<open>demostrar_polimorfismo_basico\<close> and then \<open>demostrar_sistema_nomina_completo\<close>,
  as \<open>__main__\<close> runs them: the employees get the numbers 1 to 12.\<close>

definition nomina_demo_ops :: "nomina_op list" where
  "nomina_demo_ops =
     [Crear (''Ana Garc'' @ utf8_i_acute @ ''a'') ''TC001'' ''01/01/2023'' (CTiempoCompleto 3500),
      Crear ''Carlos Ruiz'' ''PH001'' ''15/03/2023'' (CPorHoras 25),
      Crear (''Mar'' @ utf8_i_acute @ ''a L'' @ utf8_o_acute @ ''pez'') ''COM001'' ''10/02/2023'' (CPorComision 1000 0.08),
      Crear ''Roberto Silva'' ''FR001'' ''01/06/2023'' CFreelance,
      Llamar 1 (RegistrarHoras 160 False), Llamar 1 (RegistrarHoras 20 True),
      Llamar 2 (RegistrarVenta 10000), Llamar 2 (RegistrarVenta 15000), Llamar 2 (RegistrarVenta 8000),
      Llamar 3 (AgregarProyecto ''Sitio Web Corporativo'' 5000),
      Llamar 3 (AgregarProyecto (''App M'' @ utf8_o_acute @ ''vil'') 8000),
      Llamar 3 (CompletarProyecto ''Sitio Web Corporativo''),
      Crear (''Laura Mart'' @ utf8_i_acute @ ''nez'') ''TC001'' ''01/01/2020'' (CTiempoCompleto 4000),
      Llamar 4 (AgregarBeneficio ''Bono de transporte'' 200),
      Llamar 4 (AgregarBeneficio (''Seguro m'' @ utf8_e_acute @ ''dico'') 300),
      Crear ''Diego Torres'' ''TC002'' ''15/06/2021'' (CTiempoCompleto 3800),
      Llamar 5 (AgregarBeneficio ''Bono de transporte'' 200),
      Crear (''Sandra Ram'' @ utf8_i_acute @ ''rez'') ''PH001'' ''10/03/2022'' (CPorHoras 28),
      Llamar 6 (RegistrarHoras 150 False), Llamar 6 (RegistrarHoras 15 True),
      Crear (''Miguel '' @ [CHR 0xC3, CHR 0x81] @ ''ngel Cruz'') ''PH002'' ''20/08/2022'' (CPorHoras 22),
      Llamar 7 (RegistrarHoras 180 False), Llamar 7 (RegistrarHoras 10 True),
      Crear ''Patricia Morales'' ''COM001'' ''05/01/2021'' (CPorComision 1200 0.10),
      Llamar 8 (RegistrarVenta 15000), Llamar 8 (RegistrarVenta 22000),
      Llamar 8 (RegistrarVenta 18000), Llamar 8 (RegistrarVenta 12000),
      Crear ''Fernando Vargas'' ''COM002'' ''12/04/2021'' (CPorComision 1000 0.12),
      Llamar 9 (RegistrarVenta 25000), Llamar 9 (RegistrarVenta 30000),
      Crear ''Gabriela Herrera'' ''FR001'' ''01/09/2023'' CFreelance,
      Llamar 10 (AgregarProyecto (''Dise'' @ utf8_n_tilde @ ''o UI/UX'') 4000),
      Llamar 10 (AgregarProyecto ''Landing Page'' 2500),
      Llamar 10 (AgregarProyecto ''Logo empresarial'' 1500),
      Llamar 10 (CompletarProyecto (''Dise'' @ utf8_n_tilde @ ''o UI/UX'')),
      Llamar 10 (CompletarProyecto ''Landing Page''),
      Crear (''Andr'' @ utf8_e_acute @ ''s Mendoza'') ''FR002'' ''15/10/2023'' CFreelance,
      Llamar 11 (AgregarProyecto ''Sistema de inventario'' 12000),
      Llamar 11 (CompletarProyecto ''Sistema de inventario'')]"

definition nomina_demo :: nomina_mundo where
  "nomina_demo = fold nomina_step nomina_demo_ops nomina_inicial"

text \<open>The payroll of \<open>demostrar_sistema_nomina_completo\<close>: the eight employees it
  creates, added in order.\<close>

definition sistema_demo :: sistema_nomina where
  "sistema_demo = fold agregar_empleado [4, 5, 6, 7, 8, 9, 10, 11] (SistemaNomina ''TechSolutions S.A.'')"

section \<open>Duck typing\<close>

datatype cosa = Perro | Gato | Vaca | Radio

fun hacer_sonido :: "cosa \<Rightarrow> string" where
  "hacer_sonido Perro = [CHR 0xC2, CHR 0xA1] @ ''Guau guau!''"
| "hacer_sonido Gato = [CHR 0xC2, CHR 0xA1] @ ''Miau miau!''"
| "hacer_sonido Vaca = [CHR 0xC2, CHR 0xA1] @ ''Muuu!''"
| "hacer_sonido Radio =
     [CHR 0xE2, CHR 0x99, CHR 0xAA, CHR 0xE2, CHR 0x99, CHR 0xAB] @ '' M'' @ utf8_u_acute @ ''sica '' @
     [CHR 0xE2, CHR 0x99, CHR 0xAA, CHR 0xE2, CHR 0x99, CHR 0xAB]"

fun cosa_clase :: "cosa \<Rightarrow> string" where
  "cosa_clase Perro = ''Perro''"
| "cosa_clase Gato = ''Gato''"
| "cosa_clase Vaca = ''Vaca''"
| "cosa_clase Radio = ''Radio''"

definition hacer_sonar :: "cosa \<Rightarrow> string" where
  "hacer_sonar c = cosa_clase c @ '': '' @ hacer_sonido c"


section \<open>Lemmas and properties\<close>

lemmas nomina_demo_defs = nomina_demo_def nomina_demo_ops_def nomina_inicial_def nuevo_empleado_def
  EmpleadoTiempoCompleto_def EmpleadoPorHoras_def EmpleadoPorComision_def EmpleadoFreelance_def
  agregar_beneficio_def registrar_horas_def registrar_venta_def agregar_proyecto_def
  completar_proyecto_def proyecto_pendiente_def

lemma nomina_demo_salarios:
  "map (\<lambda>e. calcular_salario e) (empleados_creados nomina_demo) =
     map Inr [3500, 4750, 3640, 5000, 4000, 3800, 4830, 4290, 7900, 7600, 6500, 12000]"
  by (simp add: nomina_demo_defs calcular_salario_def Let_def)

lemma aplicar_metodo_frame:
  "aplicar_metodo m e = Inr e' \<Longrightarrow> numero_empleado e' = numero_empleado e \<and> emp_nombre e' = emp_nombre e"
  by (cases m)
    (auto simp: agregar_beneficio_def registrar_horas_def resetear_horas_def registrar_venta_def
      resetear_ventas_def agregar_proyecto_def completar_proyecto_def
      split: empleado_datos.splits if_splits)

lemma nomina_reachable_fold:
  "nomina_reachable w \<Longrightarrow> nomina_reachable (fold nomina_step ops w)"
  by (induction ops arbitrary: w) (auto intro: nomina_reachable.paso)

lemma crear_empleado_mundo:
  "crear_empleado n i f c w =
     w\<lparr>empleados_creados := empleados_creados w @
          [\<lparr>emp_nombre = n, emp_identificacion = i, fecha_ingreso = f, activo = True,
            numero_empleado = contador_empleados w + 1,
            datos = (case c of CEmpleado \<Rightarrow> Base | CTiempoCompleto s \<Rightarrow> TiempoCompletoDatos s []
                     | CPorHoras t \<Rightarrow> PorHorasDatos t 0 0 | CPorComision b p \<Rightarrow> PorComisionDatos b p []
                     | CFreelance \<Rightarrow> FreelanceDatos [])\<rparr>],
       contador_empleados := contador_empleados w + 1\<rparr>"
  by (cases c) (simp_all add: Empleado_def EmpleadoTiempoCompleto_def EmpleadoPorHoras_def
      EmpleadoPorComision_def EmpleadoFreelance_def nuevo_empleado_def Let_def)

text \<open>C25 (invariant): in every state a program can reach, the class attribute \<open>contador_empleados\<close> equals the number of employees created, and the employee at address \<open>i\<close> carries \<open>numero_empleado = i + 1\<close>: no method call changes an employee's number.\<close>

theorem numero_empleado_inv:
  "nomina_reachable w \<Longrightarrow>
   contador_empleados w = int (length (empleados_creados w)) \<and>
   (\<forall>i < length (empleados_creados w). numero_empleado (empleados_creados w ! i) = int i + 1)"
proof (induction rule: nomina_reachable.induct)
  case inicio
  then show ?case by (simp add: nomina_inicial_def)
next
  case (paso w op)
  then show ?case
  proof (cases op)
    case (Crear n i f c)
    with paso.IH show ?thesis by (auto simp: crear_empleado_mundo nth_append less_Suc_eq)
  next
    case (Llamar a m)
    show ?thesis
    proof (cases "aplicar_metodo m (empleados_creados w ! a)")
      case (Inl x)
      with Llamar paso.IH show ?thesis by simp
    next
      case (Inr e')
      with aplicar_metodo_frame have "numero_empleado e' = numero_empleado (empleados_creados w ! a)"
        by blast
      with Llamar Inr paso.IH show ?thesis
        by (cases "a < length (empleados_creados w)") (auto simp: nth_list_update)
    qed
  qed
qed

lemma salarios_spec:
  "salarios es =
     (if list_ex (\<lambda>e. datos e = Base) es then Inl NotImplementedError
      else Inr (map (\<lambda>e. projr (calcular_salario e)) es))"
proof (induction es)
  case (Cons e es)
  then show ?case by (cases "datos e") (auto simp: calcular_salario_def split: sum.splits)
qed simp

lemma datos_Base_iff: "datos e = Base \<longleftrightarrow> calcular_salario e = Inl NotImplementedError"
  by (cases "datos e") (simp_all add: calcular_salario_def)

lemma calcular_nomina_total_cong:
  assumes "\<forall>i. calcular_salario (heap' ! i) = calcular_salario (heap ! i)"
  shows "calcular_nomina_total heap' s = calcular_nomina_total heap s"
proof -
  have "list_ex (\<lambda>e. datos e = Base) (empleados_de h s) =
          list_ex (\<lambda>a. calcular_salario (h ! a) = Inl NotImplementedError) (sis_empleados s)" for h
    by (simp add: empleados_de_def list_ex_iff datos_Base_iff)
  moreover have "map (\<lambda>e. projr (calcular_salario e)) (empleados_de h s) =
          map (\<lambda>a. projr (calcular_salario (h ! a))) (sis_empleados s)" for h
    by (simp add: empleados_de_def)
  ultimately show ?thesis using assms by (simp add: calcular_nomina_total_def salarios_spec)
qed

text \<open>C26 (equivalence): \<open>calcular_nomina_total\<close>, a loop that accumulates salaries and lets the first exception escape, equals the closed form: \<open>NotImplementedError\<close> when a plain \<open>Empleado\<close> is on the payroll, otherwise the sum of the salaries of the employees on it.\<close>

theorem calcular_nomina_total_spec:
  "calcular_nomina_total heap s =
     (if list_ex (\<lambda>e. datos e = Base) (empleados_de heap s) then Inl NotImplementedError
      else Inr (sum_list (map (\<lambda>e. projr (calcular_salario e)) (empleados_de heap s))))"
  by (simp add: calcular_nomina_total_def salarios_spec)

lemma sum_list_between_min_max:
  assumes "vs \<noteq> []"
  shows "real (length vs) * Min (set vs) \<le> sum_list vs \<and> sum_list vs \<le> real (length vs) * Max (set vs)"
proof -
  have "sum_list (map (\<lambda>_. Min (set vs)) vs) \<le> sum_list (map (\<lambda>x. x) vs)"
    using assms by (intro sum_list_mono) simp
  moreover have "sum_list (map (\<lambda>x. x) vs) \<le> sum_list (map (\<lambda>_. Max (set vs)) vs)"
    using assms by (intro sum_list_mono) simp
  ultimately show ?thesis by (simp add: sum_list_triv)
qed

text \<open>C27 (bounds): when \<open>obtener_estadisticas\<close> returns statistics, the average lies between the minimum and the maximum salary, and the total is the average times the number of employees.\<close>

theorem estadisticas_bounds:
  "obtener_estadisticas heap s = Inr (Some (t, p, mx, mn)) \<Longrightarrow>
   mn \<le> p \<and> p \<le> mx \<and> t = p * real (length (sis_empleados s))"
proof -
  assume h: "obtener_estadisticas heap s = Inr (Some (t, p, mx, mn))"
  then obtain vs where vs: "salarios (empleados_de heap s) = Inr vs" "empleados_de heap s \<noteq> []"
    and t: "t = sum_list vs" "p = sum_list vs / real (length vs)" "mx = Max (set vs)" "mn = Min (set vs)"
    by (auto simp: obtener_estadisticas_def Let_def split: if_splits sum.splits)
  have len: "length vs = length (sis_empleados s)"
    using vs(1) by (auto simp: salarios_spec empleados_de_def split: if_splits)
  with vs(2) have ne: "vs \<noteq> []" by (auto simp: empleados_de_def)
  then have pos: "0 < real (length vs)" by simp
  from sum_list_between_min_max [OF ne] pos t len show ?thesis
    by (auto simp: pos_le_divide_eq pos_divide_le_eq mult.commute)
qed

lemma nomina_demo_reachable: "nomina_reachable nomina_demo"
  unfolding nomina_demo_def by (rule nomina_reachable_fold [OF nomina_reachable.inicio])

lemmas sistema_demo_defs = sistema_demo_def SistemaNomina_def agregar_empleado_def empleados_de_def

text \<open>C28 (functional): completing the first pending project of a freelancer with a given name succeeds and raises the salary by exactly that project's payment.\<close>

theorem completar_proyecto_paga:
  "datos e = FreelanceDatos (ys @ p # zs) \<Longrightarrow> \<not> list_ex (proyecto_pendiente n) ys \<Longrightarrow>
   proyecto_pendiente n p \<Longrightarrow>
   \<exists>e'. completar_proyecto n e = Inr (True, e') \<and>
        calcular_salario e' = Inr (projr (calcular_salario e) + pago p)"
proof -
  assume d: "datos e = FreelanceDatos (ys @ p # zs)" and ys: "\<not> list_ex (proyecto_pendiente n) ys"
    and p: "proyecto_pendiente n p"
  let ?e' = "e\<lparr>datos := FreelanceDatos (ys @ p\<lparr>completado := True\<rparr> # zs)\<rparr>"
  have "completar_proyecto n e = Inr (True, ?e')"
    using d ys p by (simp add: completar_proyecto_def map_first_split)
  moreover have "\<not> completado p" using p by (simp add: proyecto_pendiente_def)
  then have "calcular_salario ?e' = Inr (projr (calcular_salario e) + pago p)"
    using d by (simp add: calcular_salario_def)
  ultimately show ?thesis by blast
qed

theorem numero_empleado_inv_witness:
  "contador_empleados nomina_demo = int (length (empleados_creados nomina_demo)) \<and>
   numero_empleado (empleados_creados nomina_demo ! 4) = 5"
proof -
  note h = nomina_demo_reachable
  have l: "4 < length (empleados_creados nomina_demo)"
    by (simp add: nomina_demo_defs Let_def)
  from numero_empleado_inv [OF h] l show ?thesis by simp
qed

theorem estadisticas_bounds_witness:
  "obtener_estadisticas (empleados_creados nomina_demo) sistema_demo = Inr (Some (50920, 6365, 12000, 3800)) \<and>
   3800 \<le> (6365::real) \<and> (6365::real) \<le> 12000 \<and> (50920::real) = 6365 * real (length (sis_empleados sistema_demo))"
proof -
  have h: "obtener_estadisticas (empleados_creados nomina_demo) sistema_demo = Inr (Some (50920, 6365, 12000, 3800))"
    by (simp add: obtener_estadisticas_def sistema_demo_defs nomina_demo_defs calcular_salario_def Let_def)
  from h estadisticas_bounds [OF h] show ?thesis by simp
qed

theorem completar_proyecto_paga_witness:
  "\<exists>e'. completar_proyecto ''Sitio Web Corporativo''
          \<lparr>emp_nombre = ''Roberto Silva'', emp_identificacion = ''FR001'', fecha_ingreso = ''01/06/2023'',
           activo = True, numero_empleado = 4,
           datos = FreelanceDatos
             [\<lparr>proy_nombre = ''Sitio Web Corporativo'', pago = 5000, completado = False\<rparr>,
              \<lparr>proy_nombre = ''App M'' @ utf8_o_acute @ ''vil'', pago = 8000, completado = False\<rparr>]\<rparr>
          = Inr (True, e') \<and> calcular_salario e' = Inr 5000"
  using completar_proyecto_paga
      [of "\<lparr>emp_nombre = ''Roberto Silva'', emp_identificacion = ''FR001'', fecha_ingreso = ''01/06/2023'',
           activo = True, numero_empleado = 4,
           datos = FreelanceDatos
             [\<lparr>proy_nombre = ''Sitio Web Corporativo'', pago = 5000, completado = False\<rparr>,
              \<lparr>proy_nombre = ''App M'' @ utf8_o_acute @ ''vil'', pago = 8000, completado = False\<rparr>]\<rparr>"
        "[]" "\<lparr>proy_nombre = ''Sitio Web Corporativo'', pago = 5000, completado = False\<rparr>"
        "[\<lparr>proy_nombre = ''App M'' @ utf8_o_acute @ ''vil'', pago = 8000, completado = False\<rparr>]"
        "''Sitio Web Corporativo''"]
  by (simp add: proyecto_pendiente_def calcular_salario_def)

text \<open>The demonstrations compute the salaries the source prints (3500, 4750, 3640, 5000
  for the four basic employees), a payroll total of 50920 for TechSolutions, and a
  full-time employee whose salary with benefits is 4500; the grouping by type lists the
  four subclasses in the order employees were added.\<close>

lemma nomina_demo_resultados:
  "map calcular_salario (take 4 (empleados_creados nomina_demo)) = map Inr [3500, 4750, 3640, 5000] \<and>
   calcular_nomina_total (empleados_creados nomina_demo) sistema_demo = Inr 50920 \<and>
   calcular_salario (empleados_creados nomina_demo ! 4) = Inr 4000 \<and>
   calcular_salario_con_beneficios (empleados_creados nomina_demo ! 4) = Inr 4500 \<and>
   map fst (listar_empleados_por_tipo (empleados_creados nomina_demo) sistema_demo) =
     [''EmpleadoTiempoCompleto'', ''EmpleadoPorHoras'', ''EmpleadoPorComision'', ''EmpleadoFreelance'']"
  by (simp add: nomina_demo_defs sistema_demo_defs calcular_salario_def calcular_nomina_total_def
      calcular_salario_con_beneficios_def listar_empleados_por_tipo_def Let_def)

subsection \<open>The report format\<close>

text \<open>\<open>py_redondeo_par\<close> rounds to a nearest integer; a whole amount is written as its
  digits in groups of three followed by \<open>.00\<close>. The recursion of \<open>py_miles\<close> is
  unfolded on numerals only.\<close>

lemma py_redondeo_par_cerca: "\<bar>of_int (py_redondeo_par y) - y\<bar> \<le> 1 / 2"
proof -
  have "of_int \<lfloor>y\<rfloor> \<le> y" "y < of_int \<lfloor>y\<rfloor> + 1" by linarith+
  then show ?thesis by (auto simp: py_redondeo_par_def Let_def)
qed

declare py_miles.simps [simp del]

lemma py_miles_menor [simp]: "n < 1000 \<Longrightarrow> py_miles n = py_digits n"
  by (simp add: py_miles.simps)

lemma py_miles_numeral [simp]:
  "py_miles (numeral k) =
     (if numeral k < (1000::nat) then py_digits (numeral k)
      else py_miles (numeral k div 1000) @ '','' @ py_cero_izq 3 (numeral k mod 1000))"
  by (rule py_miles.simps)

lemma py_cero_izq_3_0 [simp]: "py_cero_izq 3 0 = ''000''"
  by (simp add: py_cero_izq_def numeral_3_eq_3)

lemma py_cero_izq_numeral [simp]:
  "py_cero_izq w (numeral k) = replicate (w - length (py_digits (numeral k))) (CHR ''0'') @ py_digits (numeral k)"
  by (rule py_cero_izq_def)

lemma py_redondeo_par_nat [simp]: "py_redondeo_par (of_nat m) = int m"
  by (simp add: py_redondeo_par_def)

lemma py_cero_izq_2_0 [simp]: "py_cero_izq 2 0 = ''00''"
  by (simp add: py_cero_izq_def numeral_2_eq_2)

lemma py_fmt_miles_2f_nat: "py_fmt_miles_2f (of_nat n) = py_miles n @ ''.00''"
proof -
  have "py_redondeo_par (of_nat n * 100) = int (n * 100)"
    using py_redondeo_par_nat [of "n * 100"] by simp
  then show ?thesis by (simp add: py_fmt_miles_2f_def Let_def nat_mult_distrib)
qed

lemma py_fmt_miles_2f_numeral [simp]: "py_fmt_miles_2f (numeral k) = py_miles (numeral k) @ ''.00''"
  using py_fmt_miles_2f_nat [of "numeral k"] by simp

text \<open>The reports \<open>generar_reporte_detallado\<close> prints for Laura Martinez (full time, two
  benefits) and Gabriela Herrera (freelance, two of three projects completed), as the
  source computes them: 4,500.00 with benefits, 6,500.00 for the completed projects.\<close>

lemma datos_demo_tiempo_completo:
  "datos (empleados_creados nomina_demo ! 4) =
     TiempoCompletoDatos 4000 [\<lparr>ben_nombre = ''Bono de transporte'', ben_valor = 200\<rparr>,
                               \<lparr>ben_nombre = ''Seguro m'' @ utf8_e_acute @ ''dico'', ben_valor = 300\<rparr>]"
  by (simp add: nomina_demo_defs Let_def)

lemma datos_demo_freelance:
  "datos (empleados_creados nomina_demo ! 10) =
     FreelanceDatos [\<lparr>proy_nombre = ''Dise'' @ utf8_n_tilde @ ''o UI/UX'', pago = 4000, completado = True\<rparr>,
                     \<lparr>proy_nombre = ''Landing Page'', pago = 2500, completado = True\<rparr>,
                     \<lparr>proy_nombre = ''Logo empresarial'', pago = 1500, completado = False\<rparr>]"
  by (simp add: nomina_demo_defs Let_def completar_proyecto_def proyecto_pendiente_def)

lemma reporte_tiempo_completo_demo:
  "(case datos (empleados_creados nomina_demo ! 4) of
      TiempoCompletoDatos s bs \<Rightarrow> info_tiempo_completo (empleados_creados nomina_demo ! 4) s bs
    | _ \<Rightarrow> []) =
   mostrar_informacion_base (empleados_creados nomina_demo ! 4) @
   ''        Salario mensual: $4,000.00\<newline>        Beneficios:\<newline>'' @
   ''          - Bono de transporte: $200.00\<newline>'' @
   ''          - Seguro m'' @ utf8_e_acute @ ''dico: $300.00\<newline>'' @
   ''        Salario total: $4,500.00\<newline>''"
  by (simp add: datos_demo_tiempo_completo info_tiempo_completo_def)

lemma reporte_freelance_demo:
  "(case datos (empleados_creados nomina_demo ! 10) of
      FreelanceDatos ps \<Rightarrow> info_freelance (empleados_creados nomina_demo ! 10) ps
    | _ \<Rightarrow> []) =
   mostrar_informacion_base (empleados_creados nomina_demo ! 10) @
   ''        Total de proyectos: 3\<newline>        Proyectos completados: 2\<newline>'' @
   ''          '' @ [CHR 0xE2, CHR 0x9C, CHR 0x93] @ '' Dise'' @ utf8_n_tilde @ ''o UI/UX: $4,000.00\<newline>'' @
   ''          '' @ [CHR 0xE2, CHR 0x9C, CHR 0x93] @ '' Landing Page: $2,500.00\<newline>'' @
   ''        Proyectos pendientes: 1\<newline>'' @
   ''          '' @ [CHR 0xE2, CHR 0x97, CHR 0x8B] @ '' Logo empresarial: $1,500.00\<newline>'' @
   ''        Salario total (completados): $6,500.00\<newline>''"
  by (simp add: datos_demo_freelance info_freelance_def py_str_int_def)

text \<open>The base block of \<open>mostrar_informacion()\<close> for the second employee the program
  creates, Carlos Ruiz, paid by the hour: reached through \<open>super()\<close>, it names the subclass.\<close>

lemma mostrar_informacion_demo:
  "mostrar_informacion_base (empleados_creados nomina_demo ! 1) =
     ''\<newline>        --- Empleado #2 ---\<newline>        Tipo: EmpleadoPorHoras\<newline>'' @
     ''        Nombre: Carlos Ruiz\<newline>        ID: PH001\<newline>'' @
     ''        Fecha de ingreso: 15/03/2023\<newline>        Estado: Activo\<newline>        ''"
  by code_simp

text \<open>C29 (functional): the payroll counts only \<open>calcular_salario()\<close>: adding a benefit to
  a full-time employee raises that employee's \<open>calcular_salario_con_beneficios()\<close> by
  exactly its value and leaves \<open>calcular_nomina_total()\<close> of every payroll unchanged.\<close>

theorem beneficios_fuera_de_nomina:
  assumes "a < length (empleados_creados w)"
    and "datos (empleados_creados w ! a) = TiempoCompletoDatos sal bs"
  shows "calcular_nomina_total (empleados_creados (nomina_step (Llamar a (AgregarBeneficio b v)) w)) s =
           calcular_nomina_total (empleados_creados w) s \<and>
         calcular_salario_con_beneficios (empleados_creados (nomina_step (Llamar a (AgregarBeneficio b v)) w) ! a) =
           Inr (sal + sum_list (map ben_valor bs) + v)"
proof -
  let ?es = "empleados_creados w"
  let ?e' = "(?es ! a)\<lparr>datos := TiempoCompletoDatos sal (bs @ [\<lparr>ben_nombre = b, ben_valor = v\<rparr>])\<rparr>"
  have step: "empleados_creados (nomina_step (Llamar a (AgregarBeneficio b v)) w) = ?es[a := ?e']"
    using assms(2) by (simp add: agregar_beneficio_def)
  have "calcular_salario (?es[a := ?e'] ! i) = calcular_salario (?es ! i)" for i
    using assms by (cases "i = a") (simp_all add: calcular_salario_def)
  then have nt: "calcular_nomina_total (?es[a := ?e']) s = calcular_nomina_total ?es s"
    by (simp add: calcular_nomina_total_cong)
  have cb: "calcular_salario_con_beneficios (?es[a := ?e'] ! a) = Inr (sal + sum_list (map ben_valor bs) + v)"
    using assms(1) by (simp add: calcular_salario_con_beneficios_def add.assoc)
  show ?thesis unfolding step by (rule conjI [OF nt cb])
qed

theorem beneficios_fuera_de_nomina_witness:
  "4 < length (empleados_creados nomina_demo) \<and>
   datos (empleados_creados nomina_demo ! 4) =
     TiempoCompletoDatos 4000 [\<lparr>ben_nombre = ''Bono de transporte'', ben_valor = 200\<rparr>,
                               \<lparr>ben_nombre = ''Seguro m'' @ utf8_e_acute @ ''dico'', ben_valor = 300\<rparr>] \<and>
   calcular_nomina_total (empleados_creados (nomina_step (Llamar 4 (AgregarBeneficio ''Bono'' 100)) nomina_demo))
     sistema_demo = calcular_nomina_total (empleados_creados nomina_demo) sistema_demo \<and>
   calcular_salario_con_beneficios
     (empleados_creados (nomina_step (Llamar 4 (AgregarBeneficio ''Bono'' 100)) nomina_demo) ! 4) = Inr 4600"
proof -
  have l: "4 < length (empleados_creados nomina_demo)" by (simp add: nomina_demo_defs Let_def)
  from beneficios_fuera_de_nomina [OF l datos_demo_tiempo_completo, of "''Bono''" 100 sistema_demo]
  show ?thesis using l datos_demo_tiempo_completo by simp
qed

end
