(* ===== verification/Animales.thy ===== *)
theory Animales
  imports Prelude
begin

text \<open>
  \<^verbatim>\<open>src/4_Herencia/animales_herencia.py\<close>: the class \<open>Animal\<close>, its subclasses
  \<open>Mamifero\<close> and \<open>Oviparo\<close>, their subclasses \<open>Perro\<close>, \<open>Gato\<close>, \<open>Aguila\<close> and
  \<open>Pinguino\<close>, and the local class \<open>AnimalConLog\<close> of \<open>demostrar_uso_super\<close>.
  The hierarchy is a datatype of classes with the parent of each; the method
  resolution order \<open>mro\<close> is the chain of ancestors (single inheritance, so C3
  linearisation is that chain), and the subclass relation is an instance of
  \<open>order\<close>. An object is a record of the attributes \<open>Animal.__init__\<close> sets and a
  datatype of the attributes the subclass constructors add, nested as the classes are.
  Each method body of the source is one definition; a call looks the method name up
  along the MRO of the object's class, as Python does, and runs the body found there,
  \<open>super()\<close> being a direct call of the parent's body. Reading an attribute the object
  lacks, or calling a method no class of the MRO defines, is an \<open>AttributeError\<close>.
  Weights and temperatures are Python floats with one decimal; they are kept as
  integer tenths (\<open>decimas\<close>), which \<open>str()\<close> prints exactly as Python's \<open>repr\<close> does.
  The random draw of \<open>hacer_truco\<close> is an input of the call.
\<close>

section \<open>Shared text\<close>

abbreviation utf8_u_diaeresis :: string where "utf8_u_diaeresis \<equiv> [CHR 0xC3, CHR 0xBC]"
abbreviation utf8_degree :: string where "utf8_degree \<equiv> [CHR 0xC2, CHR 0xB0]"
abbreviation utf8_excl :: string where "utf8_excl \<equiv> [CHR 0xC2, CHR 0xA1]"
abbreviation emoji_huellas :: string where "emoji_huellas \<equiv> [CHR 0xF0, CHR 0x9F, CHR 0x90, CHR 0xBE]"
abbreviation flecha :: string where "flecha \<equiv> [CHR 0xE2, CHR 0x86, CHR 0x92]"
abbreviation emoji_aguila :: string where "emoji_aguila \<equiv> [CHR 0xF0, CHR 0x9F, CHR 0xA6, CHR 0x85]"

definition reino :: string where
  "reino = ''Animalia''"

section \<open>The class hierarchy\<close>

datatype clase = Animal | Mamifero | Oviparo | Perro | Gato | Aguila | Pinguino | AnimalConLog

fun clase_padre :: "clase \<Rightarrow> clase option" where
  "clase_padre Animal = None"
| "clase_padre Mamifero = Some Animal"
| "clase_padre Oviparo = Some Animal"
| "clase_padre Perro = Some Mamifero"
| "clase_padre Gato = Some Mamifero"
| "clase_padre Aguila = Some Oviparo"
| "clase_padre Pinguino = Some Oviparo"
| "clase_padre AnimalConLog = Some Animal"

fun nombre_de_clase :: "clase \<Rightarrow> string" where
  "nombre_de_clase Animal = ''Animal''"
| "nombre_de_clase Mamifero = ''Mamifero''"
| "nombre_de_clase Oviparo = ''Oviparo''"
| "nombre_de_clase Perro = ''Perro''"
| "nombre_de_clase Gato = ''Gato''"
| "nombre_de_clase Aguila = ''Aguila''"
| "nombre_de_clase Pinguino = ''Pinguino''"
| "nombre_de_clase AnimalConLog = ''AnimalConLog''"

text \<open>The depth of a class below \<open>Animal\<close>; it decreases from a class to its parent.\<close>

fun profundidad :: "clase \<Rightarrow> nat" where
  "profundidad Animal = 0"
| "profundidad Mamifero = 1"
| "profundidad Oviparo = 1"
| "profundidad AnimalConLog = 1"
| "profundidad Perro = 2"
| "profundidad Gato = 2"
| "profundidad Aguila = 2"
| "profundidad Pinguino = 2"

lemma clase_padre_profundidad: "clase_padre c = Some p \<Longrightarrow> profundidad p < profundidad c"
  by (cases c) auto

text \<open>\<open>C.__mro__\<close> without \<open>object\<close>.\<close>

function mro :: "clase \<Rightarrow> clase list" where
  "mro c = c # (case clase_padre c of None \<Rightarrow> [] | Some p \<Rightarrow> mro p)"
  by auto
termination
  by (relation "measure profundidad") (auto intro: clase_padre_profundidad)

instantiation clase :: order
begin

definition less_eq_clase :: "clase \<Rightarrow> clase \<Rightarrow> bool" where
  "less_eq_clase c k \<longleftrightarrow> k \<in> set (mro c)"

definition less_clase :: "clase \<Rightarrow> clase \<Rightarrow> bool" where
  "less_clase c k \<longleftrightarrow> k \<in> set (mro c) \<and> c \<noteq> k"

lemma mro_None [simp]: "clase_padre c = None \<Longrightarrow> mro c = [c]"
  by simp

lemma mro_Some [simp]: "clase_padre c = Some p \<Longrightarrow> mro c = c # mro p"
  by simp

declare mro.simps [simp del]

lemma mro_self [simp]: "c \<in> set (mro c)"
  by (subst mro.simps) simp

lemma mro_trans: "k \<in> set (mro c) \<Longrightarrow> set (mro k) \<subseteq> set (mro c)"
proof (induction c rule: mro.induct)
  case (1 c)
  then show ?case by (cases "clase_padre c") auto
qed

lemma mro_profundidad: "k \<in> set (mro c) \<Longrightarrow> k = c \<or> profundidad k < profundidad c"
proof (induction c rule: mro.induct)
  case (1 c)
  then show ?case by (cases "clase_padre c") (auto dest: clase_padre_profundidad)
qed

instance
proof
  fix c k l :: clase
  show "c < k \<longleftrightarrow> c \<le> k \<and> \<not> k \<le> c"
    using mro_profundidad [of k c] mro_profundidad [of c k]
    by (auto simp: less_eq_clase_def less_clase_def)
  show "c \<le> c" by (simp add: less_eq_clase_def)
  show "c \<le> k \<Longrightarrow> k \<le> l \<Longrightarrow> c \<le> l"
    using mro_trans [of k c] by (auto simp: less_eq_clase_def)
  show "c \<le> k \<Longrightarrow> k \<le> c \<Longrightarrow> c = k"
    using mro_profundidad [of k c] mro_profundidad [of c k] by (auto simp: less_eq_clase_def)
qed

end

section \<open>Objects\<close>

text \<open>The attributes the subclass constructors add: \<open>Mamifero.__init__\<close> sets
  \<open>tipo_pelaje\<close>, \<open>numero_patas\<close> and \<open>temperatura_corporal\<close>, \<open>Perro\<close> adds \<open>raza\<close>
  and \<open>trucos\<close>, \<open>Gato\<close> \<open>color\<close> and \<open>vidas\<close>; \<open>Oviparo.__init__\<close> sets
  \<open>tipo_huevo\<close> and \<open>puede_volar\<close>, \<open>Aguila\<close> adds \<open>envergadura\<close> and
  \<open>altura_vuelo_max\<close>, \<open>Pinguino\<close> \<open>especie\<close> and \<open>velocidad_nado\<close>.\<close>

datatype mamifero_sub = MamiferoPropio | PerroDatos string "string list" | GatoDatos string int

datatype oviparo_sub = OviparoPropio | AguilaDatos decimas int | PinguinoDatos string int

datatype animal_datos =
    AnimalPropio
  | AnimalConLogDatos
  | MamiferoDatos string int decimas mamifero_sub
  | OviparoDatos string bool oviparo_sub

record animal =
  nombre :: string
  edad :: int
  peso :: decimas
  estado :: string
  atributos :: animal_datos

text \<open>\<open>type(obj)\<close>: the class whose constructor built the object.\<close>

fun clase_datos :: "animal_datos \<Rightarrow> clase" where
  "clase_datos AnimalPropio = Animal"
| "clase_datos AnimalConLogDatos = AnimalConLog"
| "clase_datos (MamiferoDatos _ _ _ MamiferoPropio) = Mamifero"
| "clase_datos (MamiferoDatos _ _ _ (PerroDatos _ _)) = Perro"
| "clase_datos (MamiferoDatos _ _ _ (GatoDatos _ _)) = Gato"
| "clase_datos (OviparoDatos _ _ OviparoPropio) = Oviparo"
| "clase_datos (OviparoDatos _ _ (AguilaDatos _ _)) = Aguila"
| "clase_datos (OviparoDatos _ _ (PinguinoDatos _ _)) = Pinguino"

definition clase_de :: "animal \<Rightarrow> clase" where
  "clase_de a = clase_datos (atributos a)"

definition isinstance :: "animal \<Rightarrow> clase \<Rightarrow> bool" where
  "isinstance a k \<longleftrightarrow> clase_de a \<le> k"

section \<open>Constructors\<close>

text \<open>Each \<open>__init__\<close> returns the object and the lines it prints. A subclass
  constructor calls its parent's through \<open>super().__init__\<close> with the attributes it
  fixes, then sets its own and prints.\<close>

definition animal_init :: "string \<Rightarrow> int \<Rightarrow> decimas \<Rightarrow> animal_datos \<Rightarrow> animal \<times> string list" where
  "animal_init n e p d =
     (\<lparr>nombre = n, edad = e, peso = p, estado = ''vivo'', atributos = d\<rparr>,
      [emoji_huellas @ '' Animal '' @ [CHR 0x27] @ n @ [CHR 0x27] @ '' creado''])"

definition mamifero_init ::
  "string \<Rightarrow> int \<Rightarrow> decimas \<Rightarrow> string \<Rightarrow> int \<Rightarrow> mamifero_sub \<Rightarrow> animal \<times> string list" where
  "mamifero_init n e p tipo_pelaje numero_patas sub =
     (let (a, out) = animal_init n e p (MamiferoDatos tipo_pelaje numero_patas 370 sub)
      in (a, out @ [''  '' @ flecha @ '' Es un mam'' @ utf8_i_acute @ ''fero con pelaje '' @ tipo_pelaje]))"

definition oviparo_init ::
  "string \<Rightarrow> int \<Rightarrow> decimas \<Rightarrow> string \<Rightarrow> bool \<Rightarrow> oviparo_sub \<Rightarrow> animal \<times> string list" where
  "oviparo_init n e p tipo_huevo puede_volar sub =
     (let (a, out) = animal_init n e p (OviparoDatos tipo_huevo puede_volar sub)
      in (a, out @ [''  '' @ flecha @ '' Es un ov'' @ utf8_i_acute @ ''paro que pone huevos de tipo: '' @ tipo_huevo]))"

definition perro_init :: "string \<Rightarrow> int \<Rightarrow> decimas \<Rightarrow> string \<Rightarrow> animal \<times> string list" where
  "perro_init n e p raza =
     (let (a, out) = mamifero_init n e p ''corto'' 4 (PerroDatos raza [])
      in (a, out @ [''  '' @ flecha @ '' Es un perro de raza '' @ raza]))"

definition gato_init :: "string \<Rightarrow> int \<Rightarrow> decimas \<Rightarrow> string \<Rightarrow> animal \<times> string list" where
  "gato_init n e p color =
     (let (a, out) = mamifero_init n e p ''suave'' 4 (GatoDatos color 7)
      in (a, out @ [''  '' @ flecha @ '' Es un gato de color '' @ color]))"

definition aguila_init :: "string \<Rightarrow> int \<Rightarrow> decimas \<Rightarrow> decimas \<Rightarrow> animal \<times> string list" where
  "aguila_init n e p envergadura =
     (let (a, out) = oviparo_init n e p ''cascara dura'' True (AguilaDatos envergadura 3000)
      in (a, out @ [''  '' @ flecha @ '' Es un '' @ utf8_a_acute @ ''guila con envergadura de '' @
                    py_str_decimas envergadura @ ''m'']))"

definition pinguino_init :: "string \<Rightarrow> int \<Rightarrow> decimas \<Rightarrow> string \<Rightarrow> animal \<times> string list" where
  "pinguino_init n e p especie =
     (let (a, out) = oviparo_init n e p ''cascara dura'' False (PinguinoDatos especie 25)
      in (a, out @ [''  '' @ flecha @ '' Es un ping'' @ utf8_u_diaeresis @ ''ino de la especie '' @ especie]))"

section \<open>Method bodies\<close>

text \<open>One definition per method body of the source. A body that reads an attribute
  of a subclass matches on it and raises \<open>AttributeError\<close> when the object lacks it.\<close>

datatype animal_exc = AttributeError string

abbreviation nl :: string where "nl \<equiv> [CHR 0x0A]"
abbreviation ind :: string where "ind \<equiv> replicate 8 (CHR '' '')"

definition animal_comer :: "string \<Rightarrow> animal \<Rightarrow> string" where
  "animal_comer alimento a = nombre a @ '' est'' @ utf8_a_acute @ '' comiendo '' @ alimento"

definition animal_dormir :: "animal \<Rightarrow> string" where
  "animal_dormir a =
     nombre a @ '' est'' @ utf8_a_acute @ '' durmiendo '' @ [CHR 0xF0, CHR 0x9F, CHR 0x92, CHR 0xA4]"

definition animal_hacer_sonido :: "animal \<Rightarrow> string" where
  "animal_hacer_sonido a = nombre a @ '' hace un sonido''"

definition animal_moverse :: "animal \<Rightarrow> string" where
  "animal_moverse a = nombre a @ '' se est'' @ utf8_a_acute @ '' moviendo''"

definition animal_obtener_info :: "animal \<Rightarrow> string" where
  "animal_obtener_info a =
     nl @ ind @ ''--- Informaci'' @ utf8_o_acute @ ''n del Animal ---'' @ nl @
     ind @ ''Tipo: '' @ nombre_de_clase (clase_de a) @ nl @
     ind @ ''Nombre: '' @ nombre a @ nl @
     ind @ ''Edad: '' @ py_str_int (edad a) @ '' a'' @ utf8_n_tilde @ ''os'' @ nl @
     ind @ ''Peso: '' @ py_str_decimas (peso a) @ '' kg'' @ nl @
     ind @ ''Reino: '' @ reino @ nl @
     ind @ ''Estado: '' @ estado a @ nl @ ind"

definition animal_str :: "animal \<Rightarrow> string" where
  "animal_str a = nombre_de_clase (clase_de a) @ '': '' @ nombre a"

definition mamifero_amamantar :: "animal \<Rightarrow> string" where
  "mamifero_amamantar a =
     nombre a @ '' est'' @ utf8_a_acute @ '' amamantando a sus cr'' @ utf8_i_acute @ ''as '' @
     [CHR 0xF0, CHR 0x9F, CHR 0x8D, CHR 0xBC]"

definition mamifero_regular_temperatura :: "animal \<Rightarrow> animal_exc + string" where
  "mamifero_regular_temperatura a =
     (case atributos a of
        MamiferoDatos _ _ t _ \<Rightarrow>
          Inr (nombre a @ '' mantiene su temperatura corporal en '' @ py_str_decimas t @ utf8_degree @ ''C'')
      | _ \<Rightarrow> Inl (AttributeError ''temperatura_corporal''))"

definition mamifero_moverse :: "animal \<Rightarrow> animal_exc + string" where
  "mamifero_moverse a =
     (case atributos a of
        MamiferoDatos _ patas _ _ \<Rightarrow>
          Inr (if patas = 4 then nombre a @ '' camina sobre sus '' @ py_str_int patas @ '' patas''
               else if patas = 2 then nombre a @ '' camina erguido sobre '' @ py_str_int patas @ '' patas''
               else nombre a @ '' se mueve de forma especial'')
      | _ \<Rightarrow> Inl (AttributeError ''numero_patas''))"

text \<open>\<open>Mamifero.obtener_info\<close> extends \<open>super().obtener_info()\<close>; the base text ends
  with the eight spaces that close its triple-quoted string, and the added text starts
  with eight more.\<close>

definition mamifero_obtener_info :: "animal \<Rightarrow> animal_exc + string" where
  "mamifero_obtener_info a =
     (case atributos a of
        MamiferoDatos pelaje patas t _ \<Rightarrow>
          Inr (animal_obtener_info a @
               ind @ ''Tipo de pelaje: '' @ pelaje @ nl @
               ind @ ''N'' @ utf8_u_acute @ ''mero de patas: '' @ py_str_int patas @ nl @
               ind @ ''Temperatura corporal: '' @ py_str_decimas t @ utf8_degree @ ''C'' @ nl @ ind)
      | _ \<Rightarrow> Inl (AttributeError ''tipo_pelaje''))"

definition oviparo_poner_huevos :: "int \<Rightarrow> animal \<Rightarrow> string" where
  "oviparo_poner_huevos cantidad a =
     nombre a @ '' ha puesto '' @ py_str_int cantidad @ '' huevo(s) '' @ [CHR 0xF0, CHR 0x9F, CHR 0xA5, CHR 0x9A]"

definition oviparo_incubar :: "int \<Rightarrow> animal \<Rightarrow> string" where
  "oviparo_incubar dias a =
     nombre a @ '' est'' @ utf8_a_acute @ '' incubando sus huevos por '' @ py_str_int dias @
     '' d'' @ utf8_i_acute @ ''as''"

definition oviparo_moverse :: "animal \<Rightarrow> animal_exc + string" where
  "oviparo_moverse a =
     (case atributos a of
        OviparoDatos _ vuela _ \<Rightarrow>
          Inr (if vuela then nombre a @ '' vuela por el cielo '' @ emoji_aguila
               else nombre a @ '' se mueve por tierra'')
      | _ \<Rightarrow> Inl (AttributeError ''puede_volar''))"

definition oviparo_obtener_info :: "animal \<Rightarrow> animal_exc + string" where
  "oviparo_obtener_info a =
     (case atributos a of
        OviparoDatos huevo vuela _ \<Rightarrow>
          Inr (animal_obtener_info a @
               ind @ ''Tipo de huevo: '' @ huevo @ nl @
               ind @ ''Puede volar: '' @ (if vuela then ''S'' @ utf8_i_acute else ''No'') @ nl @ ind)
      | _ \<Rightarrow> Inl (AttributeError ''tipo_huevo''))"

definition perro_hacer_sonido :: "animal \<Rightarrow> string" where
  "perro_hacer_sonido a =
     nombre a @ '' dice: '' @ utf8_excl @ ''Guau guau! '' @ [CHR 0xF0, CHR 0x9F, CHR 0x90, CHR 0x95]"

definition perro_mover_cola :: "animal \<Rightarrow> string" where
  "perro_mover_cola a = nombre a @ '' mueve la cola felizmente '' @ emoji_huellas"

text \<open>\<open>aprender_truco\<close> appends to \<open>self.trucos\<close>, the one mutation of the module
  after construction.\<close>

definition perro_aprender_truco :: "string \<Rightarrow> animal \<Rightarrow> animal_exc + string \<times> animal" where
  "perro_aprender_truco truco a =
     (case atributos a of
        MamiferoDatos pelaje patas t (PerroDatos raza trucos) \<Rightarrow>
          Inr (nombre a @ '' aprendi'' @ utf8_o_acute @ '' el truco: '' @ truco,
               a\<lparr>atributos := MamiferoDatos pelaje patas t (PerroDatos raza (trucos @ [truco]))\<rparr>)
      | _ \<Rightarrow> Inl (AttributeError ''trucos''))"

text \<open>\<open>hacer_truco\<close>: \<open>random.choice(self.trucos)\<close> returns the element at the index
  the generator draws; the draw \<open>i\<close> is an input, taken modulo the length.\<close>

definition perro_hacer_truco :: "nat \<Rightarrow> animal \<Rightarrow> animal_exc + string" where
  "perro_hacer_truco i a =
     (case atributos a of
        MamiferoDatos _ _ _ (PerroDatos _ trucos) \<Rightarrow>
          Inr (if trucos \<noteq> []
               then nombre a @ '' hace el truco: '' @ trucos ! (i mod length trucos) @ '' '' @
                    [CHR 0xE2, CHR 0xAD, CHR 0x90]
               else nombre a @ '' a'' @ utf8_u_acute @ ''n no sabe trucos'')
      | _ \<Rightarrow> Inl (AttributeError ''trucos''))"

definition gato_hacer_sonido :: "animal \<Rightarrow> string" where
  "gato_hacer_sonido a =
     nombre a @ '' dice: '' @ utf8_excl @ ''Miau miau! '' @ [CHR 0xF0, CHR 0x9F, CHR 0x90, CHR 0xB1]"

definition gato_ronronear :: "animal \<Rightarrow> string" where
  "gato_ronronear a = nombre a @ '' ronronea contento '' @ [CHR 0xF0, CHR 0x9F, CHR 0x98, CHR 0xBA]"

definition gato_aranar :: "string \<Rightarrow> animal \<Rightarrow> string" where
  "gato_aranar objeto a =
     nombre a @ '' est'' @ utf8_a_acute @ '' ara'' @ utf8_n_tilde @ ''ando '' @ objeto @ '' '' @ emoji_huellas"

definition gato_cazar :: "animal \<Rightarrow> string" where
  "gato_cazar a = nombre a @ '' est'' @ utf8_a_acute @ '' cazando '' @ [CHR 0xF0, CHR 0x9F, CHR 0x90, CHR 0xAD]"

definition aguila_hacer_sonido :: "animal \<Rightarrow> string" where
  "aguila_hacer_sonido a = nombre a @ '' grita: '' @ utf8_excl @ ''Screeee! '' @ emoji_aguila"

definition aguila_cazar_desde_aire :: "animal \<Rightarrow> string" where
  "aguila_cazar_desde_aire a =
     nombre a @ '' caza desde el aire con precisi'' @ utf8_o_acute @ ''n '' @ [CHR 0xF0, CHR 0x9F, CHR 0x8E, CHR 0xAF]"

definition aguila_volar_alto :: "animal \<Rightarrow> animal_exc + string" where
  "aguila_volar_alto a =
     (case atributos a of
        OviparoDatos _ _ (AguilaDatos _ altura) \<Rightarrow>
          Inr (nombre a @ '' vuela hasta '' @ py_str_int altura @ ''m de altura'')
      | _ \<Rightarrow> Inl (AttributeError ''altura_vuelo_max''))"

definition pinguino_hacer_sonido :: "animal \<Rightarrow> string" where
  "pinguino_hacer_sonido a =
     nombre a @ '' grazna: '' @ utf8_excl @ ''Honk honk! '' @ [CHR 0xF0, CHR 0x9F, CHR 0x90, CHR 0xA7]"

definition pinguino_nadar :: "animal \<Rightarrow> animal_exc + string" where
  "pinguino_nadar a =
     (case atributos a of
        OviparoDatos _ _ (PinguinoDatos _ velocidad) \<Rightarrow>
          Inr (nombre a @ '' nada a '' @ py_str_int velocidad @ '' km/h '' @ [CHR 0xF0, CHR 0x9F, CHR 0x8F, CHR 0x8A])
      | _ \<Rightarrow> Inl (AttributeError ''velocidad_nado''))"

definition pinguino_deslizarse :: "animal \<Rightarrow> string" where
  "pinguino_deslizarse a =
     nombre a @ '' se desliza sobre su panza en el hielo '' @
     [CHR 0xE2, CHR 0x9B, CHR 0xB8, CHR 0xEF, CHR 0xB8, CHR 0x8F]"

text \<open>\<open>AnimalConLog.comer\<close> extends \<open>super().comer(alimento)\<close> with a log line.\<close>

definition animal_con_log_comer :: "string \<Rightarrow> animal \<Rightarrow> string" where
  "animal_con_log_comer alimento a =
     animal_comer alimento a @ nl @ ''[LOG] '' @ nombre a @ '' comi'' @ utf8_o_acute @ '' '' @ alimento"

section \<open>Method lookup and calls\<close>

text \<open>The calls a program can make, with their arguments. \<open>HacerTruco i\<close> carries
  the random draw.\<close>

datatype metodo =
    Comer string | Dormir | HacerSonido | Moverse | ObtenerInfo | Str
  | Amamantar | RegularTemperatura
  | PonerHuevos int | Incubar int
  | MoverCola | AprenderTruco string | HacerTruco nat
  | Ronronear | Aranar string | Cazar
  | CazarDesdeAire | VolarAlto
  | Nadar | Deslizarse

fun metodo_nombre :: "metodo \<Rightarrow> string" where
  "metodo_nombre (Comer _) = ''comer''"
| "metodo_nombre Dormir = ''dormir''"
| "metodo_nombre HacerSonido = ''hacer_sonido''"
| "metodo_nombre Moverse = ''moverse''"
| "metodo_nombre ObtenerInfo = ''obtener_info''"
| "metodo_nombre Str = ''__str__''"
| "metodo_nombre Amamantar = ''amamantar''"
| "metodo_nombre RegularTemperatura = ''regular_temperatura''"
| "metodo_nombre (PonerHuevos _) = ''poner_huevos''"
| "metodo_nombre (Incubar _) = ''incubar''"
| "metodo_nombre MoverCola = ''mover_cola''"
| "metodo_nombre (AprenderTruco _) = ''aprender_truco''"
| "metodo_nombre (HacerTruco _) = ''hacer_truco''"
| "metodo_nombre Ronronear = ''ronronear''"
| "metodo_nombre (Aranar _) = ''ara'' @ utf8_n_tilde @ ''ar''"
| "metodo_nombre Cazar = ''cazar''"
| "metodo_nombre CazarDesdeAire = ''cazar_desde_aire''"
| "metodo_nombre VolarAlto = ''volar_alto''"
| "metodo_nombre Nadar = ''nadar''"
| "metodo_nombre Deslizarse = ''deslizarse''"

text \<open>The methods each class body defines (its \<open>__dict__\<close>, \<open>__init__\<close> apart).\<close>

fun definidos :: "clase \<Rightarrow> string list" where
  "definidos Animal = [''comer'', ''dormir'', ''hacer_sonido'', ''moverse'', ''obtener_info'', ''__str__'']"
| "definidos Mamifero = [''amamantar'', ''regular_temperatura'', ''moverse'', ''obtener_info'']"
| "definidos Oviparo = [''poner_huevos'', ''incubar'', ''moverse'', ''obtener_info'']"
| "definidos Perro = [''hacer_sonido'', ''mover_cola'', ''aprender_truco'', ''hacer_truco'']"
| "definidos Gato = [''hacer_sonido'', ''ronronear'', ''ara'' @ utf8_n_tilde @ ''ar'', ''cazar'']"
| "definidos Aguila = [''hacer_sonido'', ''cazar_desde_aire'', ''volar_alto'']"
| "definidos Pinguino = [''hacer_sonido'', ''nadar'', ''deslizarse'']"
| "definidos AnimalConLog = [''comer'']"

text \<open>Attribute lookup on the class: the first class of the MRO whose body defines the
  name.\<close>

definition resolver :: "clase \<Rightarrow> string \<Rightarrow> clase option" where
  "resolver c n = find (\<lambda>k. n \<in> set (definidos k)) (mro c)"

text \<open>The body each class defines for a method, run on the object: the value and
  the object after the call (only \<open>aprender_truco\<close> changes it).\<close>

abbreviation sin_cambio :: "animal \<Rightarrow> animal_exc + string \<Rightarrow> animal_exc + string \<times> animal" where
  "sin_cambio a r \<equiv> map_sum id (\<lambda>s. (s, a)) r"

definition no_definido :: "metodo \<Rightarrow> animal_exc + string \<times> animal" where
  "no_definido m = Inl (AttributeError (metodo_nombre m))"

definition cuerpo_animal :: "metodo \<Rightarrow> animal \<Rightarrow> animal_exc + string \<times> animal" where
  "cuerpo_animal m a =
     (case m of
        Comer x \<Rightarrow> Inr (animal_comer x a, a)
      | Dormir \<Rightarrow> Inr (animal_dormir a, a)
      | HacerSonido \<Rightarrow> Inr (animal_hacer_sonido a, a)
      | Moverse \<Rightarrow> Inr (animal_moverse a, a)
      | ObtenerInfo \<Rightarrow> Inr (animal_obtener_info a, a)
      | Str \<Rightarrow> Inr (animal_str a, a)
      | _ \<Rightarrow> no_definido m)"

definition cuerpo_mamifero :: "metodo \<Rightarrow> animal \<Rightarrow> animal_exc + string \<times> animal" where
  "cuerpo_mamifero m a =
     (case m of
        Amamantar \<Rightarrow> Inr (mamifero_amamantar a, a)
      | RegularTemperatura \<Rightarrow> sin_cambio a (mamifero_regular_temperatura a)
      | Moverse \<Rightarrow> sin_cambio a (mamifero_moverse a)
      | ObtenerInfo \<Rightarrow> sin_cambio a (mamifero_obtener_info a)
      | _ \<Rightarrow> no_definido m)"

definition cuerpo_oviparo :: "metodo \<Rightarrow> animal \<Rightarrow> animal_exc + string \<times> animal" where
  "cuerpo_oviparo m a =
     (case m of
        PonerHuevos n \<Rightarrow> Inr (oviparo_poner_huevos n a, a)
      | Incubar d \<Rightarrow> Inr (oviparo_incubar d a, a)
      | Moverse \<Rightarrow> sin_cambio a (oviparo_moverse a)
      | ObtenerInfo \<Rightarrow> sin_cambio a (oviparo_obtener_info a)
      | _ \<Rightarrow> no_definido m)"

definition cuerpo_perro :: "metodo \<Rightarrow> animal \<Rightarrow> animal_exc + string \<times> animal" where
  "cuerpo_perro m a =
     (case m of
        HacerSonido \<Rightarrow> Inr (perro_hacer_sonido a, a)
      | MoverCola \<Rightarrow> Inr (perro_mover_cola a, a)
      | AprenderTruco t \<Rightarrow> perro_aprender_truco t a
      | HacerTruco i \<Rightarrow> sin_cambio a (perro_hacer_truco i a)
      | _ \<Rightarrow> no_definido m)"

definition cuerpo_gato :: "metodo \<Rightarrow> animal \<Rightarrow> animal_exc + string \<times> animal" where
  "cuerpo_gato m a =
     (case m of
        HacerSonido \<Rightarrow> Inr (gato_hacer_sonido a, a)
      | Ronronear \<Rightarrow> Inr (gato_ronronear a, a)
      | Aranar x \<Rightarrow> Inr (gato_aranar x a, a)
      | Cazar \<Rightarrow> Inr (gato_cazar a, a)
      | _ \<Rightarrow> no_definido m)"

definition cuerpo_aguila :: "metodo \<Rightarrow> animal \<Rightarrow> animal_exc + string \<times> animal" where
  "cuerpo_aguila m a =
     (case m of
        HacerSonido \<Rightarrow> Inr (aguila_hacer_sonido a, a)
      | CazarDesdeAire \<Rightarrow> Inr (aguila_cazar_desde_aire a, a)
      | VolarAlto \<Rightarrow> sin_cambio a (aguila_volar_alto a)
      | _ \<Rightarrow> no_definido m)"

definition cuerpo_pinguino :: "metodo \<Rightarrow> animal \<Rightarrow> animal_exc + string \<times> animal" where
  "cuerpo_pinguino m a =
     (case m of
        HacerSonido \<Rightarrow> Inr (pinguino_hacer_sonido a, a)
      | Nadar \<Rightarrow> sin_cambio a (pinguino_nadar a)
      | Deslizarse \<Rightarrow> Inr (pinguino_deslizarse a, a)
      | _ \<Rightarrow> no_definido m)"

definition cuerpo_animal_con_log :: "metodo \<Rightarrow> animal \<Rightarrow> animal_exc + string \<times> animal" where
  "cuerpo_animal_con_log m a =
     (case m of Comer x \<Rightarrow> Inr (animal_con_log_comer x a, a) | _ \<Rightarrow> no_definido m)"

fun cuerpo :: "clase \<Rightarrow> metodo \<Rightarrow> animal \<Rightarrow> animal_exc + string \<times> animal" where
  "cuerpo Animal = cuerpo_animal"
| "cuerpo Mamifero = cuerpo_mamifero"
| "cuerpo Oviparo = cuerpo_oviparo"
| "cuerpo Perro = cuerpo_perro"
| "cuerpo Gato = cuerpo_gato"
| "cuerpo Aguila = cuerpo_aguila"
| "cuerpo Pinguino = cuerpo_pinguino"
| "cuerpo AnimalConLog = cuerpo_animal_con_log"

text \<open>\<open>obj.metodo(args)\<close>: \<open>AttributeError\<close> when no class of the MRO defines the
  name, otherwise the body found.\<close>

definition llamar :: "metodo \<Rightarrow> animal \<Rightarrow> animal_exc + string \<times> animal" where
  "llamar m a =
     (case resolver (clase_de a) (metodo_nombre m) of
        None \<Rightarrow> Inl (AttributeError (metodo_nombre m))
      | Some k \<Rightarrow> cuerpo k m a)"

section \<open>Programs over the classes\<close>

text \<open>The constructor calls a program can make, with Python's default arguments
  written out (\<open>numero_patas=4\<close>, \<open>puede_volar=False\<close>).\<close>

datatype animal_ctor =
    NuevoAnimal string int decimas
  | NuevoMamifero string int decimas string int
  | NuevoOviparo string int decimas string bool
  | NuevoPerro string int decimas string
  | NuevoGato string int decimas string
  | NuevoAguila string int decimas decimas
  | NuevoPinguino string int decimas string
  | NuevoAnimalConLog string int decimas

fun construir :: "animal_ctor \<Rightarrow> animal \<times> string list" where
  "construir (NuevoAnimal n e p) = animal_init n e p AnimalPropio"
| "construir (NuevoMamifero n e p pelaje patas) = mamifero_init n e p pelaje patas MamiferoPropio"
| "construir (NuevoOviparo n e p huevo vuela) = oviparo_init n e p huevo vuela OviparoPropio"
| "construir (NuevoPerro n e p raza) = perro_init n e p raza"
| "construir (NuevoGato n e p color) = gato_init n e p color"
| "construir (NuevoAguila n e p envergadura) = aguila_init n e p envergadura"
| "construir (NuevoPinguino n e p especie) = pinguino_init n e p especie"
| "construir (NuevoAnimalConLog n e p) = animal_init n e p AnimalConLogDatos"

text \<open>A program's objects, addressed by creation order, and the lines it has printed.\<close>

record zoo =
  animales :: "animal list"
  salida :: "string list"

definition zoo_inicial :: zoo where
  "zoo_inicial = \<lparr>animales = [], salida = []\<rparr>"

text \<open>The statements of the demonstrations: create an object; print a prefix and the
  value of a method call (\<open>print(f"  - {a.hacer_sonido()}")\<close>); print the value of
  \<open>isinstance\<close>; print \<open>f"  - {a}"\<close> for the objects of a list that are instances of a
  class (the comprehension of \<open>demostrar_isinstance_y_herencia\<close>). Formatting an object
  calls its \<open>__str__\<close>, which every class inherits from \<open>Animal\<close>.\<close>

datatype zoo_op =
    Nuevo animal_ctor
  | Imprimir string addr metodo
  | ImprimirIsinstance string addr clase
  | ImprimirFiltrados "addr list" clase

fun zoo_step :: "zoo_op \<Rightarrow> zoo \<Rightarrow> animal_exc + zoo" where
  "zoo_step (Nuevo c) z =
     (let (a, out) = construir c in Inr (z\<lparr>animales := animales z @ [a], salida := salida z @ out\<rparr>))"
| "zoo_step (Imprimir pre i m) z =
     (case llamar m (animales z ! i) of
        Inl x \<Rightarrow> Inl x
      | Inr (s, a) \<Rightarrow> Inr (z\<lparr>animales := (animales z)[i := a], salida := salida z @ [pre @ s]\<rparr>))"
| "zoo_step (ImprimirIsinstance pre i k) z =
     Inr (z\<lparr>salida := salida z @ [pre @ (if isinstance (animales z ! i) k then ''True'' else ''False'')]\<rparr>)"
| "zoo_step (ImprimirFiltrados is k) z =
     Inr (z\<lparr>salida := salida z @
             map (\<lambda>i. ''  - '' @ animal_str (animales z ! i)) (filter (\<lambda>i. isinstance (animales z ! i) k) is)\<rparr>)"

text \<open>Statements run in order; an uncaught exception ends the program.\<close>

fun zoo_run :: "zoo_op list \<Rightarrow> zoo \<Rightarrow> animal_exc + zoo" where
  "zoo_run [] z = Inr z"
| "zoo_run (op # ops) z = (case zoo_step op z of Inl x \<Rightarrow> Inl x | Inr z' \<Rightarrow> zoo_run ops z')"

inductive zoo_reachable :: "zoo \<Rightarrow> bool" where
  inicio: "zoo_reachable zoo_inicial"
| paso: "zoo_reachable z \<Longrightarrow> zoo_step op z = Inr z' \<Longrightarrow> zoo_reachable z'"

text \<open>What the constructors fix and no method changes: the state \<open>vivo\<close>, the body
  temperature of a mammal, the fur and legs of dogs and cats and the lives of a cat,
  the eggs and flight of eagles and penguins, an eagle's ceiling and a penguin's
  swimming speed.\<close>

definition animal_ok :: "animal \<Rightarrow> bool" where
  "animal_ok a \<longleftrightarrow> estado a = ''vivo'' \<and>
     (case atributos a of
        MamiferoDatos pelaje patas t sub \<Rightarrow> t = 370 \<and>
          (case sub of
             PerroDatos _ _ \<Rightarrow> pelaje = ''corto'' \<and> patas = 4
           | GatoDatos _ vidas \<Rightarrow> pelaje = ''suave'' \<and> patas = 4 \<and> vidas = 7
           | MamiferoPropio \<Rightarrow> True)
      | OviparoDatos huevo vuela sub \<Rightarrow>
          (case sub of
             AguilaDatos _ altura \<Rightarrow> huevo = ''cascara dura'' \<and> vuela \<and> altura = 3000
           | PinguinoDatos _ velocidad \<Rightarrow> huevo = ''cascara dura'' \<and> \<not> vuela \<and> velocidad = 25
           | OviparoPropio \<Rightarrow> True)
      | _ \<Rightarrow> True)"

section \<open>The demonstrations\<close>

text \<open>Each demonstration function is a program of its own: its objects are its local
  variables, which no other function sees, so each runs from an empty store. Only
  the lines that print objects or method values are modelled, not the banners.\<close>

definition demostrar_herencia_basica :: "zoo_op list" where
  "demostrar_herencia_basica =
     [Nuevo (NuevoAnimal ''Criatura'' 5 100),
      Imprimir [] 0 (Comer ''comida''), Imprimir [] 0 HacerSonido, Imprimir [] 0 Moverse,
      Nuevo (NuevoMamifero ''Bestia'' 3 500 ''largo'' 4),
      Imprimir [] 1 (Comer ''carne''), Imprimir [] 1 Amamantar, Imprimir [] 1 Moverse,
      Nuevo (NuevoOviparo ''Volador'' 2 50 ''cascara blanda'' True),
      Imprimir [] 2 (Comer ''insectos''), Imprimir [] 2 (PonerHuevos 3), Imprimir [] 2 Moverse]"

definition demostrar_herencia_multinivel :: "nat \<Rightarrow> zoo_op list" where
  "demostrar_herencia_multinivel i =
     [Nuevo (NuevoPerro ''Max'' 5 250 ''Labrador''),
      Imprimir [] 0 (Comer ''croquetas''), Imprimir [] 0 Dormir,
      Imprimir [] 0 Amamantar, Imprimir [] 0 RegularTemperatura,
      Imprimir [] 0 HacerSonido, Imprimir [] 0 MoverCola,
      Imprimir [] 0 (AprenderTruco ''sentarse''), Imprimir [] 0 (AprenderTruco ''dar la pata''),
      Imprimir [] 0 (HacerTruco i), Imprimir [] 0 ObtenerInfo]"

definition demostrar_polimorfismo_con_herencia :: "zoo_op list" where
  "demostrar_polimorfismo_con_herencia =
     [Nuevo (NuevoPerro ''Luna'' 3 200 (''Pastor Alem'' @ utf8_a_acute @ ''n'')),
      Nuevo (NuevoGato ''Michi'' 2 45 ''naranja''),
      Nuevo (NuevoAguila ([CHR 0xC3, CHR 0x81] @ ''guila Real'') 4 60 23),
      Nuevo (NuevoPinguino ''Pingu'' 1 150 ''Emperador'')] @
     concat (map (\<lambda>i. [Imprimir nl i Str, Imprimir ''  - '' i HacerSonido, Imprimir ''  - '' i Moverse,
                        Imprimir ''  - '' i (Comer ''su alimento favorito'')]) [0, 1, 2, 3])"

definition demostrar_isinstance_y_herencia :: "zoo_op list" where
  "demostrar_isinstance_y_herencia =
     [Nuevo (NuevoPerro ''Rocky'' 4 300 ''Rottweiler''),
      Nuevo (NuevoGato ''Pelusa'' 3 50 ''blanco''),
      Nuevo (NuevoAguila (''Halc'' @ utf8_o_acute @ ''n'') 2 40 18),
      ImprimirIsinstance ''perro es Perro: '' 0 Perro,
      ImprimirIsinstance ''perro es Mamifero: '' 0 Mamifero,
      ImprimirIsinstance ''perro es Animal: '' 0 Animal,
      ImprimirIsinstance ''perro es Oviparo: '' 0 Oviparo,
      ImprimirIsinstance (nl @ ''aguila es Aguila: '') 2 Aguila,
      ImprimirIsinstance ''aguila es Oviparo: '' 2 Oviparo,
      ImprimirIsinstance ''aguila es Animal: '' 2 Animal,
      ImprimirIsinstance ''aguila es Mamifero: '' 2 Mamifero,
      ImprimirFiltrados [0, 1, 2] Mamifero,
      ImprimirFiltrados [0, 1, 2] Oviparo]"

definition demostrar_uso_super :: "zoo_op list" where
  "demostrar_uso_super = [Nuevo (NuevoAnimalConLog ''Logger'' 2 150), Imprimir [] 0 (Comer ''frutas'')]"

text \<open>\<open>__main__\<close>: the five demonstrations in order, the output of each appended;
  \<open>i\<close> is the draw of \<open>random.choice\<close>.\<close>

definition animales_main :: "nat \<Rightarrow> animal_exc + string list" where
  "animales_main i =
     (let progs = [demostrar_herencia_basica, demostrar_herencia_multinivel i,
                   demostrar_polimorfismo_con_herencia, demostrar_isinstance_y_herencia,
                   demostrar_uso_super]
      in fold (\<lambda>p acc. case acc of Inl x \<Rightarrow> Inl x
                 | Inr out \<Rightarrow> (case zoo_run p zoo_inicial of Inl x \<Rightarrow> Inl x | Inr z \<Rightarrow> Inr (out @ salida z)))
              progs (Inr []))"

section \<open>Lemmas and properties\<close>

lemma resolver_Some: "resolver c n = Some k \<Longrightarrow> c \<le> k \<and> n \<in> set (definidos k)"
  by (auto simp: resolver_def less_eq_clase_def find_Some_iff)

lemma clase_le_Mamifero: "clase_datos d \<le> Mamifero \<Longrightarrow> \<exists>p n t s. d = MamiferoDatos p n t s"
  by (cases d rule: clase_datos.cases) (simp_all add: less_eq_clase_def mro.simps)

lemma clase_le_Oviparo: "clase_datos d \<le> Oviparo \<Longrightarrow> \<exists>h v s. d = OviparoDatos h v s"
  by (cases d rule: clase_datos.cases) (simp_all add: less_eq_clase_def mro.simps)

lemma clase_le_Perro: "clase_datos d \<le> Perro \<Longrightarrow> \<exists>p n t r ts. d = MamiferoDatos p n t (PerroDatos r ts)"
  by (cases d rule: clase_datos.cases) (simp_all add: less_eq_clase_def mro.simps)

lemma clase_le_Aguila: "clase_datos d \<le> Aguila \<Longrightarrow> \<exists>h v e al. d = OviparoDatos h v (AguilaDatos e al)"
  by (cases d rule: clase_datos.cases) (simp_all add: less_eq_clase_def mro.simps)

lemma clase_le_Pinguino: "clase_datos d \<le> Pinguino \<Longrightarrow> \<exists>h v e ve. d = OviparoDatos h v (PinguinoDatos e ve)"
  by (cases d rule: clase_datos.cases) (simp_all add: less_eq_clase_def mro.simps)

lemmas cuerpo_defs = cuerpo_animal_def cuerpo_mamifero_def cuerpo_oviparo_def cuerpo_perro_def
  cuerpo_gato_def cuerpo_aguila_def cuerpo_pinguino_def cuerpo_animal_con_log_def

lemmas atributo_defs = mamifero_regular_temperatura_def mamifero_moverse_def mamifero_obtener_info_def
  oviparo_moverse_def oviparo_obtener_info_def perro_aprender_truco_def perro_hacer_truco_def
  aguila_volar_alto_def pinguino_nadar_def

lemma cuerpo_definido:
  assumes "metodo_nombre m \<in> set (definidos k)" "clase_datos (atributos a) \<le> k"
  shows "\<exists>r. cuerpo k m a = Inr r"
  using assms
  by (cases k) (auto simp: cuerpo_defs atributo_defs split: metodo.splits
      dest!: clase_le_Mamifero clase_le_Oviparo clase_le_Perro clase_le_Aguila clase_le_Pinguino)


text \<open>C30 (type): a method call raises only when Python's attribute lookup finds no class of the object's MRO defining the method, and then raises \<open>AttributeError\<close> with the method's name; every body the lookup selects reads only attributes the constructors of the object's class have set, so a resolved call never fails.\<close>

theorem llamar_error_sii_no_resuelto:
  "llamar m a = Inl x \<longleftrightarrow>
     resolver (clase_de a) (metodo_nombre m) = None \<and> x = AttributeError (metodo_nombre m)"
proof (cases "resolver (clase_de a) (metodo_nombre m)")
  case None
  then show ?thesis by (auto simp: llamar_def)
next
  case (Some k)
  with resolver_Some [OF Some] cuerpo_definido [of m k a] show ?thesis
    by (auto simp: llamar_def clase_de_def)
qed


lemma construir_ok: "animal_ok (fst (construir c))"
  by (cases c) (simp_all add: animal_ok_def animal_init_def mamifero_init_def oviparo_init_def perro_init_def
      gato_init_def aguila_init_def pinguino_init_def)


lemma sin_cambio_Inr: "map_sum id (\<lambda>s. (s, a)) r = Inr (s, a') \<Longrightarrow> a' = a"
  by (cases r) auto


lemma cuerpo_objeto:
  "cuerpo k m a = Inr (s, a') \<Longrightarrow> a' = a \<or> (\<exists>t. perro_aprender_truco t a = Inr (s, a'))"
  by (cases k) (auto simp: cuerpo_defs no_definido_def split: metodo.splits dest: sin_cambio_Inr)


lemma aprender_truco_conserva:
  "perro_aprender_truco t a = Inr (s, a') \<Longrightarrow>
     animal_ok a' = animal_ok a \<and> nombre a' = nombre a \<and> clase_de a' = clase_de a"
  by (auto simp: perro_aprender_truco_def animal_ok_def clase_de_def
      split: animal_datos.splits mamifero_sub.splits)


lemma cuerpo_conserva:
  "cuerpo k m a = Inr (s, a') \<Longrightarrow>
     animal_ok a' = animal_ok a \<and> nombre a' = nombre a \<and> clase_de a' = clase_de a"
  by (auto dest!: cuerpo_objeto aprender_truco_conserva)


lemma llamar_conserva:
  "llamar m a = Inr (s, a') \<Longrightarrow>
     animal_ok a' = animal_ok a \<and> nombre a' = nombre a \<and> clase_de a' = clase_de a"
  by (auto simp: llamar_def split: option.splits dest: cuerpo_conserva)


lemma zoo_step_ok:
  "zoo_step op z = Inr z' \<Longrightarrow> \<forall>a \<in> set (animales z). animal_ok a \<Longrightarrow> \<forall>a \<in> set (animales z'). animal_ok a"
proof (cases op)
  case (Nuevo c)
  moreover assume "zoo_step op z = Inr z'" "\<forall>a \<in> set (animales z). animal_ok a"
  ultimately show ?thesis using construir_ok [of c] by (auto simp: case_prod_beta)
next
  case (Imprimir pre i m)
  moreover assume "zoo_step op z = Inr z'" "\<forall>a \<in> set (animales z). animal_ok a"
  ultimately show ?thesis
    by (cases "i < length (animales z)") (auto simp: list_update_beyond split: sum.splits dest!: llamar_conserva set_update_subset_insert [THEN subsetD])
qed auto


lemma zoo_reachable_ok: "zoo_reachable z \<Longrightarrow> \<forall>a \<in> set (animales z). animal_ok a"
  by (induction rule: zoo_reachable.induct) (auto simp: zoo_inicial_def dest: zoo_step_ok)


text \<open>C31 (invariant): in every state a program can reach, every object is still \<open>vivo\<close>, and \<open>moverse()\<close>, through the overrides of \<open>Mamifero\<close> and \<open>Oviparo\<close>, makes every dog and cat walk on four legs, every eagle fly and every penguin walk, because the constructors fix those attributes and no method changes them.\<close>

theorem zoo_moverse:
  "zoo_reachable z \<Longrightarrow> a \<in> set (animales z) \<Longrightarrow>
     estado a = ''vivo'' \<and>
     (clase_de a \<in> {Perro, Gato} \<longrightarrow> llamar Moverse a = Inr (nombre a @ '' camina sobre sus 4 patas'', a)) \<and>
     (clase_de a = Aguila \<longrightarrow> llamar Moverse a = Inr (nombre a @ '' vuela por el cielo '' @ emoji_aguila, a)) \<and>
     (clase_de a = Pinguino \<longrightarrow> llamar Moverse a = Inr (nombre a @ '' se mueve por tierra'', a))"
proof -
  assume "zoo_reachable z" "a \<in> set (animales z)"
  with zoo_reachable_ok have ok: "animal_ok a" by blast
  show ?thesis using ok
    by (cases "atributos a" rule: clase_datos.cases)
      (simp_all add: animal_ok_def llamar_def resolver_def mro.simps clase_de_def cuerpo_defs
        mamifero_moverse_def oviparo_moverse_def py_str_int_def)
qed

text \<open>C32 (functional): \<open>obtener_info()\<close> is defined for every object and always extends the text of \<open>Animal.obtener_info\<close> (the \<open>super()\<close> call of the overrides); it adds to it exactly for the objects of the subclasses that override it.\<close>

theorem obtener_info_extiende:
  "\<exists>s. llamar ObtenerInfo a = Inr (s, a) \<and> prefix (animal_obtener_info a) s \<and>
       (s = animal_obtener_info a \<longleftrightarrow> clase_de a \<in> {Animal, AnimalConLog})"
  by (cases "atributos a" rule: clase_datos.cases)
    (simp_all add: llamar_def resolver_def mro.simps clase_de_def cuerpo_defs
      mamifero_obtener_info_def oviparo_obtener_info_def)

text \<open>The indentation of the text \<open>Mamifero.obtener_info\<close> adds: its first line follows
  the newline of the base text after sixteen spaces, not eight.\<close>

lemma obtener_info_sangria:
  "sublist (nl @ replicate 16 (CHR '' '') @ ''Tipo de pelaje: corto'')
     (fst (projr (llamar ObtenerInfo (fst (perro_init ''Max'' 5 250 ''Labrador'')))))"
  by code_simp

lemma hacer_truco_aprendido:
  "atributos a = MamiferoDatos p n t (PerroDatos r ts) \<Longrightarrow> ts \<noteq> [] \<Longrightarrow>
     \<exists>tr \<in> set ts. llamar (HacerTruco i) a = Inr (nombre a @ '' hace el truco: '' @ tr @ '' '' @ [CHR 0xE2, CHR 0xAD, CHR 0x90], a)"
  by (simp add: llamar_def resolver_def mro.simps clase_de_def cuerpo_defs perro_hacer_truco_def)

lemma zoo_run_reachable: "zoo_reachable z \<Longrightarrow> zoo_run ops z = Inr z' \<Longrightarrow> zoo_reachable z'"
proof (induction ops arbitrary: z)
  case (Cons op ops)
  then show ?case by (auto split: sum.splits intro: zoo_reachable.paso)
qed simp

text \<open>For both outcomes of \<open>random.choice\<close> over the two tricks Max learns, the \<open>__main__\<close> block runs to completion, prints the trick drawn, and the \<open>isinstance\<close> demonstration prints the type checks and the filtered lists shown in the source.\<close>

lemma animales_main_salida:
  "i < 2 \<Longrightarrow>
   (case animales_main i of
      Inl _ \<Rightarrow> False
    | Inr out \<Rightarrow>
        ''Max hace el truco: '' @ [''sentarse'', ''dar la pata''] ! i @ '' '' @ [CHR 0xE2, CHR 0xAD, CHR 0x90]
          \<in> set out \<and>
        take 11 (drop 64 out) =
          [''perro es Perro: True'', ''perro es Mamifero: True'', ''perro es Animal: True'',
           ''perro es Oviparo: False'', nl @ ''aguila es Aguila: True'', ''aguila es Oviparo: True'',
           ''aguila es Animal: True'', ''aguila es Mamifero: False'',
           ''  - Perro: Rocky'', ''  - Gato: Pelusa'', ''  - Aguila: Halc'' @ utf8_o_acute @ ''n''])"
proof -
  assume "i < 2"
  then have "i = 0 \<or> i = 1" by arith
  then show ?thesis
  proof
    assume "i = 0"
    then show ?thesis by hypsubst code_simp
  next
    assume "i = 1"
    then show ?thesis by hypsubst code_simp
  qed
qed

theorem zoo_moverse_witness:
  "let z = projr (zoo_run demostrar_polimorfismo_con_herencia zoo_inicial) in
     llamar Moverse (animales z ! 3) = Inr (''Pingu se mueve por tierra'', animales z ! 3)"
proof -
  define z where "z = projr (zoo_run demostrar_polimorfismo_con_herencia zoo_inicial)"
  have run: "zoo_run demostrar_polimorfismo_con_herencia zoo_inicial = Inr z"
    unfolding z_def by code_simp
  have r: "zoo_reachable z" by (rule zoo_run_reachable [OF zoo_reachable.inicio run])
  have m: "animales z ! 3 \<in> set (animales z)" unfolding z_def by code_simp
  have c: "clase_de (animales z ! 3) = Pinguino" "nombre (animales z ! 3) = ''Pingu''"
    unfolding z_def by code_simp+
  from zoo_moverse [OF r m] c show ?thesis by (simp add: z_def [symmetric])
qed

end
