(* ===== verification/Instanciacion.thy ===== *)
theory Instanciacion
  imports Persona Curso_Estudiante
begin

text \<open>
  \<^verbatim>\<open>src/3_Instanciacion/instanciacion_ejemplos.py\<close>: the local classes \<open>Producto\<close>
  (a constructor with default arguments) and \<open>Fecha\<close> (factory class methods), and
  the seven demonstrations, which instantiate \<open>Persona\<close> and \<open>Estudiante\<close>/\<open>Curso\<close>
  of the earlier modules through the models of \<open>Persona\<close> and \<open>Curso_Estudiante\<close>.
  \<open>Fecha.desde_string\<close> uses \<open>str.split\<close> and \<open>int()\<close>, modelled here on the ASCII
  characters. \<open>datetime.now()\<close> is an input, and \<open>id()\<close> of an object, an address
  chosen by the interpreter, is not printed by the model.
\<close>

section \<open>Python builtins used by the factory method\<close>

datatype inst_exc = ValueError

text \<open>\<open>s.split(sep)\<close> with a one-character separator: every occurrence separates,
  empty pieces are kept.\<close>

fun py_split :: "char \<Rightarrow> string \<Rightarrow> string list" where
  "py_split c [] = [[]]"
| "py_split c (x # xs) =
     (if x = c then [] # py_split c xs else (let r = py_split c xs in (x # hd r) # tl r))"

definition py_es_digito :: "char \<Rightarrow> bool" where
  "py_es_digito c \<longleftrightarrow> (48::nat) \<le> of_char c \<and> of_char c \<le> (57::nat)"

definition py_valor_decimal :: "string \<Rightarrow> int" where
  "py_valor_decimal ds = foldl (\<lambda>n c. 10 * n + int (of_char c - 48)) 0 (filter py_es_digito ds)"

text \<open>The digits \<open>int()\<close> accepts in base 10: at least one, single underscores
  between digits only.\<close>

definition py_decimal_ok :: "string \<Rightarrow> bool" where
  "py_decimal_ok ds \<longleftrightarrow>
     ds \<noteq> [] \<and> py_es_digito (hd ds) \<and> py_es_digito (last ds) \<and>
     list_all (\<lambda>c. py_es_digito c \<or> c = CHR ''_'') ds \<and> \<not> sublist ''__'' ds"

text \<open>\<open>int(s)\<close> of a string: surrounding whitespace, an optional sign, decimal
  digits; \<open>None\<close> is the \<open>ValueError\<close> it raises otherwise.\<close>

definition py_int :: "string \<Rightarrow> int option" where
  "py_int s =
     (let t = py_strip s in
      case t of
        [] \<Rightarrow> None
      | c # ds \<Rightarrow>
          if c = CHR ''-'' then (if py_decimal_ok ds then Some (- py_valor_decimal ds) else None)
          else if c = CHR ''+'' then (if py_decimal_ok ds then Some (py_valor_decimal ds) else None)
          else if py_decimal_ok t then Some (py_valor_decimal t) else None)"

text \<open>\<open>f"{n:02d}"\<close>: the sign, zeros up to a width of two, the digits.\<close>

definition py_fmt_02d :: "int \<Rightarrow> string" where
  "py_fmt_02d n =
     (let s = py_digits (nat \<bar>n\<bar>); sg = (if n < 0 then ''-'' else [])
      in sg @ replicate (2 - length (sg @ s)) (CHR ''0'') @ s)"

section \<open>Producto\<close>

record producto =
  prod_nombre :: string
  precio :: decimas
  cantidad :: int
  categoria :: string

text \<open>\<open>Producto(nombre, precio, cantidad=1, categoria="General")\<close>: an omitted
  argument is \<open>None\<close> and takes its default; keyword arguments in any order bind the
  same parameters.\<close>

definition Producto :: "string \<Rightarrow> decimas \<Rightarrow> int option \<Rightarrow> string option \<Rightarrow> producto" where
  "Producto n p c cat =
     \<lparr>prod_nombre = n, precio = p, cantidad = (case c of None \<Rightarrow> 1 | Some k \<Rightarrow> k),
      categoria = (case cat of None \<Rightarrow> ''General'' | Some k \<Rightarrow> k)\<rparr>"

definition producto_str :: "producto \<Rightarrow> string" where
  "producto_str p =
     prod_nombre p @ '' - $'' @ py_str_decimas (precio p) @ '' (Stock: '' @ py_str_int (cantidad p) @
     '') ['' @ categoria p @ '']''"

section \<open>Fecha\<close>

record fecha =
  dia :: int
  mes :: int
  anio :: int

definition Fecha :: "int \<Rightarrow> int \<Rightarrow> int \<Rightarrow> fecha" where
  "Fecha d m a = \<lparr>dia = d, mes = m, anio = a\<rparr>"

text \<open>\<open>Fecha.desde_string\<close>: unpacking \<open>map(int, s.split('-'))\<close> into day, month and year raises
  \<open>ValueError\<close> when a piece is not an integer or there are not exactly three.\<close>

definition desde_string :: "string \<Rightarrow> inst_exc + fecha" where
  "desde_string s =
     (case map py_int (py_split (CHR ''-'') s) of
        [Some d, Some m, Some a] \<Rightarrow> Inr (Fecha d m a)
      | _ \<Rightarrow> Inl ValueError)"

text \<open>\<open>Fecha.hoy()\<close> reads the clock: the day, month and year of \<open>datetime.now()\<close>
  are its input.\<close>

definition fecha_hoy :: "int \<times> int \<times> int \<Rightarrow> fecha" where
  "fecha_hoy ahora = (case ahora of (d, m, a) \<Rightarrow> Fecha d m a)"

definition anio_nuevo :: "int \<Rightarrow> fecha" where
  "anio_nuevo a = Fecha 1 1 a"

definition fecha_str :: "fecha \<Rightarrow> string" where
  "fecha_str f = py_fmt_02d (dia f) @ ''/'' @ py_fmt_02d (mes f) @ ''/'' @ py_str_int (anio f)"

section \<open>The demonstrations\<close>

text \<open>The class attribute of \<open>Persona\<close> and the objects of \<open>Curso_Estudiante\<close> are
  shared by all the demonstrations, so each takes and returns the \<open>persona_mundo\<close>
  and the \<open>aula\<close> of those models; each returns the lines it prints that show objects
  or values (the banners, and the lines showing \<open>id()\<close>, are left out). An object's
  identity (\<open>is\<close>) is its address.\<close>

definition py_bool :: "bool \<Rightarrow> string" where
  "py_bool b = (if b then ''True'' else ''False'')"

abbreviation utf8_abre_pregunta :: string where "utf8_abre_pregunta \<equiv> [CHR 0xC2, CHR 0xBF]"
abbreviation check :: string where "check \<equiv> [CHR 0xE2, CHR 0x9C, CHR 0x93]"
abbreviation comilla :: string where "comilla \<equiv> [CHR 0x27]"

definition demostrar_instanciacion_basica :: "persona_mundo \<Rightarrow> string list \<times> persona_mundo" where
  "demostrar_instanciacion_basica w0 =
     (let a1 = length (personas w0);
          (p1, w1) = Persona (''Diego '' @ [CHR 0xC3, CHR 0x81] @ ''lvarez'') 30 ''456789123'' w0;
          a2 = length (personas w1);
          (p2, w2) = Persona (''Laura Jim'' @ utf8_e_acute @ ''nez'') 28 ''789456123'' w1;
          a3 = length (personas w2);
          (p3, w3) = Persona ''Roberto Silva'' 35 ''321654987'' w2
      in ([''Objeto creado: '' @ persona_str p1,
           ''Tipo: <class '' @ comilla @ ''persona.Persona'' @ comilla @ ''>'',
           ''Objeto creado: '' @ persona_str p2,
           ''Objeto creado: '' @ persona_str p3,
           utf8_abre_pregunta @ ''persona1 es persona2? '' @ py_bool (a1 = a2),
           utf8_abre_pregunta @ ''persona1 es persona3? '' @ py_bool (a1 = a3),
           utf8_abre_pregunta @ ''Todas son instancias de Persona? '' @ py_bool True],
          w3))"

text \<open>\<open>demostrar_instanciacion_multiple\<close>: five students created in a loop, then a
  grade for each of the first three (the printing of the grade dictionaries is not
  modelled).\<close>

definition datos_estudiantes :: "(string \<times> string \<times> string) list" where
  "datos_estudiantes =
     [(''Pedro Ram'' @ utf8_i_acute @ ''rez'', ''EST101'', ''pedro@email.com''),
      (''Sof'' @ utf8_i_acute @ ''a L'' @ utf8_o_acute @ ''pez'', ''EST102'', ''sofia@email.com''),
      (''Miguel '' @ [CHR 0xC3, CHR 0x81] @ ''ngel Castro'', ''EST103'', ''miguel@email.com''),
      (''Valentina Ruiz'', ''EST104'', ''valentina@email.com''),
      (''Andr'' @ utf8_e_acute @ ''s Moreno'', ''EST105'', ''andres@email.com'')]"

definition demostrar_instanciacion_multiple :: "aula \<Rightarrow> string list \<times> aula" where
  "demostrar_instanciacion_multiple w0 =
     (let b = length (alumnos w0);
          w1 = fold (\<lambda>(n, c, e). aula_step (NuevoEstudiante n c e)) datos_estudiantes w0;
          mat = ''Matem'' @ utf8_a_acute @ ''ticas'';
          w2 = fold aula_step [AsignarNota b mat 4.5, AsignarNota (b + 1) mat 3.8, AsignarNota (b + 2) mat 4.9] w1
      in (map (\<lambda>(n, c, e). check @ '' Estudiante creado: '' @ estudiante_str (Estudiante n c e)) datos_estudiantes,
          w2))"

definition demostrar_instanciacion_con_valores_por_defecto :: "string list" where
  "demostrar_instanciacion_con_valores_por_defecto =
     [''Producto 1: '' @ producto_str (Producto ''Laptop'' 12000 None None),
      ''Producto 2: '' @ producto_str (Producto ''Mouse'' 250 (Some 50) None),
      ''Producto 3: '' @ producto_str (Producto ''Teclado'' 750 (Some 30) (Some (''Perif'' @ utf8_e_acute @ ''ricos''))),
      ''Producto 4: '' @ producto_str (Producto ''Monitor'' 3000 (Some 15) (Some (''Electr'' @ utf8_o_acute @ ''nica'')))]"

text \<open>\<open>demostrar_instanciacion_dinamica\<close>: \<open>Persona(**datos)\<close> binds the keys of each
  dictionary to the parameters of the same name.\<close>

definition datos_personas :: "(string \<times> int \<times> string) list" where
  "datos_personas =
     [(''Alberto S'' @ utf8_a_acute @ ''nchez'', 45, ''111222333''),
      (''Beatriz Ramos'', 32, ''444555666''),
      (''Carlos Vega'', 27, ''777888999'')]"

definition demostrar_instanciacion_dinamica :: "persona_mundo \<Rightarrow> string list \<times> persona_mundo" where
  "demostrar_instanciacion_dinamica w0 =
     (let (ps, w) = fold (\<lambda>(n, e, i) (ps, w). let (p, w') = Persona n e i w in (ps @ [p], w'))
                      datos_personas ([], w0)
      in (map (\<lambda>p. check @ '' Creado: '' @ persona_str p) ps @ map saludar ps, w))"

definition demostrar_instanciacion_compleja :: "aula \<Rightarrow> string list \<times> aula" where
  "demostrar_instanciacion_compleja w0 =
     (let b = length (alumnos w0); k = length (cursos w0);
          ops = [NuevoEstudiante ''Gabriela Mendoza'' ''EST201'' ''gabriela@email.com'',
                 NuevoEstudiante ''Fernando Ortiz'' ''EST202'' ''fernando@email.com'',
                 NuevoEstudiante ''Isabella Cruz'' ''EST203'' ''isabella@email.com'',
                 NuevoCurso ''Desarrollo Web con Django'' ''WEB401'' ''Ing. Patricia Herrera'' 16,
                 AgregarModulo k 1 ''Fundamentos de Django'' 25 [''MVT'', ''URLs'', ''Vistas'', ''Templates''],
                 AgregarModulo k 2 ''Base de datos y ORM'' 30 [''Modelos'', ''Migraciones'', ''Queries'', ''Admin''],
                 InscribirEstudiante k b, InscribirEstudiante k (b + 1), InscribirEstudiante k (b + 2)];
          w = fold aula_step ops w0
      in ([check @ '' '' @ estudiante_str (alumnos w ! b), check @ '' '' @ estudiante_str (alumnos w ! (b + 1)),
           check @ '' '' @ estudiante_str (alumnos w ! (b + 2)), check @ '' '' @ curso_str (Curso ''Desarrollo Web con Django'' ''WEB401'' ''Ing. Patricia Herrera'' 16),
           obtener_resumen (cursos w ! k)], w))"

text \<open>\<open>demostrar_metodos_alternativos_instanciacion\<close>, given the date of
  \<open>datetime.now()\<close>.\<close>

definition demostrar_metodos_alternativos_instanciacion :: "int \<times> int \<times> int \<Rightarrow> inst_exc + string list" where
  "demostrar_metodos_alternativos_instanciacion ahora =
     (case desde_string ''25-12-2025'' of
        Inl x \<Rightarrow> Inl x
      | Inr fecha2 \<Rightarrow>
          Inr [''Fecha 1: '' @ fecha_str (Fecha 15 11 2025), ''Fecha 2: '' @ fecha_str fecha2,
               ''Fecha 3 (hoy): '' @ fecha_str (fecha_hoy ahora), ''Fecha 4: '' @ fecha_str (anio_nuevo 2026)])"

text \<open>\<open>isinstance(x, int)\<close> also holds for a \<open>bool\<close>.\<close>

definition verificar_instancias :: "persona_mundo \<Rightarrow> aula \<Rightarrow> string list \<times> persona_mundo \<times> aula" where
  "verificar_instancias w0 a0 =
     (let (p, w) = Persona ''Test Persona'' 25 ''123'' w0;
          a = aula_step (NuevoEstudiante ''Test Estudiante'' ''EST999'' ''test@email.com'') a0;
          numero = PInt 42; texto = PStr ''Hola mundo''
      in ([''persona es instancia de Persona: '' @ py_bool True,
           ''estudiante es instancia de Estudiante: '' @ py_bool True,
           ''numero es instancia de int: '' @ py_bool (py_type numero \<in> {IntType, BoolType}),
           ''texto es instancia de str: '' @ py_bool (py_type texto = StrType),
           ''type(persona): <class '' @ comilla @ ''persona.Persona'' @ comilla @ ''>'',
           ''type(estudiante): <class '' @ comilla @ ''curso_estudiante.Estudiante'' @ comilla @ ''>'',
           ''type(numero): <class '' @ comilla @ ''int'' @ comilla @ ''>'',
           ''type(texto): <class '' @ comilla @ ''str'' @ comilla @ ''>'',
           ''Nombre de la clase: Persona'',
           ''M'' @ utf8_o_acute @ ''dulo: persona''], w, a))"

text \<open>\<open>__main__\<close>: the seven demonstrations in order, sharing the class state.\<close>

definition instanciacion_main ::
  "int \<times> int \<times> int \<Rightarrow> inst_exc + string list \<times> persona_mundo \<times> aula" where
  "instanciacion_main ahora =
     (let (o1, w1) = demostrar_instanciacion_basica persona_clase_inicial;
          (o2, a2) = demostrar_instanciacion_multiple aula_inicial;
          o3 = demostrar_instanciacion_con_valores_por_defecto;
          (o4, w4) = demostrar_instanciacion_dinamica w1;
          (o5, a5) = demostrar_instanciacion_compleja a2
      in case demostrar_metodos_alternativos_instanciacion ahora of
           Inl x \<Rightarrow> Inl x
         | Inr o6 \<Rightarrow>
             (let (o7, w7, a7) = verificar_instancias w4 a5
              in Inr (o1 @ o2 @ o3 @ o4 @ o5 @ o6 @ o7, w7, a7)))"

section \<open>Lemmas and properties\<close>

lemma digito_nth: "k < 10 \<Longrightarrow> of_char (''0123456789'' ! k) = (48 + k :: nat)"
proof -
  have "list_all (\<lambda>k. of_char (''0123456789'' ! k) = (48 + k :: nat)) [0..<10]" by code_simp
  moreover assume "k < 10"
  ultimately show ?thesis by (simp add: list_all_iff)
qed

lemma py_valor_decimal_snoc:
  "py_es_digito c \<Longrightarrow> py_valor_decimal (xs @ [c]) = 10 * py_valor_decimal xs + int (of_char c - 48)"
  by (simp add: py_valor_decimal_def)

lemma py_digits_unfold:
  "py_digits n = (if n < 10 then [''0123456789'' ! (n mod 10)]
                  else py_digits (n div 10) @ [''0123456789'' ! (n mod 10)])"
  by (simp only: py_digits.simps [of n] Let_def)

lemma py_digits_ok: "list_all py_es_digito (py_digits n) \<and> py_digits n \<noteq> [] \<and>
  py_valor_decimal (py_digits n) = int n"
proof (induction n rule: py_digits.induct)
  case (1 n)
  define c where "c = ''0123456789'' ! (n mod 10)"
  have u: "py_digits n = (if n < 10 then [c] else py_digits (n div 10) @ [c])"
    unfolding c_def by (rule py_digits_unfold)
  have k: "of_char c = (48 + n mod 10 :: nat)" unfolding c_def by (rule digito_nth) simp
  have d: "py_es_digito c" "int (of_char c - 48) = int (n mod 10)"
    using k by (simp_all add: py_es_digito_def)
  have "10 * (n div 10) + n mod 10 = n" by simp
  then have n: "10 * int (n div 10) + int (n mod 10) = int n" by (metis of_nat_add of_nat_mult of_nat_numeral)
  show ?case
  proof (cases "n < 10")
    case True
    with u d show ?thesis by (simp add: py_valor_decimal_def del: py_digits.simps)
  next
    case False
    with 1 u d n show ?thesis by (simp add: py_valor_decimal_snoc del: py_digits.simps)
  qed
qed


lemma py_valor_decimal_ceros: "py_valor_decimal (replicate k (CHR ''0'') @ s) = py_valor_decimal s"
proof -
  have z: "foldl (\<lambda>n c. 10 * n + int (of_char c - 48)) 0 (replicate k (CHR ''0'')) = 0"
    by (induction k) simp_all
  have "py_es_digito (CHR ''0'')" by (simp add: py_es_digito_def)
  with z show ?thesis by (simp add: py_valor_decimal_def)
qed

lemma py_decimal_ok_digitos: "list_all py_es_digito s \<Longrightarrow> s \<noteq> [] \<Longrightarrow> py_decimal_ok s"
proof -
  assume d: "list_all py_es_digito s" and ne: "s \<noteq> []"
  have "\<not> py_es_digito (CHR ''_'')" by (simp add: py_es_digito_def)
  with d have "\<not> sublist ''__'' s"
    by (auto simp: list_all_iff dest!: set_mono_sublist)
  with d ne show ?thesis by (auto simp: py_decimal_ok_def list_all_iff)
qed

lemma py_strip_digitos: "list_all py_es_digito s \<Longrightarrow> py_strip s = s"
proof -
  assume d: "list_all py_es_digito s"
  have ns: "\<And>c. py_es_digito c \<Longrightarrow> \<not> py_is_space c" by (auto simp: py_es_digito_def py_is_space_def)
  have "dropWhile py_is_space s = s"
    using d by (cases s) (auto simp: ns)
  moreover have "dropWhile py_is_space (rev s) = rev s"
    using d by (cases "rev s") (auto simp: ns list_all_iff dest: arg_cong [where f = set])
  ultimately show ?thesis by (simp add: py_strip_def)
qed

lemma py_int_digitos: "list_all py_es_digito s \<Longrightarrow> s \<noteq> [] \<Longrightarrow> py_int s = Some (py_valor_decimal s)"
proof -
  assume d: "list_all py_es_digito s" and ne: "s \<noteq> []"
  then obtain c ds where s: "s = c # ds" by (cases s) auto
  with d have "c \<noteq> CHR ''-''" "c \<noteq> CHR ''+''" by (auto simp: py_es_digito_def)
  with s d ne show ?thesis by (simp add: py_int_def py_strip_digitos py_decimal_ok_digitos)
qed

lemma py_fmt_02d_nonneg:
  "0 \<le> n \<Longrightarrow> py_fmt_02d n = replicate (2 - length (py_digits (nat n))) (CHR ''0'') @ py_digits (nat n)"
  by (simp add: py_fmt_02d_def Let_def del: py_digits.simps)

lemma py_fmt_02d_int:
  assumes "0 \<le> n"
  shows "list_all py_es_digito (py_fmt_02d n) \<and> py_fmt_02d n \<noteq> [] \<and> py_int (py_fmt_02d n) = Some n"
proof -
  have z: "py_es_digito (CHR ''0'')" by (simp add: py_es_digito_def)
  have ok: "list_all py_es_digito (py_digits (nat n))" "py_digits (nat n) \<noteq> []"
    "py_valor_decimal (py_digits (nat n)) = n"
    using py_digits_ok [of "nat n"] assms by simp_all
  have all: "list_all py_es_digito (py_fmt_02d n)"
    using z ok(1) assms by (auto simp: py_fmt_02d_nonneg list_all_iff in_set_replicate simp del: py_digits.simps)
  have ne: "py_fmt_02d n \<noteq> []" using ok(2) assms by (simp add: py_fmt_02d_nonneg del: py_digits.simps)
  have "py_valor_decimal (py_fmt_02d n) = n"
    using ok(3) assms by (simp add: py_fmt_02d_nonneg py_valor_decimal_ceros del: py_digits.simps)
  with all ne show ?thesis by (simp add: py_int_digitos)
qed

lemma py_str_int_nonneg:
  assumes "0 \<le> n"
  shows "list_all py_es_digito (py_str_int n) \<and> py_str_int n \<noteq> [] \<and> py_int (py_str_int n) = Some n"
  using py_digits_ok [of "nat n"] assms
  by (simp add: py_str_int_def py_int_digitos del: py_digits.simps)


lemma py_split_sin: "c \<notin> set xs \<Longrightarrow> py_split c xs = [xs]"
  by (induction xs) (auto simp: Let_def)

lemma py_split_sep: "c \<notin> set xs \<Longrightarrow> py_split c (xs @ c # ys) = xs # py_split c ys"
  by (induction xs) (auto simp: Let_def)

lemma digitos_sin: "list_all py_es_digito s \<Longrightarrow> \<not> py_es_digito c \<Longrightarrow> c \<notin> set s"
  by (auto simp: list_all_iff)

lemma fecha_eta: "Fecha (dia f) (mes f) (anio f) = f"
  by (cases f) (simp add: Fecha_def)

text \<open>C33 (roundtrip): \<open>Fecha.desde_string\<close> parses the \<open>DD-MM-AAAA\<close> format its docstring names: for every date with non-negative fields, the text \<open>__str__\<close> prints with each \<open>/\<close> replaced by \<open>-\<close> parses back to the same date; the text \<open>__str__\<close> itself prints, with \<open>/\<close>, does not parse and raises \<open>ValueError\<close>.\<close>

theorem fecha_roundtrip:
  "0 \<le> dia f \<Longrightarrow> 0 \<le> mes f \<Longrightarrow> 0 \<le> anio f \<Longrightarrow>
   desde_string (map (\<lambda>c. if c = CHR ''/'' then CHR ''-'' else c) (fecha_str f)) = Inr f \<and>
   desde_string (fecha_str f) = Inl ValueError"
proof -
  assume d: "0 \<le> dia f" and m: "0 \<le> mes f" and a: "0 \<le> anio f"
  define D M A where "D = py_fmt_02d (dia f)" and "M = py_fmt_02d (mes f)" and "A = py_str_int (anio f)"
  have okD: "list_all py_es_digito D" "py_int D = Some (dia f)"
    using py_fmt_02d_int [OF d] unfolding D_def by simp_all
  have okM: "list_all py_es_digito M" "py_int M = Some (mes f)"
    using py_fmt_02d_int [OF m] unfolding M_def by simp_all
  have okA: "list_all py_es_digito A" "py_int A = Some (anio f)"
    using py_str_int_nonneg [OF a] unfolding A_def by simp_all
  have nd: "\<not> py_es_digito (CHR ''-'')" "\<not> py_es_digito (CHR ''/'')" by (simp_all add: py_es_digito_def)
  have s: "fecha_str f = D @ CHR ''/'' # M @ CHR ''/'' # A"
    by (simp add: fecha_str_def D_def M_def A_def)
  have id: "map (\<lambda>c. if c = CHR ''/'' then CHR ''-'' else c) X = X" if "list_all py_es_digito X" for X
  proof -
    from that nd(2) have "CHR ''/'' \<notin> set X" by (rule digitos_sin)
    then show ?thesis by (intro map_idI) auto
  qed
  have "map (\<lambda>c. if c = CHR ''/'' then CHR ''-'' else c) (fecha_str f) = D @ CHR ''-'' # M @ CHR ''-'' # A"
    by (simp add: s id okD okM okA)
  moreover have "py_split (CHR ''-'') (D @ CHR ''-'' # M @ CHR ''-'' # A) = [D, M, A]"
    using digitos_sin [OF okD(1) nd(1)] digitos_sin [OF okM(1) nd(1)] digitos_sin [OF okA(1) nd(1)]
    by (simp add: py_split_sep py_split_sin)
  moreover have "py_split (CHR ''-'') (fecha_str f) = [fecha_str f]"
    using digitos_sin [OF okD(1) nd(1)] digitos_sin [OF okM(1) nd(1)] digitos_sin [OF okA(1) nd(1)]
    by (intro py_split_sin) (simp add: s)
  ultimately show ?thesis
    using okD okM okA by (simp add: desde_string_def fecha_eta split: option.splits)
qed

theorem fecha_roundtrip_witness:
  "desde_string (map (\<lambda>c. if c = CHR ''/'' then CHR ''-'' else c) (fecha_str (Fecha 15 11 2025))) = Inr (Fecha 15 11 2025) \<and>
   desde_string (fecha_str (Fecha 15 11 2025)) = Inl ValueError"
proof -
  have "0 \<le> dia (Fecha 15 11 2025)" "0 \<le> mes (Fecha 15 11 2025)" "0 \<le> anio (Fecha 15 11 2025)"
    by (simp_all add: Fecha_def)
  from fecha_roundtrip [OF this] show ?thesis .
qed

end
