(* ===== verification/Spec2Isabelle.thy ===== *)
theory Spec2Isabelle
  imports Catalog_Spec Client_Script Persona Curso_Estudiante Empleados Animales Instanciacion
begin

text \<open>
  A verification library for the repository \<^verbatim>\<open>2.Clases_Objetos\<close>: Python teaching
  material on classes, aggregation and composition, instantiation, inheritance and
  polymorphism, and a small library application (a book catalog served over HTTP by
  Flask and by FastAPI, and a client script that exercises it) built on the class
  \<open>Libro\<close>. Every theory models the code of one source file; objects are records,
  class attributes and the objects a program creates are explicit state (a list
  addressed by creation order), exceptions are the left side of a sum type, and each
  \<open>__main__\<close> block is a program run over that state.

  \<^bold>\<open>Layout.\<close>
  \<^item> \<open>Prelude\<close>: Python values (\<open>pyval\<close>) with \<open>bool()\<close>, \<open>==\<close>, \<open>in\<close>,
    subscripting and \<open>len\<close> as CPython defines them; \<open>str()\<close> of an \<open>int\<close> and of a
    one-decimal \<open>float\<close> (\<open>decimas\<close>, integer tenths); \<open>map_first\<close>, the list after a
    mutation through the result of a linear search; shared list lemmas.
  \<^item> \<open>Libro\<close>: \<^verbatim>\<open>src/Tutorial_Backend_API_REST_Python/Libro.py\<close>, a record of six
    Python values with a setter definition per property, \<open>loan\<close>, \<open>return_book\<close>
    and the JSON serialisation; both applications update books through the setters.
  \<^item> \<open>Catalog_FastAPI\<close>: \<^verbatim>\<open>src/6_Biblioteca_python/app_fastapi.py\<close>. The state is
    the module list \<open>libros\<close>; each endpoint maps its arguments and the list to the
    response (or the raised \<open>HTTPException\<close>) and the new list; \<open>fa_handle\<close> is the
    route table, \<open>fa_serve\<close> parses bodies and paths, \<open>fa_run\<close> serves a sequence.
  \<^item> \<open>Catalog_Spec\<close>: the abstract \<open>BookCatalog\<close> of the specification and the
    refinement of it by the FastAPI route table through \<open>fa_abs\<close>.
  \<^item> \<open>Catalog_Flask\<close>: \<^verbatim>\<open>src/6_Biblioteca_python/app_flask.py\<close>; the body is the
    decoded JSON of any shape, caught exceptions are 500 responses.
  \<^item> \<open>Client_Script\<close>: \<^verbatim>\<open>src/6_Biblioteca_python/ejemplo_pruebas.py\<close>, the nine
    requests of the test script against either server (an interface \<open>'r server\<close>
    both catalogs implement) and the interactive menu \<open>main\<close>, a terminating
    function over the list of inputs.
  \<^item> \<open>Persona\<close>: \<^verbatim>\<open>src/1_Creacion_Clases/persona.py\<close>, with the class counter.
  \<^item> \<open>Curso_Estudiante\<close>: \<^verbatim>\<open>src/2_Agregacion_Composicion/curso_estudiante.py\<close>;
    students and courses in one store (\<open>aula\<close>), the course life cycle as an
    inductive transition relation.
  \<^item> \<open>Instanciacion\<close>: \<^verbatim>\<open>src/3_Instanciacion/instanciacion_ejemplos.py\<close>,
    \<open>Producto\<close>, \<open>Fecha\<close> with \<open>str.split\<close> and \<open>int()\<close>, and the demonstrations over
    the \<open>Persona\<close> and \<open>Curso_Estudiante\<close> state.
  \<^item> \<open>Animales\<close>: \<^verbatim>\<open>src/4_Herencia/animales_herencia.py\<close>; the class hierarchy
    with its MRO (the subclass relation is an instance of \<open>order\<close>), method lookup
    along the MRO, \<open>super()\<close>, \<open>AttributeError\<close>, and \<open>random.choice\<close> as an input.
  \<^item> \<open>Empleados\<close>: \<^verbatim>\<open>src/5_Polimorfismo/empleados_polimorfismo.py\<close>; overriding
    by cases on per-class data (one salary function per subclass, dispatched by
    \<open>salario_datos\<close>), the class counter, the payroll \<open>SistemaNomina\<close>.

  \<^bold>\<open>Properties.\<close> FastAPI (C1 to C10): unique ISBNs and well-typed books in every
  reachable state; failing requests leave the catalog unchanged; the 404 and 400
  paths; the loan scenario; partial updates; the two filters (each returns only books
  of its availability, and together they split the listing); creation in order; the
  JSON round trip; refinement of the specification's catalog by the route table
  (C10). Flask (C11 to C16): uniqueness under Python's \<open>==\<close>, error atomicity,
  creation, the partial PUT, the unreachable non-string ISBN, and availability by
  Python truth (a string such as \<open>"false"\<close> counts as available). Client (C17,
  C34): the menu sends at most one request per line read, and its loop ends through
  \<open>q\<close> after serving the chosen tests. Persona (C18, C19): the counter invariant and
  monotone age (a lemma shows the age check is never applied). Curso (C20 to C24):
  every course can always be finished (liveness), the store invariant, the bounded
  average, the life cycle (one stage at most per statement, \<open>Finalizado\<close> final), and
  the drop that removes only the course side of the aggregation. Payroll (C25 to C29):
  the employee numbering invariant, the payroll total against its closed form
  (equivalence), the bounds of the statistics, completing a project, and benefits left
  out of the payroll total. Animals (C30 to C32): a call fails exactly when lookup
  finds no method, the class invariants behind \<open>moverse\<close>, and
  \<open>super().obtener_info()\<close>. Instantiation (C33): the date print/parse round trip and
  its failure on the program's own output. The runs of the \<open>__main__\<close> blocks and of
  the client script on their fixed inputs are evaluated by lemmas next to these
  properties (\<open>persona_demo_salida\<close>, \<open>curso_demo_baja\<close>, \<open>nomina_demo_resultados\<close>,
  \<open>animales_main_salida\<close>, \<open>fastapi_script_run\<close>, \<open>flask_script_run\<close>,
  \<open>main_all_then_quit\<close>, \<open>fa_patch_empty_title\<close>, \<open>fa_patch_sets_availability\<close>).

  \<^bold>\<open>Bounds and inputs.\<close> No fuel is used: every loop of the sources runs over a
  finite list and is structural recursion or a \<open>fold\<close>; the menu loop \<open>main\<close>
  terminates by the length of its input. Values the sources take from outside are
  inputs of the model: the date of \<open>datetime.now()\<close>, the draw of
  \<open>random.choice\<close>, the lines typed at the menu.

  \<^bold>\<open>Not modelled.\<close> Printing is modelled only as the list of printed lines of
  object and method values, and banners are not. The payroll's
  \<open>mostrar_informacion\<close> is modelled for the base class and for the full-time and
  freelance overrides, whose \<open>:,.2f\<close> format is \<open>py_fmt_miles_2f\<close> (rounding half to
  even on the real); the hourly and commission overrides print float reprs such as
  \<open>porcentaje_comision*100\<close>, which depend on binary rounding, and are not modelled,
  nor is \<open>Estudiante.obtener_info\<close>, which prints grades the same way. FastAPI's
  \<open>response_model\<close> check is not applied by the handlers; \<open>libro_output_valid\<close>
  states it and a lemma shows every book of a catalog of the invariant passes it. \<open>id()\<close>
  values are interpreter addresses and are not printed by the model. Float rounding
  is not modelled (money and grades are exact reals, weights one-decimal tenths).
  The HTTP transport and the frameworks' request parsing before the decoded body are
  not modelled. Non-ASCII digits and whitespace in \<open>int()\<close> and \<open>strip()\<close> are not
  modelled; strings are UTF-8 byte lists.
\<close>

end
